theory Spec2Isabelle
  imports Main "HOL-Library.Sublist"
begin

section \<open>The authorization state machine\<close>

text \<open>
  The Go type \<open>State\<close> is an \<open>int\<close> enumeration with five named constants; the struct
  \<open>stateMachine\<close> holds one \<open>State\<close> behind a \<open>sync.RWMutex\<close>. Every method takes the
  lock for its whole body, so each method is an atomic function on the field \<open>state\<close>;
  the mutex itself carries no data and is not a field of the record.
\<close>

datatype State = StateInit | StateActive | StateGrace | StateLocked | StateBanned

record stateMachine =
  state :: State

definition newStateMachine :: stateMachine where
  "newStateMachine = \<lparr>state = StateInit\<rparr>"

definition Current :: "stateMachine \<Rightarrow> State" where
  "Current sm = state sm"

definition OnVerifySuccess :: "stateMachine \<Rightarrow> stateMachine" where
  "OnVerifySuccess sm =
     (if state sm = StateInit \<or> state sm = StateGrace then sm\<lparr>state := StateActive\<rparr> else sm)"

definition OnHeartbeatOK :: "stateMachine \<Rightarrow> stateMachine" where
  "OnHeartbeatOK sm =
     (if state sm = StateGrace \<or> state sm = StateActive then sm\<lparr>state := StateActive\<rparr> else sm)"

definition OnHeartbeatFail :: "stateMachine \<Rightarrow> stateMachine" where
  "OnHeartbeatFail sm =
     (if state sm = StateActive then sm\<lparr>state := StateGrace\<rparr> else sm)"

definition OnKill :: "stateMachine \<Rightarrow> stateMachine" where
  "OnKill sm = sm\<lparr>state := StateBanned\<rparr>"

definition OnGracePeriodExpired :: "stateMachine \<Rightarrow> stateMachine" where
  "OnGracePeriodExpired sm =
     (if state sm = StateGrace then sm\<lparr>state := StateLocked\<rparr> else sm)"

text \<open>
  The five mutating methods, as the events a caller can send, and a run of the machine
  over any finite sequence of them.
\<close>

datatype sm_event =
  EvVerifySuccess | EvHeartbeatOK | EvHeartbeatFail | EvGracePeriodExpired | EvKill

fun fire :: "sm_event \<Rightarrow> stateMachine \<Rightarrow> stateMachine" where
  "fire EvVerifySuccess sm = OnVerifySuccess sm"
| "fire EvHeartbeatOK sm = OnHeartbeatOK sm"
| "fire EvHeartbeatFail sm = OnHeartbeatFail sm"
| "fire EvGracePeriodExpired sm = OnGracePeriodExpired sm"
| "fire EvKill sm = OnKill sm"

fun fire_all :: "sm_event list \<Rightarrow> stateMachine \<Rightarrow> stateMachine" where
  "fire_all [] sm = sm"
| "fire_all (e # es) sm = fire_all es (fire e sm)"

section \<open>Errors\<close>

text \<open>
  Go errors are values compared by identity. Each package-level sentinel created by
  \<open>errors.New\<close> is a constructor of its own; \<open>Errorf\<close> stands for an error that wraps
  no sentinel (an error of the standard library, or \<open>fmt.Errorf\<close> without \<open>%w\<close>) and
  carries its message; \<open>Wrapf base cause\<close> is \<open>fmt.Errorf("%w: %v", base, cause)\<close>, a
  fresh error that wraps \<open>base\<close> and keeps of \<open>cause\<close> only its rendering;
  \<open>Prefixf text cause\<close> is \<open>fmt.Errorf("text: %w", cause)\<close>, a fresh error that wraps
  \<open>cause\<close>. The four \<open>ErrUpdate...\<close> sentinels are used by \<open>updater.go\<close>; they are
  sentinels like the others.
\<close>

datatype error =
    ErrLicenseInvalid | ErrLicenseExpired | ErrLicenseSuspended | ErrMachineBanned
  | ErrMaxMachinesExceeded | ErrProjectNotAuthorized | ErrUpdateFrozen | ErrNetworkError
  | ErrInvalidServerResponse | ErrNotActivated | ErrLocked | ErrBanned
  | ErrUpdateDownload | ErrUpdateVerify | ErrUpdateApply | ErrUpdateRollback
  | Errorf string
  | Wrapf error error
  | Prefixf string error

definition isFatalError :: "error \<Rightarrow> bool" where
  "isFatalError err = (err = ErrBanned \<or> err = ErrLicenseSuspended \<or> err = ErrMachineBanned)"

section \<open>Configuration and the Guard\<close>

text \<open>
  \<open>time.Duration\<close> is an \<open>int64\<close> count of nanoseconds. The three callbacks of
  \<open>OTAConfig\<close> are functions of the host application; the model keeps whether each is
  set (the source tests \<open>!= nil\<close> before every call) and records every call it makes as
  an event. \<open>PostUpdate\<close> is \<open>None\<close> for a nil hook, otherwise the result the hook
  returns when it is called. \<open>UpdateStrategy\<close> is an \<open>int\<close> with two named constants.
\<close>

type_synonym Duration = int

record GracePolicy =
  MaxOfflineDuration :: Duration
  WarningInterval :: Duration

record OTAConfig =
  Enabled :: bool
  AutoUpdate :: bool
  CheckInterval :: Duration
  OS :: string
  Arch :: string
  DownloadTimeout :: Duration
  MaxArtifactBytes :: int
  OnUpdateProgress :: bool
  OnUpdateResult :: bool
  OnUpdateFailure :: bool

type_synonym UpdateStrategy = int

definition UpdateBackend :: UpdateStrategy where
  "UpdateBackend = 0"

definition UpdateFrontend :: UpdateStrategy where
  "UpdateFrontend = 1"

record ManagedComponent =
  Slug :: string
  Dir :: string
  Strategy :: UpdateStrategy
  PostUpdate :: "error option option"

record Config =
  ServerURL :: string
  LicenseKey :: string
  PublicKeyPEM :: "string option"
  ProjectSlug :: string
  ComponentSlug :: string
  HeartbeatInterval :: Duration
  GracePolicy :: GracePolicy
  OTA :: OTAConfig
  ManagedComponents :: "ManagedComponent list"

text \<open>
  The fields of \<open>Guard\<close> that hold data: the configuration, the decoded public key, the
  fingerprint, the state machine, the primary version and the map of managed versions.
  The HTTP client, the cancel function, the two mutexes and the logger carry no data of
  the model. A Go map read of an absent key gives the empty string.
\<close>

record Fingerprint =
  machineID :: string
  auxSignals :: "string \<rightharpoonup> string"

record Guard =
  cfg :: Config
  publicKey :: string
  fingerprint :: Fingerprint
  sm :: stateMachine
  version :: string
  managedVersions :: "string \<rightharpoonup> string"

definition map_get :: "(string \<rightharpoonup> string) \<Rightarrow> string \<Rightarrow> string" where
  "map_get m k = (case m k of None \<Rightarrow> [] | Some v \<Rightarrow> v)"

section \<open>Heartbeat\<close>

record updateInfo =
  Component :: string
  CurrentVersion :: string
  Latest :: string
  UpdateAvailable :: bool
  Mandatory :: bool
  ReleaseNotes :: string

record heartbeatResponse =
  Status :: string
  ServerTime :: string
  NextInterval :: int
  UpdateFrozen :: bool
  Updates :: "updateInfo list"
  Reason :: string
  Message :: string

text \<open>
  \<open>handleUpdateNotification\<close> starts at most one goroutine. The model returns the
  goroutines it starts, in order: \<open>go g.updateBackend(u)\<close> or \<open>go g.updateFrontend(mc, u)\<close>.
\<close>

datatype task =
    GoUpdateBackend updateInfo
  | GoUpdateFrontend ManagedComponent updateInfo

fun route_managed :: "Config \<Rightarrow> ManagedComponent list \<Rightarrow> updateInfo \<Rightarrow> task list" where
  "route_managed c [] u = []"
| "route_managed c (mc # mcs) u =
     (if Slug mc = Component u then
        (if AutoUpdate (OTA c) then
           (if Strategy mc = UpdateBackend then [GoUpdateBackend u]
            else if Strategy mc = UpdateFrontend then [GoUpdateFrontend mc u]
            else [GoUpdateFrontend mc u])
         else [])
      else route_managed c mcs u)"

definition handleUpdateNotification :: "Guard \<Rightarrow> updateInfo \<Rightarrow> task list" where
  "handleUpdateNotification g u =
     (if Component u = ComponentSlug (cfg g) then
        (if AutoUpdate (OTA (cfg g)) then [GoUpdateBackend u] else [])
      else route_managed (cfg g) (ManagedComponents (cfg g)) u)"

text \<open>
  \<open>sendHeartbeat\<close>. The request is built from a snapshot of the versions and sent with
  \<open>postJSON\<close>, whose outcome (an error, or the decoded response) is the input \<open>post\<close>.
  The result has the returned error (\<open>None\<close> for nil), the Guard after the call, the
  entries passed to \<open>handleUpdateNotification\<close> in order, and the goroutines started.
\<close>

record heartbeatRequest =
  req_license_key :: string
  req_machine_id :: string
  req_project_slug :: string
  req_components :: "(string \<times> string) list"

definition heartbeat_request :: "Guard \<Rightarrow> heartbeatRequest" where
  "heartbeat_request g =
     \<lparr>req_license_key = LicenseKey (cfg g),
      req_machine_id = machineID (fingerprint g),
      req_project_slug = ProjectSlug (cfg g),
      req_components =
        (ComponentSlug (cfg g), version g)
        # map (\<lambda>mc. (Slug mc, map_get (managedVersions g) (Slug mc)))
            (ManagedComponents (cfg g))\<rparr>"

record heartbeatResult =
  hb_err :: "error option"
  hb_guard :: Guard
  hb_notified :: "updateInfo list"
  hb_tasks :: "task list"

definition update_notifications :: "Guard \<Rightarrow> heartbeatResponse \<Rightarrow> updateInfo list" where
  "update_notifications g resp =
     (if Enabled (OTA (cfg g)) \<and> \<not> UpdateFrozen resp
      then filter UpdateAvailable (Updates resp) else [])"

definition sendHeartbeat :: "Guard \<Rightarrow> error + heartbeatResponse \<Rightarrow> heartbeatResult" where
  "sendHeartbeat g post =
     (case post of
        Inl err \<Rightarrow>
          \<lparr>hb_err = Some (Wrapf ErrNetworkError err), hb_guard = g,
           hb_notified = [], hb_tasks = []\<rparr>
      | Inr resp \<Rightarrow>
          if Status resp = ''kill'' then
            \<lparr>hb_err = Some ErrBanned, hb_guard = g\<lparr>sm := OnKill (sm g)\<rparr>,
             hb_notified = [], hb_tasks = []\<rparr>
          else
            \<lparr>hb_err = None, hb_guard = g,
             hb_notified = update_notifications g resp,
             hb_tasks = concat (map (handleUpdateNotification g) (update_notifications g resp))\<rparr>)"

text \<open>
  The heartbeat loop of \<open>startHeartbeat\<close>. An instant is a count of nanoseconds;
  \<open>graceStart\<close> is \<open>None\<close> for the zero \<open>time.Time\<close> (which \<open>time.Now\<close> never returns)
  and \<open>IsZero\<close> tests for it. \<open>time.Since\<close> subtracts two instants and saturates at the
  bounds of \<open>int64\<close>.

  One wake of the \<open>select\<close> is a \<open>tick\<close>: the context is done, or the jitter timer fired;
  then the tick carries the outcome of \<open>postJSON\<close>, the clock as \<open>time.Now()\<close> would read
  it when the grace start is recorded, and the clock as \<open>time.Since\<close> reads it. The
  length of the jittered sleep is a floating-point product and is not part of the model.
\<close>

definition maxDuration :: Duration where
  "maxDuration = 2 ^ 63 - 1"

definition minDuration :: Duration where
  "minDuration = - (2 ^ 63)"

definition time_Sub :: "int \<Rightarrow> int \<Rightarrow> Duration" where
  "time_Sub t u =
     (if t - u > maxDuration then maxDuration
      else if t - u < minDuration then minDuration else t - u)"

datatype tick =
    CtxDone
  | TimerFired "error + heartbeatResponse" int int

datatype loop_exit = ExitCancelled | ExitFatal | ExitGraceExpired

datatype loop_status = Returned loop_exit | Waiting

record loopState =
  ls_guard :: Guard
  ls_graceStart :: "int option"
  ls_notified :: "updateInfo list"
  ls_tasks :: "task list"

text \<open>
  The body of the loop after \<open>sendHeartbeat\<close> has returned \<open>err\<close>: \<open>None\<close> in the first
  component means \<open>continue\<close> (or falling off the end of the body), \<open>Some\<close> a \<open>return\<close>.
\<close>

definition after_heartbeat ::
  "Guard \<Rightarrow> int option \<Rightarrow> error option \<Rightarrow> int \<Rightarrow> int \<Rightarrow> loop_exit option \<times> Guard \<times> int option"
where
  "after_heartbeat g graceStart err now_rec now_since =
     (case err of
        None \<Rightarrow> (None, g\<lparr>sm := OnHeartbeatOK (sm g)\<rparr>, None)
      | Some e \<Rightarrow>
          if isFatalError e then (Some ExitFatal, g\<lparr>sm := OnKill (sm g)\<rparr>, graceStart)
          else
            let g1 = g\<lparr>sm := OnHeartbeatFail (sm g)\<rparr>;
                start = (case graceStart of None \<Rightarrow> now_rec | Some t \<Rightarrow> t)
            in if time_Sub now_since start > MaxOfflineDuration (GracePolicy (cfg g))
               then (Some ExitGraceExpired, g1\<lparr>sm := OnGracePeriodExpired (sm g1)\<rparr>, Some start)
               else (None, g1, Some start))"

fun heartbeat_loop :: "loopState \<Rightarrow> tick list \<Rightarrow> loop_status \<times> loopState \<times> tick list" where
  "heartbeat_loop s [] = (Waiting, s, [])"
| "heartbeat_loop s (CtxDone # rest) = (Returned ExitCancelled, s, rest)"
| "heartbeat_loop s (TimerFired post now_rec now_since # rest) =
     (let r = sendHeartbeat (ls_guard s) post;
          (ex, g', gs') = after_heartbeat (hb_guard r) (ls_graceStart s) (hb_err r) now_rec now_since;
          s' = s\<lparr>ls_guard := g', ls_graceStart := gs',
                 ls_notified := ls_notified s @ hb_notified r,
                 ls_tasks := ls_tasks s @ hb_tasks r\<rparr>
      in case ex of
           Some e \<Rightarrow> (Returned e, s', rest)
         | None \<Rightarrow> heartbeat_loop s' rest)"

definition startHeartbeat :: "Guard \<Rightarrow> tick list \<Rightarrow> loop_status \<times> loopState \<times> tick list" where
  "startHeartbeat g ticks =
     heartbeat_loop \<lparr>ls_guard = g, ls_graceStart = None, ls_notified = [], ls_tasks = []\<rparr> ticks"

text \<open>A tick whose heartbeat fails in transport: \<open>postJSON\<close> returns the error.\<close>

definition failure_tick :: "error \<times> int \<times> int \<Rightarrow> tick" where
  "failure_tick f = (case f of (err, now_rec, now_since) \<Rightarrow> TimerFired (Inl err) now_rec now_since)"

section \<open>Construction of the Guard\<close>

text \<open>
  \<open>setDefaults\<close> fills the zero-valued settings. \<open>runtime.GOOS\<close> and \<open>runtime.GOARCH\<close>
  are constants of the build and are parameters here.
\<close>

definition hour :: Duration where
  "hour = 3600000000000"

definition minute :: Duration where
  "minute = 60000000000"

definition setDefaults :: "string \<Rightarrow> string \<Rightarrow> Config \<Rightarrow> Config" where
  "setDefaults goos goarch c0 =
     (let c1 = (if HeartbeatInterval c0 = 0 then c0\<lparr>HeartbeatInterval := 1 * hour\<rparr> else c0);
          c2 = (if MaxOfflineDuration (GracePolicy c1) = 0
                then c1\<lparr>GracePolicy := (GracePolicy c1)\<lparr>MaxOfflineDuration := 72 * hour\<rparr>\<rparr> else c1);
          c3 = (if WarningInterval (GracePolicy c2) = 0
                then c2\<lparr>GracePolicy := (GracePolicy c2)\<lparr>WarningInterval := 4 * hour\<rparr>\<rparr> else c2);
          c4 = (if CheckInterval (OTA c3) = 0
                then c3\<lparr>OTA := (OTA c3)\<lparr>CheckInterval := 6 * hour\<rparr>\<rparr> else c3);
          c5 = (if OS (OTA c4) = [] \<and> Arch (OTA c4) = []
                then c4\<lparr>OTA := (OTA c4)\<lparr>OS := goos, Arch := goarch\<rparr>\<rparr> else c4);
          c6 = (if DownloadTimeout (OTA c5) = 0
                then c5\<lparr>OTA := (OTA c5)\<lparr>DownloadTimeout := 10 * minute\<rparr>\<rparr> else c5);
          c7 = (if MaxArtifactBytes (OTA c6) = 0
                then c6\<lparr>OTA := (OTA c6)\<lparr>MaxArtifactBytes := 500 * 1024 * 1024\<rparr>\<rparr> else c6)
      in c7)"

text \<open>
  What \<open>New\<close> takes from the platform: the build's OS and architecture, \<open>pem.Decode\<close>
  (the bytes of the first PEM block, \<open>None\<close> when the input holds no block), the outcome
  of \<open>machineid.ProtectedID\<close>, the hexadecimal SHA-256 of a string, and the auxiliary
  signals \<open>collectFingerprint\<close> gathers.
\<close>

record platform =
  goos :: string
  goarch :: string
  pem_Decode :: "string \<Rightarrow> string option"
  protectedID :: "error + string"
  hex_sha256 :: "string \<Rightarrow> string"
  aux :: "string \<rightharpoonup> string"

definition ed25519_PublicKeySize :: nat where
  "ed25519_PublicKeySize = 32"

definition collectFingerprint :: "platform \<Rightarrow> error + Fingerprint" where
  "collectFingerprint pf =
     (case protectedID pf of
        Inl err \<Rightarrow> Inl (Prefixf ''collect machine id'' err)
      | Inr mid \<Rightarrow> Inr \<lparr>machineID = ''sha256:'' @ hex_sha256 pf mid, auxSignals = aux pf\<rparr>)"

fun init_managedVersions :: "ManagedComponent list \<Rightarrow> (string \<rightharpoonup> string) \<Rightarrow> (string \<rightharpoonup> string)" where
  "init_managedVersions [] m = m"
| "init_managedVersions (mc # mcs) m = init_managedVersions mcs (m(Slug mc \<mapsto> ''unknown''))"

text \<open>
  \<open>New\<close> returns the error or the Guard. The size message of the source also prints the
  two lengths.
\<close>

definition New :: "platform \<Rightarrow> Config \<Rightarrow> error + Guard" where
  "New pf cfg0 =
     (let c = setDefaults (goos pf) (goarch pf) cfg0 in
      if ServerURL c = [] then Inl (Errorf ''server_url is required'')
      else if LicenseKey c = [] then Inl (Errorf ''license_key is required'')
      else case PublicKeyPEM c of
        None \<Rightarrow> Inl (Errorf ''public_key_pem is required'')
      | Some pem \<Rightarrow>
          if ProjectSlug c = [] then Inl (Errorf ''project_slug is required'')
          else if ComponentSlug c = [] then Inl (Errorf ''component_slug is required'')
          else case pem_Decode pf pem of
            None \<Rightarrow> Inl (Errorf ''failed to decode public key PEM'')
          | Some bytes \<Rightarrow>
              if length bytes \<noteq> ed25519_PublicKeySize
              then Inl (Errorf ''invalid ed25519 public key size'')
              else case collectFingerprint pf of
                Inl err \<Rightarrow> Inl (Prefixf ''collect fingerprint'' err)
              | Inr fp \<Rightarrow>
                  Inr \<lparr>cfg = c, publicKey = bytes, fingerprint = fp, sm = newStateMachine,
                       version = ''unknown'',
                       managedVersions = init_managedVersions (ManagedComponents c) Map.empty\<rparr>)"

section \<open>Paths and the file system\<close>

text \<open>
  The functions of \<open>path/filepath\<close> the source calls, for the slash-separated paths of
  Unix, as the package documents them. \<open>Clean\<close> drops empty and \<open>.\<close> elements, lets a
  \<open>..\<close> cancel the element before it, drops a \<open>..\<close> at the root of a rooted path, and
  gives \<open>.\<close> for an empty result. \<open>Join\<close> skips leading empty elements, joins the rest
  with slashes and cleans the result. \<open>Dir\<close> cleans the path up to its last slash.
  \<open>strings.HasPrefix\<close> is \<^const>\<open>prefix\<close>.
\<close>

fun splitSlash :: "string \<Rightarrow> string list" where
  "splitSlash [] = [[]]"
| "splitSlash (c # cs) =
     (if c = CHR ''/'' then [] # splitSlash cs
      else (case splitSlash cs of [] \<Rightarrow> [[c]] | w # ws \<Rightarrow> (c # w) # ws))"

fun joinSlash :: "string list \<Rightarrow> string" where
  "joinSlash [] = []"
| "joinSlash [e] = e"
| "joinSlash (e # es) = e @ ''/'' @ joinSlash es"

text \<open>The elements kept so far are held as a stack, the last one first.\<close>

fun clean_elems :: "bool \<Rightarrow> string list \<Rightarrow> string list \<Rightarrow> string list" where
  "clean_elems rooted stack [] = stack"
| "clean_elems rooted stack (e # es) =
     (if e = [] \<or> e = ''.'' then clean_elems rooted stack es
      else if e = ''..'' then
        (case stack of
           [] \<Rightarrow> if rooted then clean_elems rooted [] es else clean_elems rooted [''..''] es
         | t # ts \<Rightarrow>
             if t = ''..'' then clean_elems rooted (''..'' # t # ts) es
             else clean_elems rooted ts es)
      else clean_elems rooted (e # stack) es)"

definition filepath_Clean :: "string \<Rightarrow> string" where
  "filepath_Clean p =
     (let rooted = (take 1 p = ''/'');
          body = joinSlash (rev (clean_elems rooted [] (splitSlash p)))
      in if rooted then ''/'' @ body else if body = [] then ''.'' else body)"

definition filepath_Join :: "string list \<Rightarrow> string" where
  "filepath_Join elems =
     (case dropWhile (\<lambda>e. e = []) elems of
        [] \<Rightarrow> []
      | es \<Rightarrow> filepath_Clean (joinSlash es))"

definition filepath_Dir :: "string \<Rightarrow> string" where
  "filepath_Dir p = filepath_Clean (rev (dropWhile (\<lambda>c. c \<noteq> CHR ''/'') (rev p)))"

text \<open>
  The file system is a map from paths to what is there. A directory made by the update
  engine holds the operations that filled it. \<open>os.ReadFile\<close> fails on anything but a
  readable file; \<open>os.Stat\<close> succeeds on anything present.
\<close>

datatype fs_op =
    MkdirAll string int
  | OpenFile string int
  | CopyTo string string

datatype node = Absent | Unreadable error | File string | Tree "fs_op list"

type_synonym fsys = "string \<Rightarrow> node"

definition os_ReadFile :: "fsys \<Rightarrow> string \<Rightarrow> error + string" where
  "os_ReadFile fs path =
     (case fs path of
        Absent \<Rightarrow> Inl (Errorf ''no such file or directory'')
      | Unreadable e \<Rightarrow> Inl e
      | File b \<Rightarrow> Inr b
      | Tree t \<Rightarrow> Inl (Errorf ''is a directory''))"

text \<open>
  The calls a function makes to the outside, in order: reads and writes of files and
  requests to the server.
\<close>

datatype effect =
    ReadFile string
  | PostJSON string
  | MkdirAllDir string int
  | WriteFile string string int

section \<open>License verification\<close>

record cachedLicense =
  cl_LicenseKey :: string
  cl_PublicData :: string
  cl_Signature :: string
  cl_VerifiedAt :: string

record verifyResponse =
  vr_Status :: string
  vr_Error :: string
  vr_Message :: string
  vr_UpdateFrozen :: bool
  vr_PublicData :: string
  vr_Signature :: string

text \<open>
  The primitives of the standard library the license and update code calls: base64
  decoding, SHA-256, hexadecimal encoding and Ed25519 verification (public key, message,
  signature).
\<close>

record primitives =
  b64_Decode :: "string \<Rightarrow> error + string"
  sha256_Sum :: "string \<Rightarrow> string"
  hex_Encode :: "string \<Rightarrow> string"
  ed25519_Verify :: "string \<Rightarrow> string \<Rightarrow> string \<Rightarrow> bool"

text \<open>
  What license verification takes from outside the repository besides the primitives:
  the home directory (\<open>os.UserHomeDir\<close>, whose error the source drops), JSON decoding and
  encoding of the cache file, the outcome of the \<open>/api/v1/verify\<close> request should it be
  made, the outcome of \<open>os.WriteFile\<close> should it be called (the source drops its error),
  the host name, the nonce and the two clock renderings. \<open>json.Marshal\<close> of a struct of
  four strings returns no error, so the early return of \<open>cacheLicense\<close> on such an error
  is not a branch here.
\<close>

record license_env = primitives +
  home :: string
  json_Unmarshal :: "string \<Rightarrow> error + cachedLicense"
  json_Marshal :: "cachedLicense \<Rightarrow> string"
  post_verify :: "error + verifyResponse"
  write_err :: "error option"
  hostname :: string
  randomNonce :: string
  nowUnix :: int
  nowRFC3339 :: string

definition cacheDir :: "license_env \<Rightarrow> Guard \<Rightarrow> string" where
  "cacheDir E g =
     filepath_Join [home E, ''.deploy-guard'', ProjectSlug (cfg g), ComponentSlug (cfg g)]"

definition cache_path :: "license_env \<Rightarrow> Guard \<Rightarrow> string" where
  "cache_path E g = filepath_Join [cacheDir E g, ''license.cache'']"

definition loadCachedLicense :: "license_env \<Rightarrow> Guard \<Rightarrow> fsys \<Rightarrow> error + cachedLicense" where
  "loadCachedLicense E g fs =
     (case os_ReadFile fs (cache_path E g) of
        Inl err \<Rightarrow> Inl err
      | Inr b \<Rightarrow> json_Unmarshal E b)"

text \<open>The first step of \<open>verifyLicense\<close>: whether the cached license is there and verifies.\<close>

definition cache_verifies :: "license_env \<Rightarrow> Guard \<Rightarrow> fsys \<Rightarrow> bool" where
  "cache_verifies E g fs =
     (case loadCachedLicense E g fs of
        Inl err \<Rightarrow> False
      | Inr cached \<Rightarrow>
          (case b64_Decode E (cl_Signature cached) of
             Inl err \<Rightarrow> False
           | Inr sig \<Rightarrow> ed25519_Verify E (publicKey g) (sha256_Sum E (cl_PublicData cached)) sig))"

record verifyRequest =
  vq_license_key :: string
  vq_machine_id :: string
  vq_aux_signals :: "string \<rightharpoonup> string"
  vq_project_slug :: string
  vq_hostname :: string
  vq_os :: string
  vq_arch :: string
  vq_nonce :: string
  vq_timestamp :: int

definition verify_request :: "license_env \<Rightarrow> Guard \<Rightarrow> verifyRequest" where
  "verify_request E g =
     \<lparr>vq_license_key = LicenseKey (cfg g),
      vq_machine_id = machineID (fingerprint g),
      vq_aux_signals = auxSignals (fingerprint g),
      vq_project_slug = ProjectSlug (cfg g),
      vq_hostname = hostname E,
      vq_os = map_get (auxSignals (fingerprint g)) ''os'',
      vq_arch = map_get (auxSignals (fingerprint g)) ''arch'',
      vq_nonce = randomNonce E,
      vq_timestamp = nowUnix E\<rparr>"

definition verify_error :: "string \<Rightarrow> error" where
  "verify_error code =
     (if code = ''license_not_found'' \<or> code = ''license_inactive'' then ErrLicenseInvalid
      else if code = ''license_expired'' then ErrLicenseExpired
      else if code = ''project_not_authorized'' then ErrProjectNotAuthorized
      else if code = ''max_machines_exceeded'' then ErrMaxMachinesExceeded
      else if code = ''machine_banned'' then ErrMachineBanned
      else Wrapf ErrLicenseInvalid (Errorf code))"

record licenseResult =
  vl_err :: "error option"
  vl_fs :: fsys
  vl_effects :: "effect list"

definition cacheLicense :: "license_env \<Rightarrow> Guard \<Rightarrow> fsys \<Rightarrow> string \<Rightarrow> string \<Rightarrow> fsys \<times> effect list" where
  "cacheLicense E g fs publicData signature =
     (let dir = cacheDir E g;
          data = \<lparr>cl_LicenseKey = LicenseKey (cfg g), cl_PublicData = publicData,
                  cl_Signature = signature, cl_VerifiedAt = nowRFC3339 E\<rparr>;
          b = json_Marshal E data;
          path = filepath_Join [dir, ''license.cache'']
      in ((case write_err E of None \<Rightarrow> fs(path := File b) | Some err \<Rightarrow> fs),
          [MkdirAllDir dir 448, WriteFile path b 384]))"

definition verifyLicense :: "license_env \<Rightarrow> Guard \<Rightarrow> fsys \<Rightarrow> licenseResult" where
  "verifyLicense E g fs =
     (if cache_verifies E g fs then
        \<lparr>vl_err = None, vl_fs = fs, vl_effects = [ReadFile (cache_path E g)]\<rparr>
      else
        (case post_verify E of
           Inl err \<Rightarrow>
             \<lparr>vl_err = Some (Wrapf ErrNetworkError err), vl_fs = fs,
              vl_effects = [ReadFile (cache_path E g), PostJSON ''/api/v1/verify'']\<rparr>
         | Inr resp \<Rightarrow>
             if vr_Error resp \<noteq> [] then
               \<lparr>vl_err = Some (verify_error (vr_Error resp)), vl_fs = fs,
                vl_effects = [ReadFile (cache_path E g), PostJSON ''/api/v1/verify'']\<rparr>
             else
               (let (fs', effs) = cacheLicense E g fs (vr_PublicData resp) (vr_Signature resp)
                in \<lparr>vl_err = None, vl_fs = fs',
                    vl_effects = [ReadFile (cache_path E g), PostJSON ''/api/v1/verify''] @ effs\<rparr>)))"

definition network_calls :: "effect list \<Rightarrow> nat" where
  "network_calls effs = length (filter (\<lambda>e. case e of PostJSON p \<Rightarrow> True | _ \<Rightarrow> False) effs)"

section \<open>The update engine\<close>

text \<open>
  Every call of one of the three callbacks of \<open>OTAConfig\<close>, and of the post-update hook
  of a managed component, is an event. The progress fraction is one of the literals
  0.0, 0.3, 0.5, 0.6, 0.8, 0.9 and 1.0 and is kept in tenths. A callback that is nil is not
  called.
\<close>

datatype callback =
    Progress string string nat
  | UpdateResult string string string bool "error option"
  | Failure string error
  | PostUpdateHook string

definition emit :: "bool \<Rightarrow> callback \<Rightarrow> callback list" where
  "emit is_set ev = (if is_set then [ev] else [])"

record downloadRequest =
  dq_license_key :: string
  dq_machine_id :: string
  dq_project_slug :: string
  dq_component_slug :: string
  dq_version :: string
  dq_os :: string
  dq_arch :: string

record downloadMeta =
  dm_DownloadURL :: string
  dm_SHA256 :: string
  dm_Signature :: string
  dm_Error :: string

text \<open>
  A tar stream as \<open>tar.Reader.Next\<close> delivers it: a header with the bytes of its entry,
  or an error; after the last item \<open>Next\<close> returns \<open>io.EOF\<close>.
\<close>

record tar_header =
  Name :: string
  Typeflag :: char
  Mode :: int

datatype tar_next = TarErr error | TarEntry tar_header string

definition TypeReg :: char where
  "TypeReg = CHR ''0''"

definition TypeDir :: char where
  "TypeDir = CHR ''5''"

text \<open>
  \<open>update.Apply\<close> of the library go-selfupdate, by its documentation: it replaces the
  running executable by the new file and keeps the old one at \<open>OldSavePath\<close>; when it
  fails it moves the old file back, and \<open>update.RollbackError\<close> tells whether that move
  failed too, in which case the executable is gone from its path.
\<close>

datatype apply_result = ApplyOK | ApplyFailed error | ApplyRollbackFailed error error

text \<open>
  What an update attempt takes from outside the repository besides the primitives: the
  answer to the download-metadata request, the failure of building the GET request, the
  answer to the GET (status and body), the outcomes of \<open>os.CreateTemp\<close>, of the copy into
  the temporary file, of \<open>os.Executable\<close>, of opening the temporary file and of
  \<open>update.Apply\<close>; for a frontend bundle the outcome of \<open>os.MkdirTemp\<close>, the failure of
  \<open>gzip.NewReader\<close> on the body, the tar stream the body decodes to, the part of the body
  the decoder has read through the hasher when the tar reader reaches the end, the
  failures of creating and of writing a file at a path, and the failure of a rename
  whose source exists.
\<close>

record update_env = primitives +
  post_download :: "downloadRequest \<Rightarrow> error + downloadMeta"
  new_request_err :: "error option"
  http_get :: "string \<Rightarrow> error + (int \<times> string)"
  create_temp :: "error + string"
  copy_err :: "error option"
  executable :: "error + string"
  open_tmp_err :: "error option"
  apply_outcome :: apply_result
  mkdir_temp :: "error + string"
  gunzip_err :: "string \<Rightarrow> error option"
  untar :: "string \<Rightarrow> tar_next list"
  consumed :: "string \<Rightarrow> string"
  open_file_err :: "string \<Rightarrow> error option"
  write_file_err :: "string \<Rightarrow> error option"
  rename_err :: "string \<Rightarrow> string \<Rightarrow> error option"

definition download_request :: "Guard \<Rightarrow> string \<Rightarrow> string \<Rightarrow> string \<Rightarrow> string \<Rightarrow> downloadRequest" where
  "download_request g component ver os arch =
     \<lparr>dq_license_key = LicenseKey (cfg g),
      dq_machine_id = machineID (fingerprint g),
      dq_project_slug = ProjectSlug (cfg g),
      dq_component_slug = component,
      dq_version = ver,
      dq_os = os,
      dq_arch = arch\<rparr>"

definition requestDownloadMeta ::
  "update_env \<Rightarrow> Guard \<Rightarrow> string \<Rightarrow> string \<Rightarrow> string \<Rightarrow> string \<Rightarrow> error + (string \<times> string \<times> string)"
where
  "requestDownloadMeta E g component ver os arch =
     (case post_download E (download_request g component ver os arch) of
        Inl err \<Rightarrow> Inl err
      | Inr resp \<Rightarrow>
          if dm_Error resp \<noteq> [] then Inl (Errorf (''server error: '' @ dm_Error resp))
          else Inr (dm_DownloadURL resp, dm_SHA256 resp, dm_Signature resp))"

text \<open>
  \<open>downloadArtifactWithProgress\<close>: \<open>io.LimitReader\<close> passes at most \<open>maxBytes\<close> bytes of the
  body (none when \<open>maxBytes\<close> is not positive) to the temporary file and to the hasher. The
  status message of the source also prints the status.
\<close>

definition downloadArtifactWithProgress ::
  "update_env \<Rightarrow> Guard \<Rightarrow> string \<Rightarrow> int \<Rightarrow> fsys \<Rightarrow> (error + (string \<times> string)) \<times> fsys"
where
  "downloadArtifactWithProgress E g downloadURL maxBytes fs =
     (let fullURL = ServerURL (cfg g) @ downloadURL in
      case new_request_err E of
        Some err \<Rightarrow> (Inl (Prefixf ''create request'' err), fs)
      | None \<Rightarrow>
          (case http_get E fullURL of
             Inl err \<Rightarrow> (Inl (Prefixf ''download failed'' err), fs)
           | Inr (status, body) \<Rightarrow>
               if status \<noteq> 200 then (Inl (Errorf ''download failed with status''), fs)
               else
                 (case create_temp E of
                    Inl err \<Rightarrow> (Inl (Prefixf ''create temp file'' err), fs)
                  | Inr tmp \<Rightarrow>
                      (let written = take (nat maxBytes) body in
                       case copy_err E of
                         Some err \<Rightarrow> (Inl (Prefixf ''copy failed'' err), fs(tmp := Absent))
                       | None \<Rightarrow>
                           (Inr (tmp, hex_Encode E (sha256_Sum E written)),
                            fs(tmp := File written))))))"

definition verifySignature :: "update_env \<Rightarrow> Guard \<Rightarrow> string \<Rightarrow> string \<Rightarrow> error option" where
  "verifySignature E g data signatureB64 =
     (case b64_Decode E signatureB64 of
        Inl err \<Rightarrow> Some (Prefixf ''decode signature'' err)
      | Inr sig \<Rightarrow>
          if \<not> ed25519_Verify E (publicKey g) (sha256_Sum E data) sig
          then Some (Errorf ''signature verification failed'')
          else None)"

definition applyBackendBinaryWithSelfupdate ::
  "update_env \<Rightarrow> string \<Rightarrow> string \<Rightarrow> fsys \<Rightarrow> error option \<times> fsys"
where
  "applyBackendBinaryWithSelfupdate E tmpPath targetPath fs =
     (case open_tmp_err E of
        Some err \<Rightarrow> (Some (Prefixf ''open temp file'' err), fs)
      | None \<Rightarrow>
          (case apply_outcome E of
             ApplyOK \<Rightarrow>
               (None, fs(targetPath @ ''.bak'' := fs targetPath, targetPath := fs tmpPath))
           | ApplyFailed err \<Rightarrow> (Some err, fs)
           | ApplyRollbackFailed err rerr \<Rightarrow>
               (Some (Wrapf ErrUpdateRollback rerr),
                fs(targetPath @ ''.bak'' := fs targetPath, targetPath := Absent))))"

record updateResult =
  up_guard :: Guard
  up_fs :: fsys
  up_events :: "callback list"
  up_err :: "error option"

text \<open>
  The failure report of \<open>updateBackend\<close>: \<open>OnUpdateFailure\<close> with the error wrapped in the
  sentinel of the stage, then \<open>OnUpdateResult\<close> with \<open>success = false\<close> and the error.
\<close>

definition backend_failed :: "Guard \<Rightarrow> updateInfo \<Rightarrow> error \<Rightarrow> error \<Rightarrow> callback list" where
  "backend_failed g u stage err =
     emit (OnUpdateFailure (OTA (cfg g))) (Failure (ComponentSlug (cfg g)) (Wrapf stage err))
     @ emit (OnUpdateResult (OTA (cfg g)))
         (UpdateResult (ComponentSlug (cfg g)) (version g) (Latest u) False (Some err))"

definition progress :: "Guard \<Rightarrow> string \<Rightarrow> string \<Rightarrow> nat \<Rightarrow> callback list" where
  "progress g component stage tenths =
     emit (OnUpdateProgress (OTA (cfg g))) (Progress component stage tenths)"

text \<open>
  \<open>updateBackend\<close>, stage by stage. The update mutex is held for the whole body, so the
  attempt is one step of the model; the calls of the logger are not events. Once the
  download has succeeded the temporary file is removed when the function returns.
\<close>

definition updateBackend :: "update_env \<Rightarrow> Guard \<Rightarrow> updateInfo \<Rightarrow> fsys \<Rightarrow> updateResult" where
  "updateBackend E g u fs =
     (let slug = ComponentSlug (cfg g);
          ev0 = progress g slug ''requesting'' 0
      in case requestDownloadMeta E g slug (Latest u) (OS (OTA (cfg g))) (Arch (OTA (cfg g))) of
        Inl err \<Rightarrow>
          \<lparr>up_guard = g, up_fs = fs,
           up_events = ev0 @ backend_failed g u ErrUpdateDownload err, up_err = Some err\<rparr>
      | Inr (url, sha256Hash, signature) \<Rightarrow>
          (let ev1 = ev0 @ progress g slug ''downloading'' 3 in
           case downloadArtifactWithProgress E g url (MaxArtifactBytes (OTA (cfg g))) fs of
             (Inl err, fs1) \<Rightarrow>
               \<lparr>up_guard = g, up_fs = fs1,
                up_events = ev1 @ backend_failed g u ErrUpdateDownload err, up_err = Some err\<rparr>
           | (Inr (tmpPath, actualSHA256), fs1) \<Rightarrow>
               (let ev2 = ev1 @ progress g slug ''verifying'' 6 in
                if actualSHA256 \<noteq> sha256Hash then
                  (let err = Errorf (''hash mismatch: expected '' @ sha256Hash @ '', got '' @ actualSHA256)
                   in \<lparr>up_guard = g, up_fs = fs1(tmpPath := Absent),
                       up_events = ev2 @ backend_failed g u ErrUpdateVerify err, up_err = Some err\<rparr>)
                else
                  (case verifySignature E g sha256Hash signature of
                     Some err \<Rightarrow>
                       \<lparr>up_guard = g, up_fs = fs1(tmpPath := Absent),
                        up_events = ev2 @ backend_failed g u ErrUpdateVerify err, up_err = Some err\<rparr>
                   | None \<Rightarrow>
                       (let ev3 = ev2 @ progress g slug ''applying'' 8 in
                        case executable E of
                          Inl err \<Rightarrow>
                            \<lparr>up_guard = g, up_fs = fs1(tmpPath := Absent),
                             up_events = ev3 @ backend_failed g u ErrUpdateApply err,
                             up_err = Some err\<rparr>
                        | Inr exe \<Rightarrow>
                            (case applyBackendBinaryWithSelfupdate E tmpPath exe fs1 of
                               (Some err, fs2) \<Rightarrow>
                                 \<lparr>up_guard = g, up_fs = fs2(tmpPath := Absent),
                                  up_events = ev3 @ backend_failed g u ErrUpdateApply err,
                                  up_err = Some err\<rparr>
                             | (None, fs2) \<Rightarrow>
                                 \<lparr>up_guard = g\<lparr>version := Latest u\<rparr>,
                                  up_fs = fs2(tmpPath := Absent),
                                  up_events = ev3
                                    @ emit (OnUpdateResult (OTA (cfg g)))
                                        (UpdateResult slug (version g) (Latest u) True None)
                                    @ progress g slug ''completed'' 10,
                                  up_err = None\<rparr>))))))"

text \<open>
  The path check of the extraction loop: the entry is skipped when the cleaned join of the
  temporary directory and the entry name does not start with the cleaned temporary
  directory followed by the separator.
\<close>

definition escapes_root :: "string \<Rightarrow> string \<Rightarrow> bool" where
  "escapes_root tmpDir name =
     (let target = filepath_Join [tmpDir, name];
          cleanedTarget = filepath_Clean target;
          cleanedTmpDir = filepath_Clean tmpDir @ ''/''
      in \<not> prefix cleanedTmpDir cleanedTarget)"

text \<open>
  The extraction loop of \<open>updateFrontend\<close>, with the operations on the file system made
  so far. It ends at the end of the stream, or with the error passed to
  \<open>OnUpdateFailure\<close>. A directory entry is made with \<open>os.MkdirAll\<close>; for a regular file
  the parent is made with mode 0755, the file is created and the bytes are copied; entries
  of any other type are passed over. The errors of \<open>os.MkdirAll\<close> are dropped by the
  source.
\<close>

fun extract_entries ::
  "update_env \<Rightarrow> string \<Rightarrow> tar_next list \<Rightarrow> fs_op list \<Rightarrow> error option \<times> fs_op list"
where
  "extract_entries E tmpDir [] ops = (None, ops)"
| "extract_entries E tmpDir (TarErr err # rest) ops = (Some (Wrapf ErrUpdateVerify err), ops)"
| "extract_entries E tmpDir (TarEntry hdr body # rest) ops =
     (let target = filepath_Join [tmpDir, Name hdr] in
      if escapes_root tmpDir (Name hdr) then extract_entries E tmpDir rest ops
      else if Typeflag hdr = TypeDir then
        extract_entries E tmpDir rest (ops @ [MkdirAll target (Mode hdr)])
      else if Typeflag hdr = TypeReg then
        (case open_file_err E target of
           Some err \<Rightarrow>
             (Some (Wrapf ErrUpdateApply err), ops @ [MkdirAll (filepath_Dir target) 493])
         | None \<Rightarrow>
             (case write_file_err E target of
                Some err \<Rightarrow>
                  (Some (Wrapf ErrUpdateApply err),
                   ops @ [MkdirAll (filepath_Dir target) 493, OpenFile target (Mode hdr)])
              | None \<Rightarrow>
                  extract_entries E tmpDir rest
                    (ops @ [MkdirAll (filepath_Dir target) 493, OpenFile target (Mode hdr),
                            CopyTo target body])))
      else extract_entries E tmpDir rest ops)"

text \<open>\<open>os.Rename\<close> fails when the source is not there, or when the environment says so.\<close>

definition os_Rename :: "update_env \<Rightarrow> string \<Rightarrow> string \<Rightarrow> fsys \<Rightarrow> error option \<times> fsys" where
  "os_Rename E src dst fs =
     (if fs src = Absent then (Some (Errorf ''no such file or directory''), fs)
      else case rename_err E src dst of
        Some err \<Rightarrow> (Some err, fs)
      | None \<Rightarrow> (None, fs(dst := fs src, src := Absent)))"

text \<open>
  The swap at the end of \<open>updateFrontend\<close>: the stale backup is removed, a live directory
  that exists is renamed to the backup, and the temporary directory is renamed to the
  live path; when that last rename fails the backup is renamed back and the result of
  that rename is dropped.
\<close>

definition move_new_dir :: "update_env \<Rightarrow> string \<Rightarrow> string \<Rightarrow> fsys \<Rightarrow> error option \<times> fsys" where
  "move_new_dir E tmpDir dir fs =
     (case os_Rename E tmpDir dir fs of
        (Some err, fs1) \<Rightarrow> (Some err, snd (os_Rename E (dir @ ''.bak'') dir fs1))
      | (None, fs1) \<Rightarrow> (None, fs1))"

definition swap_directories :: "update_env \<Rightarrow> string \<Rightarrow> string \<Rightarrow> fsys \<Rightarrow> error option \<times> fsys" where
  "swap_directories E tmpDir dir fs =
     (let backupDir = dir @ ''.bak'';
          fs1 = fs(backupDir := Absent)
      in if fs1 dir \<noteq> Absent then
           (case os_Rename E dir backupDir fs1 of
              (Some err, fs2) \<Rightarrow> (Some err, fs2)
            | (None, fs2) \<Rightarrow> move_new_dir E tmpDir dir fs2)
         else move_new_dir E tmpDir dir fs1)"

text \<open>The failure report of \<open>updateFrontend\<close>: \<open>OnUpdateFailure\<close> with the wrapped error.\<close>

definition frontend_failed ::
  "Guard \<Rightarrow> ManagedComponent \<Rightarrow> fsys \<Rightarrow> callback list \<Rightarrow> error \<Rightarrow> updateResult"
where
  "frontend_failed g mc fs evs werr =
     \<lparr>up_guard = g, up_fs = fs,
      up_events = evs @ emit (OnUpdateFailure (OTA (cfg g))) (Failure (Slug mc) werr),
      up_err = Some werr\<rparr>"

text \<open>
  \<open>updateFrontend\<close>, from the request for the download metadata to the post-update hook.
  The update mutex is held for the whole body, so the attempt is one step of the model; the
  calls of the logger are not events. The message for a status other than 200 also prints
  the status. The temporary directory is removed when the function returns.
\<close>

definition updateFrontend ::
  "update_env \<Rightarrow> Guard \<Rightarrow> ManagedComponent \<Rightarrow> updateInfo \<Rightarrow> fsys \<Rightarrow> updateResult"
where
  "updateFrontend E g mc u fs =
     (let slug = Slug mc;
          ev0 = progress g slug ''requesting'' 0
      in case post_download E (download_request g slug (Latest u) ''universal'' ''universal'') of
        Inl err \<Rightarrow> frontend_failed g mc fs ev0 (Wrapf ErrUpdateDownload err)
      | Inr resp \<Rightarrow>
          if dm_Error resp \<noteq> [] then
            frontend_failed g mc fs ev0 (Wrapf ErrUpdateDownload (Errorf (dm_Error resp)))
          else
            (let ev1 = ev0 @ progress g slug ''downloading'' 3 in
             case http_get E (ServerURL (cfg g) @ dm_DownloadURL resp) of
               Inl err \<Rightarrow> frontend_failed g mc fs ev1 (Wrapf ErrUpdateDownload err)
             | Inr (status, body) \<Rightarrow>
                 if status \<noteq> 200 then
                   frontend_failed g mc fs ev1 (Wrapf ErrUpdateDownload (Errorf ''status''))
                 else
                   (case mkdir_temp E of
                      Inl err \<Rightarrow> frontend_failed g mc fs ev1 (Wrapf ErrUpdateApply err)
                    | Inr tmpDir \<Rightarrow>
                        (let ev2 = ev1 @ progress g slug ''extracting'' 5;
                             limited = take (nat (MaxArtifactBytes (OTA (cfg g)))) body
                         in case gunzip_err E limited of
                           Some err \<Rightarrow>
                             frontend_failed g mc (fs(tmpDir := Absent)) ev2
                               (Wrapf ErrUpdateVerify err)
                         | None \<Rightarrow>
                             (case extract_entries E tmpDir (untar E limited) [] of
                                (Some werr, ops) \<Rightarrow>
                                  frontend_failed g mc (fs(tmpDir := Absent)) ev2 werr
                              | (None, ops) \<Rightarrow>
                                  (let ev3 = ev2 @ progress g slug ''verifying'' 8;
                                       actualHash = hex_Encode E (sha256_Sum E (consumed E limited))
                                   in if actualHash \<noteq> dm_SHA256 resp then
                                        frontend_failed g mc (fs(tmpDir := Absent)) ev3
                                          (Wrapf ErrUpdateVerify (Errorf ''hash mismatch''))
                                      else
                                        (let ev4 = ev3 @ progress g slug ''applying'' 9 in
                                         case swap_directories E tmpDir (Dir mc)
                                                (fs(tmpDir := Tree ops)) of
                                           (Some err, fs3) \<Rightarrow>
                                             frontend_failed g mc (fs3(tmpDir := Absent)) ev4
                                               (Wrapf ErrUpdateApply err)
                                         | (None, fs3) \<Rightarrow>
                                             \<lparr>up_guard = g\<lparr>managedVersions :=
                                                  (managedVersions g)(slug \<mapsto> Latest u)\<rparr>,
                                              up_fs = fs3(tmpDir := Absent),
                                              up_events = ev4
                                                @ emit (OnUpdateResult (OTA (cfg g)))
                                                    (UpdateResult slug
                                                       (map_get (managedVersions g) slug)
                                                       (Latest u) True None)
                                                @ progress g slug ''completed'' 10
                                                @ (case PostUpdate mc of
                                                     None \<Rightarrow> []
                                                   | Some r \<Rightarrow> [PostUpdateHook slug]),
                                              up_err = None\<rparr>)))))))"

text \<open>
  The operations the extraction loop can make for one entry, and the entries of a stream
  that pass the path check.
\<close>

definition entry_ops :: "string \<Rightarrow> tar_header \<Rightarrow> string \<Rightarrow> fs_op list" where
  "entry_ops tmpDir hdr body =
     (let target = filepath_Join [tmpDir, Name hdr]
      in [MkdirAll target (Mode hdr), MkdirAll (filepath_Dir target) 493,
          OpenFile target (Mode hdr), CopyTo target body])"

fun stays_inside :: "string \<Rightarrow> tar_next \<Rightarrow> bool" where
  "stays_inside tmpDir (TarErr err) = True"
| "stays_inside tmpDir (TarEntry hdr body) = (\<not> escapes_root tmpDir (Name hdr))"

fun op_path :: "fs_op \<Rightarrow> string" where
  "op_path (MkdirAll p m) = p"
| "op_path (OpenFile p m) = p"
| "op_path (CopyTo p b) = p"

text \<open>The events that report progress.\<close>

fun is_progress :: "callback \<Rightarrow> bool" where
  "is_progress (Progress c st n) = True"
| "is_progress other = False"

text \<open>The two requests of \<open>updateBackend\<close>, with the arguments it passes.\<close>

abbreviation backend_meta :: "update_env \<Rightarrow> Guard \<Rightarrow> updateInfo \<Rightarrow> error + (string \<times> string \<times> string)" where
  "backend_meta E g u \<equiv>
     requestDownloadMeta E g (ComponentSlug (cfg g)) (Latest u) (OS (OTA (cfg g))) (Arch (OTA (cfg g)))"

abbreviation backend_download ::
  "update_env \<Rightarrow> Guard \<Rightarrow> fsys \<Rightarrow> string \<Rightarrow> (error + (string \<times> string)) \<times> fsys" where
  "backend_download E g fs url \<equiv>
     downloadArtifactWithProgress E g url (MaxArtifactBytes (OTA (cfg g))) fs"

text \<open>The progress events of \<open>updateBackend\<close> up to the verifying and the applying stage.\<close>

definition backend_verifying :: "Guard \<Rightarrow> callback list" where
  "backend_verifying g =
     progress g (ComponentSlug (cfg g)) ''requesting'' 0
     @ progress g (ComponentSlug (cfg g)) ''downloading'' 3
     @ progress g (ComponentSlug (cfg g)) ''verifying'' 6"

definition backend_applying :: "Guard \<Rightarrow> callback list" where
  "backend_applying g = backend_verifying g @ progress g (ComponentSlug (cfg g)) ''applying'' 8"

text \<open>
  The requests of \<open>updateFrontend\<close> with the arguments it passes, the bytes the limit
  reader lets through, the digest it compares, and its progress events up to each stage.
\<close>

abbreviation frontend_meta :: "update_env \<Rightarrow> Guard \<Rightarrow> ManagedComponent \<Rightarrow> updateInfo \<Rightarrow> error + downloadMeta" where
  "frontend_meta E g mc u \<equiv>
     post_download E (download_request g (Slug mc) (Latest u) ''universal'' ''universal'')"

abbreviation frontend_get :: "update_env \<Rightarrow> Guard \<Rightarrow> downloadMeta \<Rightarrow> error + (int \<times> string)" where
  "frontend_get E g resp \<equiv> http_get E (ServerURL (cfg g) @ dm_DownloadURL resp)"

abbreviation limited :: "Guard \<Rightarrow> string \<Rightarrow> string" where
  "limited g body \<equiv> take (nat (MaxArtifactBytes (OTA (cfg g)))) body"

abbreviation frontend_digest :: "update_env \<Rightarrow> Guard \<Rightarrow> string \<Rightarrow> string" where
  "frontend_digest E g body \<equiv> hex_Encode E (sha256_Sum E (consumed E (limited g body)))"

definition frontend_downloading :: "Guard \<Rightarrow> ManagedComponent \<Rightarrow> callback list" where
  "frontend_downloading g mc =
     progress g (Slug mc) ''requesting'' 0 @ progress g (Slug mc) ''downloading'' 3"

definition frontend_extracting :: "Guard \<Rightarrow> ManagedComponent \<Rightarrow> callback list" where
  "frontend_extracting g mc = frontend_downloading g mc @ progress g (Slug mc) ''extracting'' 5"

definition frontend_verifying :: "Guard \<Rightarrow> ManagedComponent \<Rightarrow> callback list" where
  "frontend_verifying g mc = frontend_extracting g mc @ progress g (Slug mc) ''verifying'' 8"

definition frontend_applying :: "Guard \<Rightarrow> ManagedComponent \<Rightarrow> callback list" where
  "frontend_applying g mc = frontend_verifying g mc @ progress g (Slug mc) ''applying'' 9"

text \<open>
  A name that \<open>Clean\<close> keeps as it is: not empty, not \<open>.\<close>, not \<open>..\<close>, and without a slash.
  The stack of \<open>clean_elems\<close> holds, from the top, such names and below them a block of
  \<open>..\<close>, which is empty for a rooted path.
\<close>

definition plain_name :: "string \<Rightarrow> bool" where
  "plain_name e = (e \<noteq> [] \<and> e \<noteq> ''.'' \<and> e \<noteq> ''..'' \<and> CHR ''/'' \<notin> set e)"

fun clean_stack :: "bool \<Rightarrow> string list \<Rightarrow> bool" where
  "clean_stack rooted [] = True"
| "clean_stack rooted (e # es) =
     (if e = ''..'' then \<not> rooted \<and> list_all (\<lambda>x. x = ''..'') es
      else plain_name e \<and> clean_stack rooted es)"

section \<open>Example inputs\<close>

definition example_guard :: Guard where
  "example_guard =
     \<lparr>cfg = \<lparr>ServerURL = ''https://hub.example'', LicenseKey = ''LIC-1'',
             PublicKeyPEM = Some ''pem'', ProjectSlug = ''proj'', ComponentSlug = ''backend'',
             HeartbeatInterval = 50,
             GracePolicy = \<lparr>MaxOfflineDuration = 200, WarningInterval = 0\<rparr>,
             OTA = \<lparr>Enabled = True, AutoUpdate = True, CheckInterval = 0, OS = ''linux'',
                    Arch = ''amd64'', DownloadTimeout = 10, MaxArtifactBytes = 1000,
                    OnUpdateProgress = True, OnUpdateResult = True, OnUpdateFailure = True\<rparr>,
             ManagedComponents =
               [\<lparr>Slug = ''web'', Dir = ''/srv/web'', Strategy = UpdateFrontend,
                 PostUpdate = None\<rparr>]\<rparr>,
      publicKey = ''key'',
      fingerprint = \<lparr>machineID = ''sha256:m1'', auxSignals = [''os'' \<mapsto> ''linux'']\<rparr>,
      sm = \<lparr>state = StateActive\<rparr>,
      version = ''1.0.0'', managedVersions = [''web'' \<mapsto> ''1.0.0'']\<rparr>"

definition example_update :: updateInfo where
  "example_update =
     \<lparr>Component = ''web'', CurrentVersion = ''1.0.0'', Latest = ''2.0.0'',
      UpdateAvailable = True, Mandatory = False, ReleaseNotes = []\<rparr>"

definition example_response :: "string \<Rightarrow> heartbeatResponse" where
  "example_response st =
     \<lparr>Status = st, ServerTime = [], NextInterval = 0, UpdateFrozen = False,
      Updates = [example_update], Reason = [], Message = []\<rparr>"

definition example_loop :: loopState where
  "example_loop =
     \<lparr>ls_guard = example_guard, ls_graceStart = None, ls_notified = [], ls_tasks = []\<rparr>"

definition example_frozen :: heartbeatResponse where
  "example_frozen = (example_response ''ok'')\<lparr>UpdateFrozen := True\<rparr>"

definition example_platform :: platform where
  "example_platform =
     \<lparr>goos = ''linux'', goarch = ''amd64'',
      pem_Decode = (\<lambda>p. if p = ''pem'' then Some (replicate 32 CHR ''k'')
                         else if p = ''short'' then Some ''abc'' else None),
      protectedID = Inr ''machine'', hex_sha256 = (\<lambda>s. ''00'' @ s),
      aux = [''os'' \<mapsto> ''linux'', ''arch'' \<mapsto> ''amd64'']\<rparr>"

text \<open>
  A toy signature scheme for the examples: the signature of a digest under the key
  \<open>key\<close> is the digest followed by \<open>key\<close>; base64 and JSON are the identity on the
  strings used.
\<close>

definition example_cached :: "string \<Rightarrow> cachedLicense" where
  "example_cached sig =
     \<lparr>cl_LicenseKey = ''LIC-1'', cl_PublicData = ''payload'', cl_Signature = sig,
      cl_VerifiedAt = ''2024-01-01T00:00:00Z''\<rparr>"

definition example_env :: "error + verifyResponse \<Rightarrow> license_env" where
  "example_env post =
     \<lparr>b64_Decode = (\<lambda>s. if s = ''!'' then Inl (Errorf ''illegal base64 data'') else Inr s),
      sha256_Sum = (\<lambda>s. ''#'' @ s),
      hex_Encode = (\<lambda>s. s),
      ed25519_Verify = (\<lambda>k m sig. sig = m @ k),
      home = ''/home/u'',
      json_Unmarshal = (\<lambda>b. if b = ''good'' then Inr (example_cached ''#payloadkey'')
                              else if b = ''forged'' then Inr (example_cached ''#payloadother'')
                              else if b = ''badb64'' then Inr (example_cached ''!'')
                              else Inl (Errorf ''invalid character'')),
      json_Marshal = (\<lambda>c. cl_PublicData c @ ''|'' @ cl_Signature c),
      post_verify = post,
      write_err = None,
      hostname = ''host'', randomNonce = ''00ff'', nowUnix = 1700000000,
      nowRFC3339 = ''2024-02-02T00:00:00Z''\<rparr>"

definition example_verify_ok :: verifyResponse where
  "example_verify_ok =
     \<lparr>vr_Status = ''ok'', vr_Error = [], vr_Message = [], vr_UpdateFrozen = False,
      vr_PublicData = ''fresh'', vr_Signature = ''#freshkey''\<rparr>"

definition example_fs :: "node \<Rightarrow> fsys" where
  "example_fs n = (\<lambda>p. Absent)(''/home/u/.deploy-guard/proj/backend/license.cache'' := n)"

text \<open>
  An update server for the examples: it declares the digest \<open>declared\<close> for every
  artifact and signs it with the toy scheme; the backend artifact is \<open>BINARY2\<close>, the
  frontend bundle decodes to three entries, the first of which climbs out of the
  extraction root; \<open>update.Apply\<close> ends as \<open>applied\<close> says.
\<close>

definition example_meta :: "string \<Rightarrow> string \<Rightarrow> downloadMeta" where
  "example_meta slug declared =
     \<lparr>dm_DownloadURL = ''/dl/'' @ slug, dm_SHA256 = declared,
      dm_Signature = ''#'' @ declared @ ''key'', dm_Error = []\<rparr>"

definition example_archive :: "tar_next list" where
  "example_archive =
     [TarEntry \<lparr>Name = ''../etc/passwd'', Typeflag = TypeReg, Mode = 420\<rparr> ''root:'',
      TarEntry \<lparr>Name = ''index.html'', Typeflag = TypeReg, Mode = 420\<rparr> ''<html>'',
      TarEntry \<lparr>Name = ''assets'', Typeflag = TypeDir, Mode = 448\<rparr> []]"

definition example_update_env :: "string \<Rightarrow> apply_result \<Rightarrow> update_env" where
  "example_update_env declared applied =
     \<lparr>b64_Decode = Inr,
      sha256_Sum = (\<lambda>s. ''#'' @ s),
      hex_Encode = (\<lambda>s. s),
      ed25519_Verify = (\<lambda>k m sig. sig = m @ k),
      post_download = (\<lambda>q. Inr (example_meta (dq_component_slug q) declared)),
      new_request_err = None,
      http_get = (\<lambda>url. if url = ''https://hub.example/dl/backend'' then Inr (200, ''BINARY2'')
                          else if url = ''https://hub.example/dl/web'' then Inr (200, ''TARGZ'')
                          else Inl (Errorf ''connection refused'')),
      create_temp = Inr ''/tmp/update-1'',
      copy_err = None,
      executable = Inr ''/opt/app/server'',
      open_tmp_err = None,
      apply_outcome = applied,
      mkdir_temp = Inr ''/tmp/dg'',
      gunzip_err = (\<lambda>b. None),
      untar = (\<lambda>b. example_archive),
      consumed = (\<lambda>b. b),
      open_file_err = (\<lambda>p. None),
      write_file_err = (\<lambda>p. None),
      rename_err = (\<lambda>src dst. None)\<rparr>"

definition example_web :: ManagedComponent where
  "example_web = \<lparr>Slug = ''web'', Dir = ''/srv/web'', Strategy = UpdateFrontend, PostUpdate = None\<rparr>"

definition example_disk :: fsys where
  "example_disk =
     (\<lambda>p. Absent)(''/opt/app/server'' := File ''BINARY1'',
                   ''/srv/web'' := Tree [CopyTo ''/srv/web/index.html'' ''<old>''])"

text \<open>An environment in which no rename onto the live directory succeeds.\<close>

definition example_readonly_env :: update_env where
  "example_readonly_env =
     (example_update_env ''#TARGZ'' ApplyOK)
       \<lparr>rename_err := (\<lambda>src dst. if dst = ''/srv/web''
                                   then Some (Errorf ''permission denied'') else None)\<rparr>"

section \<open>Properties of the state machine\<close>

lemma fire_banned: "state m = StateBanned \<Longrightarrow> state (fire e m) = StateBanned"
  by (cases e)
     (simp_all add: OnVerifySuccess_def OnHeartbeatOK_def OnHeartbeatFail_def
        OnGracePeriodExpired_def OnKill_def)

lemma fire_all_banned: "state m = StateBanned \<Longrightarrow> state (fire_all es m) = StateBanned"
  by (induction es arbitrary: m) (simp_all add: fire_banned)

text \<open>
  Claim C1. From every state, \<open>OnKill\<close> moves the machine to BANNED, and after it every
  sequence of the five events (\<open>OnVerifySuccess\<close>, \<open>OnHeartbeatOK\<close>, \<open>OnHeartbeatFail\<close>,
  \<open>OnGracePeriodExpired\<close>, \<open>OnKill\<close>) leaves it BANNED: BANNED is absorbing.
\<close>

theorem OnKill_banned_absorbing:
  "Current (OnKill m) = StateBanned \<and> Current (fire_all es (OnKill m)) = StateBanned"
proof -
  have k: "state (OnKill m) = StateBanned"
    by (simp add: OnKill_def)
  from fire_all_banned [OF k] k show ?thesis
    by (simp add: Current_def)
qed

text \<open>
  Claim C8. \<open>OnVerifySuccess\<close> moves the machine to ACTIVE when the current state is INIT
  or GRACE; when the current state is ACTIVE, LOCKED or BANNED the machine is returned as
  it was.
\<close>

theorem OnVerifySuccess_transitions:
  "(Current m = StateInit \<or> Current m = StateGrace \<longrightarrow>
      Current (OnVerifySuccess m) = StateActive \<and> Current (OnVerifySuccess m) \<noteq> Current m)
   \<and> (Current m = StateActive \<or> Current m = StateLocked \<or> Current m = StateBanned \<longrightarrow>
      OnVerifySuccess m = m)"
  by (auto simp: Current_def OnVerifySuccess_def)

theorem OnVerifySuccess_transitions_witness:
  "Current (OnVerifySuccess \<lparr>state = StateInit\<rparr>) = StateActive
   \<and> Current (OnVerifySuccess \<lparr>state = StateGrace\<rparr>) = StateActive
   \<and> OnVerifySuccess \<lparr>state = StateActive\<rparr> = \<lparr>state = StateActive\<rparr>
   \<and> OnVerifySuccess \<lparr>state = StateLocked\<rparr> = \<lparr>state = StateLocked\<rparr>
   \<and> OnVerifySuccess \<lparr>state = StateBanned\<rparr> = \<lparr>state = StateBanned\<rparr>"
  using OnVerifySuccess_transitions [of "\<lparr>state = StateInit\<rparr>"]
    OnVerifySuccess_transitions [of "\<lparr>state = StateGrace\<rparr>"]
    OnVerifySuccess_transitions [of "\<lparr>state = StateActive\<rparr>"]
    OnVerifySuccess_transitions [of "\<lparr>state = StateLocked\<rparr>"]
    OnVerifySuccess_transitions [of "\<lparr>state = StateBanned\<rparr>"]
  by (simp add: Current_def)

section \<open>Properties of the heartbeat\<close>

lemma heartbeat_loop_append:
  "heartbeat_loop s pre = (Waiting, s1, r) \<Longrightarrow>
   heartbeat_loop s (pre @ nxt) = heartbeat_loop s1 nxt"
proof (induction s pre rule: heartbeat_loop.induct)
  case (1 s)
  then show ?case by simp
next
  case (2 s rest)
  then show ?case by simp
next
  case (3 s post now_rec now_since rest)
  then show ?case
    by (auto simp: Let_def split: prod.splits option.splits)
qed

lemma sendHeartbeat_kill:
  "Status resp = ''kill'' \<Longrightarrow>
   sendHeartbeat g (Inr resp) =
     \<lparr>hb_err = Some ErrBanned, hb_guard = g\<lparr>sm := OnKill (sm g)\<rparr>,
      hb_notified = [], hb_tasks = []\<rparr>"
  by (simp add: sendHeartbeat_def)

lemma OnKill_idem: "OnKill (OnKill m) = OnKill m"
  by (simp add: OnKill_def)

text \<open>
  Claim C4. A heartbeat response with status \<open>kill\<close> makes \<open>sendHeartbeat\<close> call \<open>OnKill\<close>
  and return \<open>ErrBanned\<close>; the loop, in whatever state it waits after any earlier ticks
  (any grace start, any clock readings), returns at that tick with the machine BANNED and
  consumes no later tick.
\<close>

theorem kill_response_bans_and_stops:
  assumes kill: "Status resp = ''kill''"
    and run: "heartbeat_loop s0 pre = (Waiting, s, r)"
  shows "hb_err (sendHeartbeat g (Inr resp)) = Some ErrBanned
         \<and> Current (sm (hb_guard (sendHeartbeat g (Inr resp)))) = StateBanned
         \<and> heartbeat_loop s0 (pre @ TimerFired (Inr resp) now_rec now_since # rest) =
             (Returned ExitFatal,
              s\<lparr>ls_guard := (ls_guard s)\<lparr>sm := OnKill (sm (ls_guard s))\<rparr>\<rparr>, rest)
         \<and> Current (OnKill (sm (ls_guard s))) = StateBanned"
proof -
  have "heartbeat_loop s (TimerFired (Inr resp) now_rec now_since # rest) =
          (Returned ExitFatal, s\<lparr>ls_guard := (ls_guard s)\<lparr>sm := OnKill (sm (ls_guard s))\<rparr>\<rparr>, rest)"
    by (simp add: sendHeartbeat_kill [OF kill] after_heartbeat_def isFatalError_def OnKill_idem)
  with heartbeat_loop_append [OF run] show ?thesis
    by (simp add: sendHeartbeat_kill [OF kill] Current_def OnKill_def)
qed

lemma example_run:
  "startHeartbeat example_guard [TimerFired (Inl (Errorf ''timeout'')) 10 11] =
     (Waiting,
      \<lparr>ls_guard = example_guard\<lparr>sm := \<lparr>state = StateGrace\<rparr>\<rparr>, ls_graceStart = Some 10,
       ls_notified = [], ls_tasks = []\<rparr>, [])"
  by (simp add: startHeartbeat_def sendHeartbeat_def after_heartbeat_def isFatalError_def
      example_guard_def OnHeartbeatFail_def time_Sub_def maxDuration_def minDuration_def)

theorem kill_response_bans_and_stops_witness:
  "Status (example_response ''kill'') = ''kill''
   \<and> fst (startHeartbeat example_guard
        ([TimerFired (Inl (Errorf ''timeout'')) 10 11]
         @ TimerFired (Inr (example_response ''kill'')) 20 21 # [CtxDone])) = Returned ExitFatal
   \<and> Current (sm (ls_guard (fst (snd (startHeartbeat example_guard
        ([TimerFired (Inl (Errorf ''timeout'')) 10 11]
         @ TimerFired (Inr (example_response ''kill'')) 20 21 # [CtxDone])))))) = StateBanned
   \<and> snd (snd (startHeartbeat example_guard
        ([TimerFired (Inl (Errorf ''timeout'')) 10 11]
         @ TimerFired (Inr (example_response ''kill'')) 20 21 # [CtxDone]))) = [CtxDone]"
proof -
  have k: "Status (example_response ''kill'') = ''kill''"
    by (simp add: example_response_def)
  from kill_response_bans_and_stops [OF k example_run [unfolded startHeartbeat_def],
      of example_guard 20 21 "[CtxDone]"] k
  show ?thesis
    by (simp add: startHeartbeat_def Current_def OnKill_def)
qed

lemma OnHeartbeatFail_idem: "OnHeartbeatFail (OnHeartbeatFail m) = OnHeartbeatFail m"
  by (simp add: OnHeartbeatFail_def)

lemma heartbeat_loop_failure:
  assumes e: "hb_err (sendHeartbeat (ls_guard s) post) = Some e"
  shows "heartbeat_loop s (TimerFired post now_rec now_since # rest) =
           (case after_heartbeat (hb_guard (sendHeartbeat (ls_guard s) post)) (ls_graceStart s)
                   (Some e) now_rec now_since of
              (Some ex, g', gs') \<Rightarrow> (Returned ex, s\<lparr>ls_guard := g', ls_graceStart := gs'\<rparr>, rest)
            | (None, g', gs') \<Rightarrow> heartbeat_loop (s\<lparr>ls_guard := g', ls_graceStart := gs'\<rparr>) rest)"
proof -
  have n: "hb_notified (sendHeartbeat (ls_guard s) post) = []"
       "hb_tasks (sendHeartbeat (ls_guard s) post) = []"
    using e by (auto simp: sendHeartbeat_def split: sum.splits if_splits)
  show ?thesis
    by (simp add: e n Let_def split: prod.splits option.splits)
qed

lemma transient_run_started:
  assumes "ls_graceStart s = Some t0"
    and "list_all (\<lambda>(err, tr, ts). \<not> time_Sub ts t0 > MaxOfflineDuration (GracePolicy (cfg (ls_guard s)))) fs"
    and "fs \<noteq> []"
  shows "heartbeat_loop s (map failure_tick fs @ rest) =
           heartbeat_loop (s\<lparr>ls_guard := (ls_guard s)\<lparr>sm := OnHeartbeatFail (sm (ls_guard s))\<rparr>,
                             ls_graceStart := Some t0\<rparr>) rest"
  using assms
proof (induction fs arbitrary: s)
  case Nil
  then show ?case by simp
next
  case (Cons f fs)
  obtain err tr ts where f: "f = (err, tr, ts)" by (cases f)
  let ?s1 = "s\<lparr>ls_guard := (ls_guard s)\<lparr>sm := OnHeartbeatFail (sm (ls_guard s))\<rparr>,
               ls_graceStart := Some t0\<rparr>"
  have step: "heartbeat_loop s (failure_tick f # map failure_tick fs @ rest) =
                heartbeat_loop ?s1 (map failure_tick fs @ rest)"
    using Cons.prems
    by (simp add: f failure_tick_def sendHeartbeat_def after_heartbeat_def isFatalError_def Let_def)
  show ?case
  proof (cases "fs = []")
    case True
    with step show ?thesis by simp
  next
    case False
    have "heartbeat_loop ?s1 (map failure_tick fs @ rest) =
            heartbeat_loop (?s1\<lparr>ls_guard := (ls_guard ?s1)\<lparr>sm := OnHeartbeatFail (sm (ls_guard ?s1))\<rparr>,
                                ls_graceStart := Some t0\<rparr>) rest"
      using Cons.prems False by (intro Cons.IH) simp_all
    with step show ?thesis by (simp add: OnHeartbeatFail_idem)
  qed
qed

lemma transient_run_first:
  assumes "ls_graceStart s = None"
    and "list_all (\<lambda>(err, tr, ts). \<not> time_Sub ts tfirst > MaxOfflineDuration (GracePolicy (cfg (ls_guard s))))
           ((efirst, tfirst, ufirst) # fs)"
  shows "heartbeat_loop s (map failure_tick ((efirst, tfirst, ufirst) # fs) @ rest) =
           heartbeat_loop (s\<lparr>ls_guard := (ls_guard s)\<lparr>sm := OnHeartbeatFail (sm (ls_guard s))\<rparr>,
                             ls_graceStart := Some tfirst\<rparr>) rest"
proof -
  let ?s1 = "s\<lparr>ls_guard := (ls_guard s)\<lparr>sm := OnHeartbeatFail (sm (ls_guard s))\<rparr>,
               ls_graceStart := Some tfirst\<rparr>"
  have step: "heartbeat_loop s (failure_tick (efirst, tfirst, ufirst) # map failure_tick fs @ rest) =
                heartbeat_loop ?s1 (map failure_tick fs @ rest)"
    using assms
    by (simp add: failure_tick_def sendHeartbeat_def after_heartbeat_def isFatalError_def Let_def)
  show ?thesis
  proof (cases "fs = []")
    case True
    with step show ?thesis by simp
  next
    case False
    have "heartbeat_loop ?s1 (map failure_tick fs @ rest) =
            heartbeat_loop (?s1\<lparr>ls_guard := (ls_guard ?s1)\<lparr>sm := OnHeartbeatFail (sm (ls_guard ?s1))\<rparr>,
                                ls_graceStart := Some tfirst\<rparr>) rest"
      using assms False by (intro transient_run_started) simp_all
    with step show ?thesis by (simp add: OnHeartbeatFail_idem)
  qed
qed

text \<open>
  Claim C5. When \<open>sendHeartbeat\<close> returns an error: the fatal errors are exactly
  \<open>ErrBanned\<close>, \<open>ErrLicenseSuspended\<close> and \<open>ErrMachineBanned\<close>, and on one of them the body
  calls \<open>OnKill\<close> and returns. On any other error it calls \<open>OnHeartbeatFail\<close>, takes the
  recorded grace start or, when none is recorded, records the current instant; it calls
  \<open>OnGracePeriodExpired\<close> and returns exactly when the time since that start exceeds
  \<open>MaxOfflineDuration\<close>, and otherwise the loop goes on with the next tick. A run of
  transport failures that starts with no grace start recorded, all within the window
  measured from the first of them, leaves the loop running with that first instant as
  the grace start.
\<close>

theorem heartbeat_failure_handling:
  "(isFatalError e \<longleftrightarrow> e = ErrBanned \<or> e = ErrLicenseSuspended \<or> e = ErrMachineBanned)
   \<and> (isFatalError e \<longrightarrow>
        after_heartbeat g gs (Some e) now_rec now_since =
          (Some ExitFatal, g\<lparr>sm := OnKill (sm g)\<rparr>, gs))
   \<and> (\<not> isFatalError e \<longrightarrow>
        after_heartbeat g gs (Some e) now_rec now_since =
          (let start = (case gs of None \<Rightarrow> now_rec | Some t \<Rightarrow> t) in
           if time_Sub now_since start > MaxOfflineDuration (GracePolicy (cfg g))
           then (Some ExitGraceExpired,
                 g\<lparr>sm := OnGracePeriodExpired (OnHeartbeatFail (sm g))\<rparr>, Some start)
           else (None, g\<lparr>sm := OnHeartbeatFail (sm g)\<rparr>, Some start)))
   \<and> (hb_err (sendHeartbeat (ls_guard s) post) = Some e \<longrightarrow>
        heartbeat_loop s (TimerFired post now_rec now_since # rest) =
          (case after_heartbeat (hb_guard (sendHeartbeat (ls_guard s) post)) (ls_graceStart s)
                  (Some e) now_rec now_since of
             (Some ex, g', gs') \<Rightarrow> (Returned ex, s\<lparr>ls_guard := g', ls_graceStart := gs'\<rparr>, rest)
           | (None, g', gs') \<Rightarrow> heartbeat_loop (s\<lparr>ls_guard := g', ls_graceStart := gs'\<rparr>) rest))
   \<and> (ls_graceStart s = None \<and>
       list_all (\<lambda>(err, tr, ts).
           \<not> time_Sub ts tfirst > MaxOfflineDuration (GracePolicy (cfg (ls_guard s))))
         ((efirst, tfirst, ufirst) # fs) \<longrightarrow>
        heartbeat_loop s (map failure_tick ((efirst, tfirst, ufirst) # fs) @ rest) =
          heartbeat_loop
            (s\<lparr>ls_guard := (ls_guard s)\<lparr>sm := OnHeartbeatFail (sm (ls_guard s))\<rparr>,
               ls_graceStart := Some tfirst\<rparr>) rest)"
proof (intro conjI impI)
  show "isFatalError e \<longleftrightarrow> e = ErrBanned \<or> e = ErrLicenseSuspended \<or> e = ErrMachineBanned"
    by (simp add: isFatalError_def)
next
  assume "isFatalError e"
  then show "after_heartbeat g gs (Some e) now_rec now_since =
      (Some ExitFatal, g\<lparr>sm := OnKill (sm g)\<rparr>, gs)"
    by (simp add: after_heartbeat_def)
next
  assume "\<not> isFatalError e"
  then show "after_heartbeat g gs (Some e) now_rec now_since =
          (let start = (case gs of None \<Rightarrow> now_rec | Some t \<Rightarrow> t) in
           if time_Sub now_since start > MaxOfflineDuration (GracePolicy (cfg g))
           then (Some ExitGraceExpired,
                 g\<lparr>sm := OnGracePeriodExpired (OnHeartbeatFail (sm g))\<rparr>, Some start)
           else (None, g\<lparr>sm := OnHeartbeatFail (sm g)\<rparr>, Some start))"
    by (simp add: after_heartbeat_def Let_def)
next
  assume "hb_err (sendHeartbeat (ls_guard s) post) = Some e"
  then show "heartbeat_loop s (TimerFired post now_rec now_since # rest) =
          (case after_heartbeat (hb_guard (sendHeartbeat (ls_guard s) post)) (ls_graceStart s)
                  (Some e) now_rec now_since of
             (Some ex, g', gs') \<Rightarrow> (Returned ex, s\<lparr>ls_guard := g', ls_graceStart := gs'\<rparr>, rest)
           | (None, g', gs') \<Rightarrow> heartbeat_loop (s\<lparr>ls_guard := g', ls_graceStart := gs'\<rparr>) rest)"
    by (rule heartbeat_loop_failure)
next
  assume "ls_graceStart s = None \<and>
       list_all (\<lambda>(err, tr, ts).
           \<not> time_Sub ts tfirst > MaxOfflineDuration (GracePolicy (cfg (ls_guard s))))
         ((efirst, tfirst, ufirst) # fs)"
  then show "heartbeat_loop s (map failure_tick ((efirst, tfirst, ufirst) # fs) @ rest) =
          heartbeat_loop
            (s\<lparr>ls_guard := (ls_guard s)\<lparr>sm := OnHeartbeatFail (sm (ls_guard s))\<rparr>,
               ls_graceStart := Some tfirst\<rparr>) rest"
    using transient_run_first by blast
qed

lemma example_guard_simps:
  "MaxOfflineDuration (GracePolicy (cfg example_guard)) = 200"
  "sm example_guard = \<lparr>state = StateActive\<rparr>"
  "Enabled (OTA (cfg example_guard))"
  "AutoUpdate (OTA (cfg example_guard))"
  "ComponentSlug (cfg example_guard) = ''backend''"
  by (simp_all add: example_guard_def)

lemma example_loop_simps:
  "ls_guard example_loop = example_guard"
  "ls_graceStart example_loop = None"
  "ls_notified example_loop = []"
  "ls_tasks example_loop = []"
  by (simp_all add: example_loop_def)

lemma time_Sub_small:
  "\<bar>t - u\<bar> < 2 ^ 62 \<Longrightarrow> time_Sub t u = t - u"
  by (auto simp: time_Sub_def maxDuration_def minDuration_def)

theorem heartbeat_failure_handling_witness:
  "isFatalError ErrLicenseSuspended
   \<and> fst (after_heartbeat example_guard (Some 3) (Some ErrLicenseSuspended) 5 6) = Some ExitFatal
   \<and> Current (sm (fst (snd (after_heartbeat example_guard (Some 3) (Some ErrLicenseSuspended) 5 6))))
       = StateBanned
   \<and> \<not> isFatalError (Wrapf ErrNetworkError (Errorf ''timeout''))
   \<and> after_heartbeat example_guard None (Some (Wrapf ErrNetworkError (Errorf ''timeout''))) 10 11
       = (None, example_guard\<lparr>sm := \<lparr>state = StateGrace\<rparr>\<rparr>, Some 10)
   \<and> after_heartbeat example_guard (Some 10) (Some (Wrapf ErrNetworkError (Errorf ''timeout''))) 300 301
       = (Some ExitGraceExpired, example_guard\<lparr>sm := \<lparr>state = StateLocked\<rparr>\<rparr>, Some 10)
   \<and> heartbeat_loop example_loop [TimerFired (Inl (Errorf ''timeout'')) 10 11, CtxDone]
       = (Returned ExitCancelled,
          example_loop\<lparr>ls_guard := example_guard\<lparr>sm := \<lparr>state = StateGrace\<rparr>\<rparr>,
                         ls_graceStart := Some 10\<rparr>, [])
   \<and> heartbeat_loop example_loop
         (map failure_tick [(Errorf ''timeout'', 10, 11), (Errorf ''refused'', 60, 61),
                            (Errorf ''timeout'', 110, 111)] @ [CtxDone])
       = (Returned ExitCancelled,
          example_loop\<lparr>ls_guard := example_guard\<lparr>sm := \<lparr>state = StateGrace\<rparr>\<rparr>,
                         ls_graceStart := Some 10\<rparr>, [])"
proof -
  have fatal: "isFatalError ErrLicenseSuspended"
    and transient: "\<not> isFatalError (Wrapf ErrNetworkError (Errorf ''timeout''))"
    by (simp_all add: isFatalError_def)
  have err: "hb_err (sendHeartbeat (ls_guard example_loop) (Inl (Errorf ''timeout'')))
               = Some (Wrapf ErrNetworkError (Errorf ''timeout''))"
    and g: "hb_guard (sendHeartbeat example_guard (Inl (Errorf ''timeout''))) = example_guard"
    by (simp_all add: sendHeartbeat_def example_loop_simps)
  have win: "ls_graceStart example_loop = None \<and>
       list_all (\<lambda>(err, tr :: int, ts).
           \<not> time_Sub ts 10 > MaxOfflineDuration (GracePolicy (cfg (ls_guard example_loop))))
         ((Errorf ''timeout'', 10, 11) # [(Errorf ''refused'', 60, 61), (Errorf ''timeout'', 110, 111)])"
    by (simp add: example_loop_simps example_guard_simps time_Sub_small)
  note a = heartbeat_failure_handling [where e = ErrLicenseSuspended and g = example_guard
      and gs = "Some 3" and now_rec = 5 and now_since = 6]
  note b = heartbeat_failure_handling [where e = "Wrapf ErrNetworkError (Errorf ''timeout'')"
      and g = example_guard and gs = None and now_rec = 10 and now_since = 11
      and s = example_loop and post = "Inl (Errorf ''timeout'')" and rest = "[CtxDone]"]
  note c = heartbeat_failure_handling [where e = "Wrapf ErrNetworkError (Errorf ''timeout'')"
      and g = example_guard and gs = "Some 10" and now_rec = 300 and now_since = 301
      and s = example_loop and tfirst = 10 and efirst = "Errorf ''timeout''" and ufirst = 11
      and fs = "[(Errorf ''refused'', 60, 61), (Errorf ''timeout'', 110, 111)]"
      and rest = "[CtxDone]"]
  from a fatal
  have 1: "fst (after_heartbeat example_guard (Some 3) (Some ErrLicenseSuspended) 5 6) = Some ExitFatal"
    and 2: "Current (sm (fst (snd (after_heartbeat example_guard (Some 3) (Some ErrLicenseSuspended) 5 6))))
       = StateBanned"
    by (simp_all add: Current_def OnKill_def)
  from b transient
  have "after_heartbeat example_guard None (Some (Wrapf ErrNetworkError (Errorf ''timeout''))) 10 11
       = (let start = (case None of None \<Rightarrow> 10 | Some t \<Rightarrow> t) in
           if time_Sub 11 start > MaxOfflineDuration (GracePolicy (cfg example_guard))
           then (Some ExitGraceExpired,
                 example_guard\<lparr>sm := OnGracePeriodExpired (OnHeartbeatFail (sm example_guard))\<rparr>, Some start)
           else (None, example_guard\<lparr>sm := OnHeartbeatFail (sm example_guard)\<rparr>, Some start))"
    by blast
  then have 3: "after_heartbeat example_guard None (Some (Wrapf ErrNetworkError (Errorf ''timeout''))) 10 11
       = (None, example_guard\<lparr>sm := \<lparr>state = StateGrace\<rparr>\<rparr>, Some 10)"
    by (simp add: example_guard_simps time_Sub_small OnHeartbeatFail_def)
  from c transient
  have "after_heartbeat example_guard (Some 10) (Some (Wrapf ErrNetworkError (Errorf ''timeout''))) 300 301
       = (let start = (case Some 10 of None \<Rightarrow> 300 | Some t \<Rightarrow> t) in
           if time_Sub 301 start > MaxOfflineDuration (GracePolicy (cfg example_guard))
           then (Some ExitGraceExpired,
                 example_guard\<lparr>sm := OnGracePeriodExpired (OnHeartbeatFail (sm example_guard))\<rparr>, Some start)
           else (None, example_guard\<lparr>sm := OnHeartbeatFail (sm example_guard)\<rparr>, Some start))"
    by blast
  then have 4: "after_heartbeat example_guard (Some 10) (Some (Wrapf ErrNetworkError (Errorf ''timeout''))) 300 301
       = (Some ExitGraceExpired, example_guard\<lparr>sm := \<lparr>state = StateLocked\<rparr>\<rparr>, Some 10)"
    by (simp add: example_guard_simps time_Sub_small OnHeartbeatFail_def OnGracePeriodExpired_def)
  from b err
  have "heartbeat_loop example_loop (TimerFired (Inl (Errorf ''timeout'')) 10 11 # [CtxDone]) =
          (case after_heartbeat (hb_guard (sendHeartbeat (ls_guard example_loop) (Inl (Errorf ''timeout''))))
                  (ls_graceStart example_loop)
                  (Some (Wrapf ErrNetworkError (Errorf ''timeout''))) 10 11 of
             (Some ex, g', gs') \<Rightarrow> (Returned ex, example_loop\<lparr>ls_guard := g', ls_graceStart := gs'\<rparr>, [CtxDone])
           | (None, g', gs') \<Rightarrow> heartbeat_loop (example_loop\<lparr>ls_guard := g', ls_graceStart := gs'\<rparr>) [CtxDone])"
    by blast
  also have "\<dots> = (Returned ExitCancelled,
          example_loop\<lparr>ls_guard := example_guard\<lparr>sm := \<lparr>state = StateGrace\<rparr>\<rparr>,
                         ls_graceStart := Some 10\<rparr>, [])"
    by (simp add: g 3 example_loop_simps)
  finally have 5: "heartbeat_loop example_loop [TimerFired (Inl (Errorf ''timeout'')) 10 11, CtxDone]
       = (Returned ExitCancelled,
          example_loop\<lparr>ls_guard := example_guard\<lparr>sm := \<lparr>state = StateGrace\<rparr>\<rparr>,
                         ls_graceStart := Some 10\<rparr>, [])" .
  from c win
  have "heartbeat_loop example_loop
          (map failure_tick ((Errorf ''timeout'', 10, 11)
             # [(Errorf ''refused'', 60, 61), (Errorf ''timeout'', 110, 111)]) @ [CtxDone]) =
          heartbeat_loop
            (example_loop\<lparr>ls_guard := (ls_guard example_loop)\<lparr>sm := OnHeartbeatFail (sm (ls_guard example_loop))\<rparr>,
               ls_graceStart := Some 10\<rparr>) [CtxDone]"
    by blast
  also have "\<dots> = (Returned ExitCancelled,
          example_loop\<lparr>ls_guard := example_guard\<lparr>sm := \<lparr>state = StateGrace\<rparr>\<rparr>,
                         ls_graceStart := Some 10\<rparr>, [])"
    by (simp add: example_loop_simps example_guard_simps OnHeartbeatFail_def)
  finally have 6: "heartbeat_loop example_loop
         (map failure_tick [(Errorf ''timeout'', 10, 11), (Errorf ''refused'', 60, 61),
                            (Errorf ''timeout'', 110, 111)] @ [CtxDone])
       = (Returned ExitCancelled,
          example_loop\<lparr>ls_guard := example_guard\<lparr>sm := \<lparr>state = StateGrace\<rparr>\<rparr>,
                         ls_graceStart := Some 10\<rparr>, [])" .
  from fatal transient 1 2 3 4 5 6 show ?thesis by blast
qed

text \<open>
  Claim C9, as amended. For a heartbeat response whose status is not \<open>kill\<close>, with OTA
  enabled and updates not frozen, the entries passed to \<open>handleUpdateNotification\<close> are
  exactly the entries with \<open>UpdateAvailable\<close>, in order. For every response, when OTA is
  disabled or the response marks updates frozen, no entry is passed and no update
  goroutine is started. The goroutines started are those \<open>handleUpdateNotification\<close>
  starts for the entries passed.
\<close>

theorem update_dispatch:
  "(Status resp \<noteq> ''kill'' \<and> Enabled (OTA (cfg g)) \<and> \<not> UpdateFrozen resp \<longrightarrow>
      hb_notified (sendHeartbeat g (Inr resp)) = filter UpdateAvailable (Updates resp))
   \<and> (\<not> Enabled (OTA (cfg g)) \<or> UpdateFrozen resp \<longrightarrow>
      hb_notified (sendHeartbeat g (Inr resp)) = [] \<and> hb_tasks (sendHeartbeat g (Inr resp)) = [])
   \<and> hb_tasks (sendHeartbeat g (Inr resp)) =
       concat (map (handleUpdateNotification g) (hb_notified (sendHeartbeat g (Inr resp))))"
  by (auto simp: sendHeartbeat_def update_notifications_def)

theorem update_dispatch_witness:
  "hb_notified (sendHeartbeat example_guard (Inr (example_response ''ok''))) = [example_update]
   \<and> hb_tasks (sendHeartbeat example_guard (Inr (example_response ''ok''))) =
       [GoUpdateFrontend (hd (ManagedComponents (cfg example_guard))) example_update]
   \<and> hb_notified (sendHeartbeat example_guard (Inr example_frozen)) = []
   \<and> hb_tasks (sendHeartbeat example_guard (Inr example_frozen)) = []"
proof -
  have ok: "Status (example_response ''ok'') \<noteq> ''kill'' \<and> Enabled (OTA (cfg example_guard))
      \<and> \<not> UpdateFrozen (example_response ''ok'')"
    by (simp add: example_response_def example_guard_def)
  have fr: "\<not> Enabled (OTA (cfg example_guard)) \<or> UpdateFrozen example_frozen"
    by (simp add: example_frozen_def)
  from update_dispatch [of "example_response ''ok''" example_guard] ok
  have 1: "hb_notified (sendHeartbeat example_guard (Inr (example_response ''ok''))) = [example_update]"
    and 2: "hb_tasks (sendHeartbeat example_guard (Inr (example_response ''ok''))) =
       [GoUpdateFrontend (hd (ManagedComponents (cfg example_guard))) example_update]"
    by (simp_all add: example_response_def example_update_def example_guard_def
        handleUpdateNotification_def UpdateFrontend_def UpdateBackend_def)
  from update_dispatch [of example_frozen example_guard] fr
  have 3: "hb_notified (sendHeartbeat example_guard (Inr example_frozen)) = []
      \<and> hb_tasks (sendHeartbeat example_guard (Inr example_frozen)) = []"
    by blast
  from 1 2 3 show ?thesis by blast
qed

text \<open>
  A response with status \<open>kill\<close> that carries an available update, with OTA enabled and
  updates not frozen: \<open>sendHeartbeat\<close> returns before the update entries are read.
\<close>

theorem update_dispatch_kill_counterexample:
  "Enabled (OTA (cfg example_guard))
   \<and> \<not> UpdateFrozen (example_response ''kill'')
   \<and> Updates (example_response ''kill'') = [example_update]
   \<and> UpdateAvailable example_update
   \<and> hb_notified (sendHeartbeat example_guard (Inr (example_response ''kill''))) = []
   \<and> hb_tasks (sendHeartbeat example_guard (Inr (example_response ''kill''))) = []"
  by (simp add: sendHeartbeat_def example_response_def example_update_def example_guard_def)

section \<open>Properties of the construction\<close>

lemma setDefaults_keeps:
  "ServerURL (setDefaults a b c) = ServerURL c"
  "LicenseKey (setDefaults a b c) = LicenseKey c"
  "PublicKeyPEM (setDefaults a b c) = PublicKeyPEM c"
  "ProjectSlug (setDefaults a b c) = ProjectSlug c"
  "ComponentSlug (setDefaults a b c) = ComponentSlug c"
  "ManagedComponents (setDefaults a b c) = ManagedComponents c"
  by (simp_all add: setDefaults_def Let_def)

lemma init_managedVersions_lookup:
  "init_managedVersions mcs m k =
     (if k \<in> Slug ` set mcs then Some ''unknown'' else m k)"
  by (induction mcs arbitrary: m) auto

text \<open>
  Claim C10. \<open>New\<close> returns an error, and so no Guard, when any of \<open>ServerURL\<close>,
  \<open>LicenseKey\<close>, \<open>PublicKeyPEM\<close>, \<open>ProjectSlug\<close> or \<open>ComponentSlug\<close> is missing, and when
  the public key does not decode from PEM or its decoded length is not the Ed25519
  public-key size. When \<open>New\<close> returns a Guard, its primary version is \<open>unknown\<close>, the
  version of every configured managed component is \<open>unknown\<close>, no other component has a
  version, and the state machine is in INIT.
\<close>

theorem New_validation:
  "(ServerURL c = [] \<or> LicenseKey c = [] \<or> PublicKeyPEM c = None \<or> ProjectSlug c = []
      \<or> ComponentSlug c = [] \<longrightarrow> (\<exists>e. New pf c = Inl e))
   \<and> (\<forall>pem. PublicKeyPEM c = Some pem \<and>
         (case pem_Decode pf pem of None \<Rightarrow> True
          | Some bytes \<Rightarrow> length bytes \<noteq> ed25519_PublicKeySize)
       \<longrightarrow> (\<exists>e. New pf c = Inl e))
   \<and> (\<forall>g. New pf c = Inr g \<longrightarrow>
         version g = ''unknown''
         \<and> (\<forall>mc \<in> set (ManagedComponents c). managedVersions g (Slug mc) = Some ''unknown'')
         \<and> dom (managedVersions g) = Slug ` set (ManagedComponents c)
         \<and> Current (sm g) = StateInit)"
proof (intro conjI allI impI)
  assume "ServerURL c = [] \<or> LicenseKey c = [] \<or> PublicKeyPEM c = None \<or> ProjectSlug c = []
      \<or> ComponentSlug c = []"
  then show "\<exists>e. New pf c = Inl e"
    by (auto simp: New_def Let_def setDefaults_keeps split: option.splits sum.splits)
next
  fix pem
  assume "PublicKeyPEM c = Some pem \<and>
         (case pem_Decode pf pem of None \<Rightarrow> True
          | Some bytes \<Rightarrow> length bytes \<noteq> ed25519_PublicKeySize)"
  then show "\<exists>e. New pf c = Inl e"
    by (auto simp: New_def Let_def setDefaults_keeps split: option.splits sum.splits)
next
  fix g
  assume ok: "New pf c = Inr g"
  then have v: "version g = ''unknown''"
    and m: "managedVersions g = init_managedVersions (ManagedComponents c) Map.empty"
    and s: "sm g = newStateMachine"
    by (auto simp: New_def Let_def setDefaults_keeps split: option.splits sum.splits if_splits)
  show "version g = ''unknown''" by (rule v)
  show "\<forall>mc \<in> set (ManagedComponents c). managedVersions g (Slug mc) = Some ''unknown''"
    by (simp add: m init_managedVersions_lookup)
  show "dom (managedVersions g) = Slug ` set (ManagedComponents c)"
    by (auto simp: m init_managedVersions_lookup dom_def)
  show "Current (sm g) = StateInit"
    by (simp add: s Current_def newStateMachine_def)
qed

lemma example_New_ok: "\<exists>g. New example_platform (cfg example_guard) = Inr g"
  by (simp add: New_def Let_def setDefaults_keeps example_guard_def example_platform_def
      ed25519_PublicKeySize_def collectFingerprint_def)

theorem New_validation_witness:
  "(\<exists>e. New example_platform ((cfg example_guard)\<lparr>LicenseKey := []\<rparr>) = Inl e)
   \<and> (\<exists>e. New example_platform ((cfg example_guard)\<lparr>PublicKeyPEM := Some ''short''\<rparr>) = Inl e)
   \<and> (\<exists>g. New example_platform (cfg example_guard) = Inr g
          \<and> version g = ''unknown'' \<and> managedVersions g ''web'' = Some ''unknown''
          \<and> Current (sm g) = StateInit)"
proof -
  have 1: "\<exists>e. New example_platform ((cfg example_guard)\<lparr>LicenseKey := []\<rparr>) = Inl e"
    using New_validation [of "(cfg example_guard)\<lparr>LicenseKey := []\<rparr>" example_platform]
    by simp
  have short: "PublicKeyPEM ((cfg example_guard)\<lparr>PublicKeyPEM := Some ''short''\<rparr>) = Some ''short'' \<and>
         (case pem_Decode example_platform ''short'' of None \<Rightarrow> True
          | Some bytes \<Rightarrow> length bytes \<noteq> ed25519_PublicKeySize)"
    by (simp add: example_platform_def ed25519_PublicKeySize_def)
  have 2: "\<exists>e. New example_platform ((cfg example_guard)\<lparr>PublicKeyPEM := Some ''short''\<rparr>) = Inl e"
    using New_validation [of "(cfg example_guard)\<lparr>PublicKeyPEM := Some ''short''\<rparr>" example_platform]
      short by blast
  obtain g where g: "New example_platform (cfg example_guard) = Inr g"
    using example_New_ok by blast
  have web: "\<lparr>Slug = ''web'', Dir = ''/srv/web'', Strategy = UpdateFrontend, PostUpdate = None\<rparr>
      \<in> set (ManagedComponents (cfg example_guard))"
    by (simp add: example_guard_def)
  from New_validation [of "cfg example_guard" example_platform] g
  have "version g = ''unknown''
         \<and> (\<forall>mc \<in> set (ManagedComponents (cfg example_guard)). managedVersions g (Slug mc) = Some ''unknown'')
         \<and> Current (sm g) = StateInit"
    by blast
  with web have 3: "version g = ''unknown'' \<and> managedVersions g ''web'' = Some ''unknown''
      \<and> Current (sm g) = StateInit"
    by fastforce
  from 1 2 3 g show ?thesis by blast
qed

section \<open>Properties of license verification\<close>

lemma cache_verifies_iff:
  "cache_verifies E g fs \<longleftrightarrow>
     (\<exists>cached sig. loadCachedLicense E g fs = Inr cached
        \<and> b64_Decode E (cl_Signature cached) = Inr sig
        \<and> ed25519_Verify E (publicKey g) (sha256_Sum E (cl_PublicData cached)) sig)"
  by (auto simp: cache_verifies_def split: sum.splits)

lemma loadCachedLicense_unreadable:
  "fs (cache_path E g) = Absent \<or> (\<exists>e. fs (cache_path E g) = Unreadable e) \<Longrightarrow>
   \<exists>err. loadCachedLicense E g fs = Inl err"
  by (auto simp: loadCachedLicense_def os_ReadFile_def)

lemma verifyLicense_hit:
  "cache_verifies E g fs \<Longrightarrow>
   verifyLicense E g fs = \<lparr>vl_err = None, vl_fs = fs, vl_effects = [ReadFile (cache_path E g)]\<rparr>"
  by (simp add: verifyLicense_def)

lemma verifyLicense_miss_err:
  "\<not> cache_verifies E g fs \<Longrightarrow>
   vl_err (verifyLicense E g fs) =
     (case post_verify E of
        Inl err \<Rightarrow> Some (Wrapf ErrNetworkError err)
      | Inr resp \<Rightarrow> if vr_Error resp \<noteq> [] then Some (verify_error (vr_Error resp)) else None)"
  by (simp add: verifyLicense_def cacheLicense_def Let_def split: sum.splits)

lemma verifyLicense_miss_effects:
  "\<not> cache_verifies E g fs \<Longrightarrow>
   vl_effects (verifyLicense E g fs) =
     [ReadFile (cache_path E g), PostJSON ''/api/v1/verify''] @
     (case post_verify E of
        Inl err \<Rightarrow> []
      | Inr resp \<Rightarrow>
          if vr_Error resp \<noteq> [] then []
          else [MkdirAllDir (cacheDir E g) 448,
                WriteFile (cache_path E g)
                  (json_Marshal E \<lparr>cl_LicenseKey = LicenseKey (cfg g),
                     cl_PublicData = vr_PublicData resp, cl_Signature = vr_Signature resp,
                     cl_VerifiedAt = nowRFC3339 E\<rparr>) 384])"
  by (simp add: verifyLicense_def cacheLicense_def cache_path_def Let_def split: sum.splits)

lemma verifyLicense_miss_fs:
  "\<not> cache_verifies E g fs \<Longrightarrow> post_verify E = Inr resp \<Longrightarrow> vr_Error resp = [] \<Longrightarrow>
   write_err E = None \<Longrightarrow>
   vl_fs (verifyLicense E g fs) =
     fs(cache_path E g :=
          File (json_Marshal E \<lparr>cl_LicenseKey = LicenseKey (cfg g),
                  cl_PublicData = vr_PublicData resp, cl_Signature = vr_Signature resp,
                  cl_VerifiedAt = nowRFC3339 E\<rparr>))"
  by (simp add: verifyLicense_def cacheLicense_def cache_path_def Let_def)

text \<open>
  Claim C6. \<open>verifyLicense\<close> first reads the cache file of the project and component.
  The cache verifies exactly when the file loads, its signature decodes and the
  signature verifies under the configured public key; then the result is ok, no request
  is sent and nothing is written. In every other case (file absent, unreadable, not
  parsable, signature not decodable, signature not verifying) exactly one request is
  sent, and the result and the calls made are functions of the server's answer alone, so
  the state of the cache is never the cause of a failure. When the server answers without
  an error code the result is ok and the function writes the returned payload and
  signature to the cache path whatever was there; the file then holds them, provided
  the write itself succeeds (the source drops its error).
\<close>

theorem verifyLicense_cache_then_remote:
  "(cache_verifies E g fs \<longleftrightarrow>
      (\<exists>cached sig. loadCachedLicense E g fs = Inr cached
         \<and> b64_Decode E (cl_Signature cached) = Inr sig
         \<and> ed25519_Verify E (publicKey g) (sha256_Sum E (cl_PublicData cached)) sig))
   \<and> (fs (cache_path E g) = Absent \<or> (\<exists>e. fs (cache_path E g) = Unreadable e)
        \<longrightarrow> \<not> cache_verifies E g fs)
   \<and> (cache_verifies E g fs \<longrightarrow>
        vl_err (verifyLicense E g fs) = None
        \<and> network_calls (vl_effects (verifyLicense E g fs)) = 0
        \<and> vl_fs (verifyLicense E g fs) = fs)
   \<and> (\<not> cache_verifies E g fs \<longrightarrow>
        network_calls (vl_effects (verifyLicense E g fs)) = 1
        \<and> vl_err (verifyLicense E g fs) =
            (case post_verify E of
               Inl err \<Rightarrow> Some (Wrapf ErrNetworkError err)
             | Inr resp \<Rightarrow>
                 if vr_Error resp \<noteq> [] then Some (verify_error (vr_Error resp)) else None)
        \<and> (\<forall>fs'. \<not> cache_verifies E g fs' \<longrightarrow>
              vl_err (verifyLicense E g fs') = vl_err (verifyLicense E g fs)
              \<and> vl_effects (verifyLicense E g fs') = vl_effects (verifyLicense E g fs)))
   \<and> (\<forall>resp. \<not> cache_verifies E g fs \<and> post_verify E = Inr resp \<and> vr_Error resp = [] \<longrightarrow>
        vl_err (verifyLicense E g fs) = None
        \<and> vl_effects (verifyLicense E g fs) =
            [ReadFile (cache_path E g), PostJSON ''/api/v1/verify'',
             MkdirAllDir (cacheDir E g) 448,
             WriteFile (cache_path E g)
               (json_Marshal E \<lparr>cl_LicenseKey = LicenseKey (cfg g),
                  cl_PublicData = vr_PublicData resp, cl_Signature = vr_Signature resp,
                  cl_VerifiedAt = nowRFC3339 E\<rparr>) 384]
        \<and> (write_err E = None \<longrightarrow>
             vl_fs (verifyLicense E g fs) (cache_path E g) =
               File (json_Marshal E \<lparr>cl_LicenseKey = LicenseKey (cfg g),
                  cl_PublicData = vr_PublicData resp, cl_Signature = vr_Signature resp,
                  cl_VerifiedAt = nowRFC3339 E\<rparr>)))"
proof (intro conjI)
  show "cache_verifies E g fs \<longleftrightarrow>
      (\<exists>cached sig. loadCachedLicense E g fs = Inr cached
         \<and> b64_Decode E (cl_Signature cached) = Inr sig
         \<and> ed25519_Verify E (publicKey g) (sha256_Sum E (cl_PublicData cached)) sig)"
    by (rule cache_verifies_iff)
next
  show "fs (cache_path E g) = Absent \<or> (\<exists>e. fs (cache_path E g) = Unreadable e)
        \<longrightarrow> \<not> cache_verifies E g fs"
    using loadCachedLicense_unreadable [of fs E g] by (auto simp: cache_verifies_iff)
next
  show "cache_verifies E g fs \<longrightarrow>
        vl_err (verifyLicense E g fs) = None
        \<and> network_calls (vl_effects (verifyLicense E g fs)) = 0
        \<and> vl_fs (verifyLicense E g fs) = fs"
    by (simp add: verifyLicense_hit network_calls_def)
next
  show "\<not> cache_verifies E g fs \<longrightarrow>
        network_calls (vl_effects (verifyLicense E g fs)) = 1
        \<and> vl_err (verifyLicense E g fs) =
            (case post_verify E of
               Inl err \<Rightarrow> Some (Wrapf ErrNetworkError err)
             | Inr resp \<Rightarrow>
                 if vr_Error resp \<noteq> [] then Some (verify_error (vr_Error resp)) else None)
        \<and> (\<forall>fs'. \<not> cache_verifies E g fs' \<longrightarrow>
              vl_err (verifyLicense E g fs') = vl_err (verifyLicense E g fs)
              \<and> vl_effects (verifyLicense E g fs') = vl_effects (verifyLicense E g fs))"
    by (simp add: verifyLicense_miss_err verifyLicense_miss_effects network_calls_def
        split: sum.splits)
next
  show "\<forall>resp. \<not> cache_verifies E g fs \<and> post_verify E = Inr resp \<and> vr_Error resp = [] \<longrightarrow>
        vl_err (verifyLicense E g fs) = None
        \<and> vl_effects (verifyLicense E g fs) =
            [ReadFile (cache_path E g), PostJSON ''/api/v1/verify'',
             MkdirAllDir (cacheDir E g) 448,
             WriteFile (cache_path E g)
               (json_Marshal E \<lparr>cl_LicenseKey = LicenseKey (cfg g),
                  cl_PublicData = vr_PublicData resp, cl_Signature = vr_Signature resp,
                  cl_VerifiedAt = nowRFC3339 E\<rparr>) 384]
        \<and> (write_err E = None \<longrightarrow>
             vl_fs (verifyLicense E g fs) (cache_path E g) =
               File (json_Marshal E \<lparr>cl_LicenseKey = LicenseKey (cfg g),
                  cl_PublicData = vr_PublicData resp, cl_Signature = vr_Signature resp,
                  cl_VerifiedAt = nowRFC3339 E\<rparr>))"
    by (simp add: verifyLicense_miss_err verifyLicense_miss_effects verifyLicense_miss_fs)
qed

lemma example_cache_path:
  "cache_path (example_env post) example_guard = ''/home/u/.deploy-guard/proj/backend/license.cache''"
  by (simp add: cache_path_def cacheDir_def filepath_Join_def filepath_Clean_def Let_def
      example_env_def example_guard_def)

lemma example_cache_states:
  "cache_verifies (example_env post) example_guard (example_fs (File ''good''))"
  "\<not> cache_verifies (example_env post) example_guard (example_fs (File ''forged''))"
  "\<not> cache_verifies (example_env post) example_guard (example_fs (File ''badb64''))"
  "\<not> cache_verifies (example_env post) example_guard (example_fs (File ''{''))"
  "\<not> cache_verifies (example_env post) example_guard (example_fs Absent)"
  "\<not> cache_verifies (example_env post) example_guard
       (example_fs (Unreadable (Errorf ''permission denied'')))"
  by (simp_all add: cache_verifies_def loadCachedLicense_def os_ReadFile_def example_cache_path
      example_fs_def)
     (simp_all add: example_env_def example_cached_def example_guard_def)

theorem verifyLicense_cache_then_remote_witness:
  "vl_err (verifyLicense (example_env (Inl (Errorf ''unreachable''))) example_guard
       (example_fs (File ''good''))) = None
   \<and> network_calls (vl_effects (verifyLicense (example_env (Inl (Errorf ''unreachable'')))
       example_guard (example_fs (File ''good'')))) = 0
   \<and> network_calls (vl_effects (verifyLicense (example_env (Inr example_verify_ok))
       example_guard (example_fs (File ''forged'')))) = 1
   \<and> vl_err (verifyLicense (example_env (Inr example_verify_ok)) example_guard
       (example_fs (File ''forged''))) = None
   \<and> vl_fs (verifyLicense (example_env (Inr example_verify_ok)) example_guard
       (example_fs (File ''forged''))) ''/home/u/.deploy-guard/proj/backend/license.cache''
       = File ''fresh|#freshkey''
   \<and> vl_err (verifyLicense (example_env (Inr example_verify_ok)) example_guard
       (example_fs Absent)) = None
   \<and> vl_err (verifyLicense (example_env (Inl (Errorf ''unreachable''))) example_guard
       (example_fs (Unreadable (Errorf ''permission denied''))))
       = Some (Wrapf ErrNetworkError (Errorf ''unreachable''))"
proof -
  let ?down = "example_env (Inl (Errorf ''unreachable''))"
  let ?up = "example_env (Inr example_verify_ok)"
  note hit = verifyLicense_cache_then_remote [of ?down example_guard "example_fs (File ''good'')"]
  note forged = verifyLicense_cache_then_remote [of ?up example_guard "example_fs (File ''forged'')"]
  note absent = verifyLicense_cache_then_remote [of ?up example_guard "example_fs Absent"]
  note unread = verifyLicense_cache_then_remote [of ?down example_guard
      "example_fs (Unreadable (Errorf ''permission denied''))"]
  have up: "post_verify ?up = Inr example_verify_ok" "vr_Error example_verify_ok = []"
      "write_err ?up = None"
    and down: "post_verify ?down = Inl (Errorf ''unreachable'')"
    by (simp_all add: example_env_def example_verify_ok_def)
  have content: "json_Marshal ?up \<lparr>cl_LicenseKey = LicenseKey (cfg example_guard),
                  cl_PublicData = vr_PublicData example_verify_ok,
                  cl_Signature = vr_Signature example_verify_ok,
                  cl_VerifiedAt = nowRFC3339 ?up\<rparr> = ''fresh|#freshkey''"
    by (simp add: example_env_def example_verify_ok_def)
  from hit example_cache_states(1) [of "Inl (Errorf ''unreachable'')"]
  have 1: "vl_err (verifyLicense ?down example_guard (example_fs (File ''good''))) = None"
    and 2: "network_calls (vl_effects (verifyLicense ?down example_guard
       (example_fs (File ''good'')))) = 0"
    by blast+
  from forged example_cache_states(2) [of "Inr example_verify_ok"] up
  have 3: "network_calls (vl_effects (verifyLicense ?up example_guard
       (example_fs (File ''forged'')))) = 1"
    and 4: "vl_err (verifyLicense ?up example_guard (example_fs (File ''forged''))) = None"
    and "vl_fs (verifyLicense ?up example_guard (example_fs (File ''forged'')))
           (cache_path ?up example_guard)
         = File (json_Marshal ?up \<lparr>cl_LicenseKey = LicenseKey (cfg example_guard),
                  cl_PublicData = vr_PublicData example_verify_ok,
                  cl_Signature = vr_Signature example_verify_ok,
                  cl_VerifiedAt = nowRFC3339 ?up\<rparr>)"
    by blast+
  then have 5: "vl_fs (verifyLicense ?up example_guard (example_fs (File ''forged'')))
       ''/home/u/.deploy-guard/proj/backend/license.cache'' = File ''fresh|#freshkey''"
    by (simp only: content example_cache_path)
  from absent example_cache_states(5) [of "Inr example_verify_ok"] up
  have 6: "vl_err (verifyLicense ?up example_guard (example_fs Absent)) = None"
    by blast
  from unread example_cache_states(6) [of "Inl (Errorf ''unreachable'')"]
  have "vl_err (verifyLicense ?down example_guard
          (example_fs (Unreadable (Errorf ''permission denied'')))) =
        (case post_verify ?down of
               Inl err \<Rightarrow> Some (Wrapf ErrNetworkError err)
             | Inr resp \<Rightarrow>
                 if vr_Error resp \<noteq> [] then Some (verify_error (vr_Error resp)) else None)"
    by blast
  then have 7: "vl_err (verifyLicense ?down example_guard
          (example_fs (Unreadable (Errorf ''permission denied''))))
       = Some (Wrapf ErrNetworkError (Errorf ''unreachable''))"
    by (simp add: down)
  from 1 2 3 4 5 6 7 show ?thesis by blast
qed

section \<open>Properties of the path functions\<close>

lemma splitSlash_not_Nil: "splitSlash s \<noteq> []"
  by (induction s) (auto split: list.splits)

lemma splitSlash_append:
  "splitSlash (a @ CHR ''/'' # b) = splitSlash a @ splitSlash b"
proof (induction a)
  case Nil
  then show ?case by simp
next
  case (Cons c a)
  then show ?case
    using splitSlash_not_Nil [of a]
    by (cases "splitSlash a") (auto split: list.splits)
qed

lemma splitSlash_plain: "CHR ''/'' \<notin> set e \<Longrightarrow> splitSlash e = [e]"
  by (induction e) auto

lemma splitSlash_single: "splitSlash s = [[]] \<Longrightarrow> s = []"
  using splitSlash_not_Nil [of "tl s"]
  by (cases s) (auto split: if_splits list.splits)

lemma splitSlash_joinSlash:
  "cs \<noteq> [] \<Longrightarrow> \<forall>e \<in> set cs. CHR ''/'' \<notin> set e \<Longrightarrow> splitSlash (joinSlash cs) = cs"
proof (induction cs rule: joinSlash.induct)
  case 1
  then show ?case by simp
next
  case (2 e)
  then show ?case by (simp add: splitSlash_plain)
next
  case (3 e v va)
  then show ?case
    using splitSlash_append [of e "joinSlash (v # va)"]
    by (simp add: splitSlash_plain)
qed

lemma splitSlash_no_slash: "e \<in> set (splitSlash s) \<Longrightarrow> CHR ''/'' \<notin> set e"
proof (induction s arbitrary: e)
  case Nil
  then show ?case by simp
next
  case (Cons c s)
  then show ?case
    using splitSlash_not_Nil [of s]
    by (cases "splitSlash s") (auto split: if_splits)
qed

lemma dots_not_plain: "\<not> plain_name ''..''" "\<not> plain_name ''.''" "\<not> plain_name []"
  by (simp_all add: plain_name_def)

lemma clean_stack_push: "clean_stack rooted stack \<Longrightarrow> plain_name e \<Longrightarrow> clean_stack rooted (e # stack)"
  using dots_not_plain(1) by auto

lemma clean_stack_pop: "clean_stack rooted (t # ts) \<Longrightarrow> t \<noteq> ''..'' \<Longrightarrow> clean_stack rooted ts"
  by simp

lemma clean_stack_dots:
  "clean_stack False (''..'' # ts) \<Longrightarrow> clean_stack False (''..'' # ''..'' # ts)"
  by simp

lemma clean_elems_stack:
  "clean_stack rooted stack \<Longrightarrow> \<forall>e \<in> set es. CHR ''/'' \<notin> set e \<Longrightarrow>
   clean_stack rooted (clean_elems rooted stack es)"
proof (induction es arbitrary: stack)
  case Nil
  then show ?case by simp
next
  case (Cons e es)
  from Cons.prems(2) have slash: "CHR ''/'' \<notin> set e" and rest: "\<forall>e \<in> set es. CHR ''/'' \<notin> set e"
    by simp_all
  note IH = Cons.IH [OF _ rest]
  consider (skip) "e = [] \<or> e = ''.''"
    | (up_empty) "e = ''..''" "stack = []"
    | (up_dots) ts where "e = ''..''" "stack = ''..'' # ts"
    | (up_name) t ts where "e = ''..''" "stack = t # ts" "t \<noteq> ''..''"
    | (name) "e \<noteq> []" "e \<noteq> ''.''" "e \<noteq> ''..''"
    by (cases stack) auto
  then show ?case
  proof cases
    case skip
    then have eq: "clean_elems rooted stack (e # es) = clean_elems rooted stack es"
      by auto
    from IH [OF Cons.prems(1)] show ?thesis by (simp only: eq)
  next
    case up_empty
    show ?thesis
    proof (cases rooted)
      case True
      with up_empty have eq: "clean_elems rooted stack (e # es) = clean_elems rooted [] es"
        by simp
      have "clean_stack rooted []" by simp
      from IH [OF this] show ?thesis by (simp only: eq)
    next
      case False
      with up_empty have eq: "clean_elems rooted stack (e # es) = clean_elems rooted [''..''] es"
        by simp
      have "clean_stack rooted [''..'']" using False by simp
      from IH [OF this] show ?thesis by (simp only: eq)
    qed
  next
    case (up_dots ts)
    then have eq: "clean_elems rooted stack (e # es) = clean_elems rooted (''..'' # ''..'' # ts) es"
      by simp
    from Cons.prems(1) up_dots have "clean_stack rooted (''..'' # ''..'' # ts)"
      by simp
    from IH [OF this] show ?thesis by (simp only: eq)
  next
    case (up_name t ts)
    then have eq: "clean_elems rooted stack (e # es) = clean_elems rooted ts es"
      by simp
    from Cons.prems(1) up_name have "clean_stack rooted ts"
      by simp
    from IH [OF this] show ?thesis by (simp only: eq)
  next
    case name
    then have eq: "clean_elems rooted stack (e # es) = clean_elems rooted (e # stack) es"
      by simp
    from name slash have "plain_name e"
      by (simp add: plain_name_def)
    from IH [OF clean_stack_push [OF Cons.prems(1) this]] show ?thesis by (simp only: eq)
  qed
qed

lemma clean_stack_elems:
  "clean_stack rooted stack \<Longrightarrow> e \<in> set stack \<Longrightarrow> e = ''..'' \<and> \<not> rooted \<or> plain_name e"
  by (induction stack) (auto simp: list_all_iff split: if_splits)

lemma clean_stack_above:
  "clean_stack rooted (as @ x # ys) \<Longrightarrow> x \<noteq> ''..'' \<Longrightarrow> list_all plain_name as"
  by (induction as) (auto simp: list_all_iff split: if_splits)

lemma joinSlash_Nil:
  "joinSlash cs = [] \<Longrightarrow> [] \<notin> set cs \<Longrightarrow> cs = []"
  by (cases cs rule: joinSlash.cases) auto

lemma clean_elems_result:
  "clean_stack rooted (clean_elems rooted [] (splitSlash q))"
  by (rule clean_elems_stack) (auto dest: splitSlash_no_slash)

lemma clean_comps:
  assumes "cs = rev (clean_elems rooted [] (splitSlash q))" and "e \<in> set cs"
  shows "e \<noteq> []" and "CHR ''/'' \<notin> set e" and "e \<noteq> ''.''" and "rooted \<Longrightarrow> plain_name e"
  using clean_stack_elems [OF clean_elems_result, of e rooted q] assms
  by (auto simp: plain_name_def)

lemma splitSlash_Clean:
  "splitSlash (filepath_Clean q) =
     (let rooted = (take 1 q = ''/'');
          cs = rev (clean_elems rooted [] (splitSlash q))
      in if rooted then [] # (if cs = [] then [[]] else cs)
         else if cs = [] then [''.''] else cs)"
proof -
  define rooted where "rooted = (take 1 q = ''/'')"
  define cs where "cs = rev (clean_elems rooted [] (splitSlash q))"
  have noslash: "\<forall>e \<in> set cs. CHR ''/'' \<notin> set e" and nonempty: "[] \<notin> set cs"
    using clean_comps [OF cs_def] by auto
  have clean: "filepath_Clean q =
      (if rooted then ''/'' @ joinSlash cs else if joinSlash cs = [] then ''.'' else joinSlash cs)"
    by (simp add: filepath_Clean_def Let_def rooted_def cs_def)
  have split: "splitSlash (joinSlash cs) = (if cs = [] then [[]] else cs)"
    using splitSlash_joinSlash [OF _ noslash] by simp
  have "splitSlash (filepath_Clean q) =
      (if rooted then [] # (if cs = [] then [[]] else cs)
       else if cs = [] then [''.''] else cs)"
  proof (cases rooted)
    case True
    then have "filepath_Clean q = [] @ CHR ''/'' # joinSlash cs"
      by (simp add: clean)
    then have "splitSlash (filepath_Clean q) = splitSlash [] @ splitSlash (joinSlash cs)"
      by (simp only: splitSlash_append)
    with True split show ?thesis by simp
  next
    case False
    show ?thesis
    proof (cases "cs = []")
      case True
      with False clean show ?thesis by simp
    next
      case ne: False
      with joinSlash_Nil [OF _ nonempty] have "joinSlash cs \<noteq> []" by blast
      with False clean split ne show ?thesis by simp
    qed
  qed
  then show ?thesis
    by (simp add: Let_def rooted_def cs_def)
qed

lemma filepath_Clean_not_Nil: "filepath_Clean q \<noteq> []"
  by (simp add: filepath_Clean_def Let_def)

lemma prefix_inside_root:
  assumes pre: "prefix (filepath_Clean r @ ''/'') (filepath_Clean q)"
    and last: "last (splitSlash (filepath_Clean r)) \<noteq> ''..''"
  shows "\<exists>rest. rest \<noteq> [] \<and> list_all plain_name rest
           \<and> splitSlash (filepath_Clean q) = splitSlash (filepath_Clean r) @ rest"
proof -
  let ?R = "splitSlash (filepath_Clean r)"
  from pre obtain s where q: "filepath_Clean q = filepath_Clean r @ CHR ''/'' # s"
    by (auto simp: prefix_def)
  then have split: "splitSlash (filepath_Clean q) = ?R @ splitSlash s"
    by (simp only: splitSlash_append)
  have Rne: "?R \<noteq> []" and rest_ne: "splitSlash s \<noteq> []"
    by (rule splitSlash_not_Nil)+
  have R1: "?R \<noteq> [[]]"
    using splitSlash_single [of "filepath_Clean r"] filepath_Clean_not_Nil [of r] by blast
  define rooted where "rooted = (take 1 q = ''/'')"
  define cs where "cs = rev (clean_elems rooted [] (splitSlash q))"
  have form: "splitSlash (filepath_Clean q) =
      (if rooted then [] # (if cs = [] then [[]] else cs)
       else if cs = [] then [''.''] else cs)"
    using splitSlash_Clean [of q] by (simp add: Let_def rooted_def cs_def)
  have plain: "list_all plain_name (splitSlash s)"
  proof (cases rooted)
    case True
    from Rne obtain x xs where R: "?R = x # xs" by (cases ?R) auto
    show ?thesis
    proof (cases "cs = []")
      case True
      with \<open>rooted\<close> form split R have "xs @ splitSlash s = [[]]" by simp
      with rest_ne R R1 show ?thesis
        using \<open>rooted\<close> form split True by (cases xs) auto
    next
      case False
      with \<open>rooted\<close> form split R have "xs @ splitSlash s = cs" by simp
      then have "set (splitSlash s) \<subseteq> set cs" by auto
      with clean_comps(4) [OF cs_def _ \<open>rooted\<close>] show ?thesis
        by (auto simp: list_all_iff)
    qed
  next
    case False
    show ?thesis
    proof (cases "cs = []")
      case True
      with False form split have "?R @ splitSlash s = [''.'']" by simp
      with Rne rest_ne show ?thesis
        by (cases ?R; cases "splitSlash s") auto
    next
      case ne: False
      with False form split have cs: "cs = ?R @ splitSlash s" by simp
      have "clean_stack rooted (rev cs)"
        using clean_elems_result [of rooted q] by (simp add: cs_def)
      then have "clean_stack rooted (rev (splitSlash s) @ List.last ?R # rev (butlast ?R))"
        using Rne by (simp add: cs rev_append [symmetric] del: rev_append)
          (metis append_butlast_last_id rev.simps(2) rev_append rev_rev_ident)
      from clean_stack_above [OF this last] show ?thesis
        by (simp add: list_all_iff)
    qed
  qed
  from rest_ne plain split show ?thesis by blast
qed

section \<open>Properties of the extraction\<close>

lemma extract_entries_skips:
  "extract_entries E tmpDir items ops =
   extract_entries E tmpDir (filter (stays_inside tmpDir) items) ops"
  by (induction E tmpDir items ops rule: extract_entries.induct)
     (simp_all add: Let_def split: option.splits)

lemma extract_entries_ops:
  "op \<in> set (snd (extract_entries E tmpDir items ops)) \<Longrightarrow>
   op \<in> set ops \<or>
   (\<exists>hdr body. TarEntry hdr body \<in> set items \<and> \<not> escapes_root tmpDir (Name hdr)
      \<and> op \<in> set (entry_ops tmpDir hdr body))"
proof (induction E tmpDir items ops rule: extract_entries.induct)
  case (1 E tmpDir ops)
  then show ?case by simp
next
  case (2 E tmpDir err rest ops)
  then show ?case by simp
next
  case (3 E tmpDir hdr body rest ops)
  show ?case
  proof (cases "escapes_root tmpDir (Name hdr)")
    case True
    with 3 show ?thesis by (auto simp: Let_def)
  next
    case False
    with 3 show ?thesis
      by (fastforce simp: Let_def entry_ops_def split: if_splits option.splits)
  qed
qed

section \<open>Properties of the update engine\<close>

lemma filter_progress [simp]:
  "filter is_progress (progress g c st n) = progress g c st n"
  "filter is_progress (backend_failed g u stage err) = []"
  "filter is_progress (emit b (Failure c e)) = []"
  "filter is_progress (emit b (UpdateResult c old new ok eo)) = []"
  by (simp_all add: progress_def backend_failed_def emit_def)

lemma filter_progress_stages [simp]:
  "filter is_progress (backend_verifying g) = backend_verifying g"
  "filter is_progress (backend_applying g) = backend_applying g"
  by (simp_all add: backend_verifying_def backend_applying_def)

lemma ub_meta_failed:
  assumes "backend_meta E g u = Inl err"
  shows "updateBackend E g u fs =
           \<lparr>up_guard = g, up_fs = fs,
            up_events = progress g (ComponentSlug (cfg g)) ''requesting'' 0
                        @ backend_failed g u ErrUpdateDownload err,
            up_err = Some err\<rparr>"
  using assms by (simp add: updateBackend_def Let_def)

lemma ub_download_failed:
  assumes "backend_meta E g u = Inr (url, declared, signature)"
    and "backend_download E g fs url = (Inl err, fs1)"
  shows "updateBackend E g u fs =
           \<lparr>up_guard = g, up_fs = fs1,
            up_events = progress g (ComponentSlug (cfg g)) ''requesting'' 0
                        @ progress g (ComponentSlug (cfg g)) ''downloading'' 3
                        @ backend_failed g u ErrUpdateDownload err,
            up_err = Some err\<rparr>"
  using assms by (simp add: updateBackend_def Let_def)

lemma ub_hash_mismatch:
  assumes "backend_meta E g u = Inr (url, declared, signature)"
    and "backend_download E g fs url = (Inr (tmpPath, actual), fs1)"
    and "actual \<noteq> declared"
  shows "updateBackend E g u fs =
           \<lparr>up_guard = g, up_fs = fs1(tmpPath := Absent),
            up_events = backend_verifying g
              @ backend_failed g u ErrUpdateVerify
                  (Errorf (''hash mismatch: expected '' @ declared @ '', got '' @ actual)),
            up_err = Some (Errorf (''hash mismatch: expected '' @ declared @ '', got '' @ actual))\<rparr>"
  using assms by (simp add: updateBackend_def Let_def backend_verifying_def)

lemma ub_signature_failed:
  assumes "backend_meta E g u = Inr (url, declared, signature)"
    and "backend_download E g fs url = (Inr (tmpPath, declared), fs1)"
    and "verifySignature E g declared signature = Some err"
  shows "updateBackend E g u fs =
           \<lparr>up_guard = g, up_fs = fs1(tmpPath := Absent),
            up_events = backend_verifying g @ backend_failed g u ErrUpdateVerify err,
            up_err = Some err\<rparr>"
  using assms by (simp add: updateBackend_def Let_def backend_verifying_def)

lemma ub_executable_failed:
  assumes "backend_meta E g u = Inr (url, declared, signature)"
    and "backend_download E g fs url = (Inr (tmpPath, declared), fs1)"
    and "verifySignature E g declared signature = None"
    and "executable E = Inl err"
  shows "updateBackend E g u fs =
           \<lparr>up_guard = g, up_fs = fs1(tmpPath := Absent),
            up_events = backend_applying g @ backend_failed g u ErrUpdateApply err,
            up_err = Some err\<rparr>"
  using assms
  by (simp add: updateBackend_def Let_def backend_verifying_def backend_applying_def)

lemma ub_apply_failed:
  assumes "backend_meta E g u = Inr (url, declared, signature)"
    and "backend_download E g fs url = (Inr (tmpPath, declared), fs1)"
    and "verifySignature E g declared signature = None"
    and "executable E = Inr exe"
    and "applyBackendBinaryWithSelfupdate E tmpPath exe fs1 = (Some err, fs2)"
  shows "updateBackend E g u fs =
           \<lparr>up_guard = g, up_fs = fs2(tmpPath := Absent),
            up_events = backend_applying g @ backend_failed g u ErrUpdateApply err,
            up_err = Some err\<rparr>"
  using assms
  by (simp add: updateBackend_def Let_def backend_verifying_def backend_applying_def)

lemma ub_applied:
  assumes "backend_meta E g u = Inr (url, declared, signature)"
    and "backend_download E g fs url = (Inr (tmpPath, declared), fs1)"
    and "verifySignature E g declared signature = None"
    and "executable E = Inr exe"
    and "applyBackendBinaryWithSelfupdate E tmpPath exe fs1 = (None, fs2)"
  shows "updateBackend E g u fs =
           \<lparr>up_guard = g\<lparr>version := Latest u\<rparr>, up_fs = fs2(tmpPath := Absent),
            up_events = backend_applying g
              @ emit (OnUpdateResult (OTA (cfg g)))
                  (UpdateResult (ComponentSlug (cfg g)) (version g) (Latest u) True None)
              @ progress g (ComponentSlug (cfg g)) ''completed'' 10,
            up_err = None\<rparr>"
  using assms
  by (simp add: updateBackend_def Let_def backend_verifying_def backend_applying_def)

lemma updateBackend_paths:
  obtains
    (meta_failed) err where "backend_meta E g u = Inl err"
  | (download_failed) url declared signature err fs1 where
      "backend_meta E g u = Inr (url, declared, signature)"
      "backend_download E g fs url = (Inl err, fs1)"
  | (hash_mismatch) url declared signature tmpPath actual fs1 where
      "backend_meta E g u = Inr (url, declared, signature)"
      "backend_download E g fs url = (Inr (tmpPath, actual), fs1)"
      "actual \<noteq> declared"
  | (signature_failed) url declared signature tmpPath fs1 err where
      "backend_meta E g u = Inr (url, declared, signature)"
      "backend_download E g fs url = (Inr (tmpPath, declared), fs1)"
      "verifySignature E g declared signature = Some err"
  | (executable_failed) url declared signature tmpPath fs1 err where
      "backend_meta E g u = Inr (url, declared, signature)"
      "backend_download E g fs url = (Inr (tmpPath, declared), fs1)"
      "verifySignature E g declared signature = None"
      "executable E = Inl err"
  | (apply_failed) url declared signature tmpPath fs1 exe err fs2 where
      "backend_meta E g u = Inr (url, declared, signature)"
      "backend_download E g fs url = (Inr (tmpPath, declared), fs1)"
      "verifySignature E g declared signature = None"
      "executable E = Inr exe"
      "applyBackendBinaryWithSelfupdate E tmpPath exe fs1 = (Some err, fs2)"
  | (applied) url declared signature tmpPath fs1 exe fs2 where
      "backend_meta E g u = Inr (url, declared, signature)"
      "backend_download E g fs url = (Inr (tmpPath, declared), fs1)"
      "verifySignature E g declared signature = None"
      "executable E = Inr exe"
      "applyBackendBinaryWithSelfupdate E tmpPath exe fs1 = (None, fs2)"
proof (cases "backend_meta E g u")
  case (Inl err)
  then show ?thesis by (rule meta_failed)
next
  case (Inr m)
  obtain url declared signature where meta: "backend_meta E g u = Inr (url, declared, signature)"
    using Inr by (cases m) simp
  obtain res fs1 where dl: "backend_download E g fs url = (res, fs1)"
    by (cases "backend_download E g fs url")
  show ?thesis
  proof (cases res)
    case (Inl err)
    with meta dl show ?thesis by (auto intro: download_failed)
  next
    case (Inr t)
    obtain tmpPath actual where dl': "backend_download E g fs url = (Inr (tmpPath, actual), fs1)"
      using dl Inr by (cases t) simp
    show ?thesis
    proof (cases "actual = declared")
      case False
      with meta dl' show ?thesis by (auto intro: hash_mismatch)
    next
      case True
      note dl'' = dl' [unfolded True]
      show ?thesis
      proof (cases "verifySignature E g declared signature")
        case (Some err)
        with meta dl'' show ?thesis by (auto intro: signature_failed)
      next
        case None
        show ?thesis
        proof (cases "executable E")
          case (Inl err)
          with meta dl'' None show ?thesis by (auto intro: executable_failed)
        next
          case (Inr exe)
          obtain r fs2 where ap: "applyBackendBinaryWithSelfupdate E tmpPath exe fs1 = (r, fs2)"
            by (cases "applyBackendBinaryWithSelfupdate E tmpPath exe fs1")
          show ?thesis
          proof (cases r)
            case none: None
            from meta dl'' None Inr ap [unfolded none] show ?thesis by (rule applied)
          next
            case (Some err)
            from meta dl'' None Inr ap [unfolded Some] show ?thesis by (rule apply_failed)
          qed
        qed
      qed
    qed
  qed
qed

lemma updateBackend_failure:
  assumes "up_err (updateBackend E g u fs) = Some err"
  shows "up_guard (updateBackend E g u fs) = g
         \<and> (\<exists>stage. (stage = ErrUpdateDownload \<or> stage = ErrUpdateVerify \<or> stage = ErrUpdateApply)
              \<and> up_events (updateBackend E g u fs) =
                  filter is_progress (up_events (updateBackend E g u fs))
                  @ backend_failed g u stage err)"
proof (cases rule: updateBackend_paths [where E = E and g = g and u = u and fs = fs])
  case (meta_failed e)
  from ub_meta_failed [OF this] assms show ?thesis by auto
next
  case (download_failed url declared signature e fs1)
  from ub_download_failed [OF this] assms show ?thesis by auto
next
  case (hash_mismatch url declared signature tmpPath actual fs1)
  from ub_hash_mismatch [OF this] assms show ?thesis by auto
next
  case (signature_failed url declared signature tmpPath fs1 e)
  from ub_signature_failed [OF this] assms show ?thesis by auto
next
  case (executable_failed url declared signature tmpPath fs1 e)
  from ub_executable_failed [OF this] assms show ?thesis by auto
next
  case (apply_failed url declared signature tmpPath fs1 exe e fs2)
  from ub_apply_failed [OF this] assms show ?thesis by auto
next
  case (applied url declared signature tmpPath fs1 exe fs2)
  from ub_applied [OF this] assms show ?thesis by simp
qed

lemma frontend_stage_defs:
  "frontend_downloading g mc =
     progress g (Slug mc) ''requesting'' 0 @ progress g (Slug mc) ''downloading'' 3"
  "frontend_extracting g mc =
     progress g (Slug mc) ''requesting'' 0 @ progress g (Slug mc) ''downloading'' 3
     @ progress g (Slug mc) ''extracting'' 5"
  "frontend_verifying g mc =
     progress g (Slug mc) ''requesting'' 0 @ progress g (Slug mc) ''downloading'' 3
     @ progress g (Slug mc) ''extracting'' 5 @ progress g (Slug mc) ''verifying'' 8"
  "frontend_applying g mc =
     progress g (Slug mc) ''requesting'' 0 @ progress g (Slug mc) ''downloading'' 3
     @ progress g (Slug mc) ''extracting'' 5 @ progress g (Slug mc) ''verifying'' 8
     @ progress g (Slug mc) ''applying'' 9"
  by (simp_all add: frontend_downloading_def frontend_extracting_def frontend_verifying_def
      frontend_applying_def)

lemma filter_progress_frontend [simp]:
  "filter is_progress (frontend_downloading g mc) = frontend_downloading g mc"
  "filter is_progress (frontend_extracting g mc) = frontend_extracting g mc"
  "filter is_progress (frontend_verifying g mc) = frontend_verifying g mc"
  "filter is_progress (frontend_applying g mc) = frontend_applying g mc"
  by (simp_all add: frontend_stage_defs)

lemma uf_meta_failed:
  assumes "frontend_meta E g mc u = Inl err"
  shows "updateFrontend E g mc u fs =
           frontend_failed g mc fs (progress g (Slug mc) ''requesting'' 0)
             (Wrapf ErrUpdateDownload err)"
  using assms by (simp add: updateFrontend_def Let_def)

lemma uf_server_error:
  assumes "frontend_meta E g mc u = Inr resp" and "dm_Error resp \<noteq> []"
  shows "updateFrontend E g mc u fs =
           frontend_failed g mc fs (progress g (Slug mc) ''requesting'' 0)
             (Wrapf ErrUpdateDownload (Errorf (dm_Error resp)))"
  using assms by (simp add: updateFrontend_def Let_def)

lemma uf_get_failed:
  assumes "frontend_meta E g mc u = Inr resp" and "dm_Error resp = []"
    and "frontend_get E g resp = Inl err"
  shows "updateFrontend E g mc u fs =
           frontend_failed g mc fs (frontend_downloading g mc) (Wrapf ErrUpdateDownload err)"
  using assms by (simp add: updateFrontend_def Let_def frontend_stage_defs)

lemma uf_bad_status:
  assumes "frontend_meta E g mc u = Inr resp" and "dm_Error resp = []"
    and "frontend_get E g resp = Inr (status, body)" and "status \<noteq> 200"
  shows "updateFrontend E g mc u fs =
           frontend_failed g mc fs (frontend_downloading g mc)
             (Wrapf ErrUpdateDownload (Errorf ''status''))"
  using assms by (simp add: updateFrontend_def Let_def frontend_stage_defs)

lemma uf_mkdir_failed:
  assumes "frontend_meta E g mc u = Inr resp" and "dm_Error resp = []"
    and "frontend_get E g resp = Inr (200, body)"
    and "mkdir_temp E = Inl err"
  shows "updateFrontend E g mc u fs =
           frontend_failed g mc fs (frontend_downloading g mc) (Wrapf ErrUpdateApply err)"
  using assms by (simp add: updateFrontend_def Let_def frontend_stage_defs)

lemma uf_gunzip_failed:
  assumes "frontend_meta E g mc u = Inr resp" and "dm_Error resp = []"
    and "frontend_get E g resp = Inr (200, body)"
    and "mkdir_temp E = Inr tmpDir"
    and "gunzip_err E (limited g body) = Some err"
  shows "updateFrontend E g mc u fs =
           frontend_failed g mc (fs(tmpDir := Absent)) (frontend_extracting g mc)
             (Wrapf ErrUpdateVerify err)"
  using assms by (simp add: updateFrontend_def Let_def frontend_stage_defs)

lemma uf_extract_failed:
  assumes "frontend_meta E g mc u = Inr resp" and "dm_Error resp = []"
    and "frontend_get E g resp = Inr (200, body)"
    and "mkdir_temp E = Inr tmpDir"
    and "gunzip_err E (limited g body) = None"
    and "extract_entries E tmpDir (untar E (limited g body)) [] = (Some werr, ops)"
  shows "updateFrontend E g mc u fs =
           frontend_failed g mc (fs(tmpDir := Absent)) (frontend_extracting g mc) werr"
  using assms by (simp add: updateFrontend_def Let_def frontend_stage_defs)

lemma uf_hash_mismatch:
  assumes "frontend_meta E g mc u = Inr resp" and "dm_Error resp = []"
    and "frontend_get E g resp = Inr (200, body)"
    and "mkdir_temp E = Inr tmpDir"
    and "gunzip_err E (limited g body) = None"
    and "extract_entries E tmpDir (untar E (limited g body)) [] = (None, ops)"
    and "frontend_digest E g body \<noteq> dm_SHA256 resp"
  shows "updateFrontend E g mc u fs =
           frontend_failed g mc (fs(tmpDir := Absent)) (frontend_verifying g mc)
             (Wrapf ErrUpdateVerify (Errorf ''hash mismatch''))"
  using assms by (simp add: updateFrontend_def Let_def frontend_stage_defs)

lemma uf_swap_failed:
  assumes "frontend_meta E g mc u = Inr resp" and "dm_Error resp = []"
    and "frontend_get E g resp = Inr (200, body)"
    and "mkdir_temp E = Inr tmpDir"
    and "gunzip_err E (limited g body) = None"
    and "extract_entries E tmpDir (untar E (limited g body)) [] = (None, ops)"
    and "frontend_digest E g body = dm_SHA256 resp"
    and "swap_directories E tmpDir (Dir mc) (fs(tmpDir := Tree ops)) = (Some err, fs3)"
  shows "updateFrontend E g mc u fs =
           frontend_failed g mc (fs3(tmpDir := Absent)) (frontend_applying g mc)
             (Wrapf ErrUpdateApply err)"
  using assms by (simp add: updateFrontend_def Let_def frontend_stage_defs)

lemma uf_swapped:
  assumes "frontend_meta E g mc u = Inr resp" and "dm_Error resp = []"
    and "frontend_get E g resp = Inr (200, body)"
    and "mkdir_temp E = Inr tmpDir"
    and "gunzip_err E (limited g body) = None"
    and "extract_entries E tmpDir (untar E (limited g body)) [] = (None, ops)"
    and "frontend_digest E g body = dm_SHA256 resp"
    and "swap_directories E tmpDir (Dir mc) (fs(tmpDir := Tree ops)) = (None, fs3)"
  shows "updateFrontend E g mc u fs =
           \<lparr>up_guard = g\<lparr>managedVersions := (managedVersions g)(Slug mc \<mapsto> Latest u)\<rparr>,
            up_fs = fs3(tmpDir := Absent),
            up_events = frontend_applying g mc
              @ emit (OnUpdateResult (OTA (cfg g)))
                  (UpdateResult (Slug mc) (map_get (managedVersions g) (Slug mc)) (Latest u)
                     True None)
              @ progress g (Slug mc) ''completed'' 10
              @ (case PostUpdate mc of None \<Rightarrow> [] | Some r \<Rightarrow> [PostUpdateHook (Slug mc)]),
            up_err = None\<rparr>"
  using assms by (simp add: updateFrontend_def Let_def frontend_stage_defs)

lemma updateFrontend_paths:
  obtains
    (meta_failed) err where "frontend_meta E g mc u = Inl err"
  | (server_error) resp where "frontend_meta E g mc u = Inr resp" "dm_Error resp \<noteq> []"
  | (get_failed) resp err where
      "frontend_meta E g mc u = Inr resp" "dm_Error resp = []"
      "frontend_get E g resp = Inl err"
  | (bad_status) resp status body where
      "frontend_meta E g mc u = Inr resp" "dm_Error resp = []"
      "frontend_get E g resp = Inr (status, body)" "status \<noteq> 200"
  | (mkdir_failed) resp body err where
      "frontend_meta E g mc u = Inr resp" "dm_Error resp = []"
      "frontend_get E g resp = Inr (200, body)"
      "mkdir_temp E = Inl err"
  | (gunzip_failed) resp body tmpDir err where
      "frontend_meta E g mc u = Inr resp" "dm_Error resp = []"
      "frontend_get E g resp = Inr (200, body)"
      "mkdir_temp E = Inr tmpDir"
      "gunzip_err E (limited g body) = Some err"
  | (extract_failed) resp body tmpDir werr ops where
      "frontend_meta E g mc u = Inr resp" "dm_Error resp = []"
      "frontend_get E g resp = Inr (200, body)"
      "mkdir_temp E = Inr tmpDir"
      "gunzip_err E (limited g body) = None"
      "extract_entries E tmpDir (untar E (limited g body)) [] = (Some werr, ops)"
  | (hash_mismatch) resp body tmpDir ops where
      "frontend_meta E g mc u = Inr resp" "dm_Error resp = []"
      "frontend_get E g resp = Inr (200, body)"
      "mkdir_temp E = Inr tmpDir"
      "gunzip_err E (limited g body) = None"
      "extract_entries E tmpDir (untar E (limited g body)) [] = (None, ops)"
      "frontend_digest E g body \<noteq> dm_SHA256 resp"
  | (swap_failed) resp body tmpDir ops err fs3 where
      "frontend_meta E g mc u = Inr resp" "dm_Error resp = []"
      "frontend_get E g resp = Inr (200, body)"
      "mkdir_temp E = Inr tmpDir"
      "gunzip_err E (limited g body) = None"
      "extract_entries E tmpDir (untar E (limited g body)) [] = (None, ops)"
      "frontend_digest E g body = dm_SHA256 resp"
      "swap_directories E tmpDir (Dir mc) (fs(tmpDir := Tree ops)) = (Some err, fs3)"
  | (swapped) resp body tmpDir ops fs3 where
      "frontend_meta E g mc u = Inr resp" "dm_Error resp = []"
      "frontend_get E g resp = Inr (200, body)"
      "mkdir_temp E = Inr tmpDir"
      "gunzip_err E (limited g body) = None"
      "extract_entries E tmpDir (untar E (limited g body)) [] = (None, ops)"
      "frontend_digest E g body = dm_SHA256 resp"
      "swap_directories E tmpDir (Dir mc) (fs(tmpDir := Tree ops)) = (None, fs3)"
proof (cases "frontend_meta E g mc u")
  case (Inl err)
  then show ?thesis by (rule meta_failed)
next
  case meta: (Inr resp)
  show ?thesis
  proof (cases "dm_Error resp = []")
    case False
    with meta show ?thesis by (rule server_error)
  next
    case noerr: True
    show ?thesis
    proof (cases "frontend_get E g resp")
      case (Inl err)
      with meta noerr show ?thesis by (rule get_failed)
    next
      case (Inr sb)
      obtain status body where get: "frontend_get E g resp = Inr (status, body)"
        using Inr by (cases sb) simp
      show ?thesis
      proof (cases "status = 200")
        case False
        with meta noerr get show ?thesis by (rule bad_status)
      next
        case True
        note get' = get [unfolded True]
        show ?thesis
        proof (cases "mkdir_temp E")
          case (Inl err)
          with meta noerr get' show ?thesis by (rule mkdir_failed)
        next
          case tmp: (Inr tmpDir)
          show ?thesis
          proof (cases "gunzip_err E (limited g body)")
            case (Some err)
            with meta noerr get' tmp show ?thesis by (rule gunzip_failed)
          next
            case gz: None
            obtain r ops where
              ex: "extract_entries E tmpDir (untar E (limited g body)) [] = (r, ops)"
              by (cases "extract_entries E tmpDir (untar E (limited g body)) []")
            show ?thesis
            proof (cases r)
              case (Some werr)
              from meta noerr get' tmp gz ex [unfolded Some] show ?thesis
                by (rule extract_failed)
            next
              case None
              note ex' = ex [unfolded None]
              show ?thesis
              proof (cases "frontend_digest E g body = dm_SHA256 resp")
                case False
                with meta noerr get' tmp gz ex' show ?thesis by (rule hash_mismatch)
              next
                case eq: True
                obtain r2 fs3 where
                  sw: "swap_directories E tmpDir (Dir mc) (fs(tmpDir := Tree ops)) = (r2, fs3)"
                  by (cases "swap_directories E tmpDir (Dir mc) (fs(tmpDir := Tree ops))")
                show ?thesis
                proof (cases r2)
                  case None
                  from meta noerr get' tmp gz ex' eq sw [unfolded None] show ?thesis
                    by (rule swapped)
                next
                  case (Some err)
                  from meta noerr get' tmp gz ex' eq sw [unfolded Some] show ?thesis
                    by (rule swap_failed)
                qed
              qed
            qed
          qed
        qed
      qed
    qed
  qed
qed

lemma extract_entries_error:
  "extract_entries E tmpDir items ops = (Some werr, ops') \<Longrightarrow>
   \<exists>cause. werr = Wrapf ErrUpdateVerify cause \<or> werr = Wrapf ErrUpdateApply cause"
  by (induction E tmpDir items ops rule: extract_entries.induct)
     (auto simp: Let_def split: if_splits option.splits)

lemma frontend_failed_sel [simp]:
  "up_guard (frontend_failed g mc fs evs werr) = g"
  "up_fs (frontend_failed g mc fs evs werr) = fs"
  "up_events (frontend_failed g mc fs evs werr) =
     evs @ emit (OnUpdateFailure (OTA (cfg g))) (Failure (Slug mc) werr)"
  "up_err (frontend_failed g mc fs evs werr) = Some werr"
  by (simp_all add: frontend_failed_def)

lemma updateFrontend_failure:
  assumes "up_err (updateFrontend E g mc u fs) = Some werr"
  shows "up_guard (updateFrontend E g mc u fs) = g
         \<and> up_events (updateFrontend E g mc u fs) =
             filter is_progress (up_events (updateFrontend E g mc u fs))
             @ emit (OnUpdateFailure (OTA (cfg g))) (Failure (Slug mc) werr)
         \<and> (\<exists>stage cause.
               (stage = ErrUpdateDownload \<or> stage = ErrUpdateVerify \<or> stage = ErrUpdateApply)
               \<and> werr = Wrapf stage cause)"
proof (cases rule: updateFrontend_paths [where E = E and g = g and mc = mc and u = u and fs = fs])
  case (meta_failed err)
  from uf_meta_failed [OF this] assms show ?thesis by auto
next
  case (server_error resp)
  from uf_server_error [OF this] assms show ?thesis by auto
next
  case (get_failed resp err)
  from uf_get_failed [OF this] assms show ?thesis by auto
next
  case (bad_status resp status body)
  from uf_bad_status [OF this] assms show ?thesis by auto
next
  case (mkdir_failed resp body err)
  from uf_mkdir_failed [OF this] assms show ?thesis by auto
next
  case (gunzip_failed resp body tmpDir err)
  from uf_gunzip_failed [OF this] assms show ?thesis by auto
next
  case (extract_failed resp body tmpDir werr' ops)
  from extract_entries_error [OF extract_failed(6)] uf_extract_failed [OF extract_failed] assms
  show ?thesis by auto
next
  case (hash_mismatch resp body tmpDir ops)
  from uf_hash_mismatch [OF this] assms show ?thesis by auto
next
  case (swap_failed resp body tmpDir ops err fs3)
  from uf_swap_failed [OF this] assms show ?thesis by auto
next
  case (swapped resp body tmpDir ops fs3)
  from uf_swapped [OF this] assms show ?thesis by simp
qed

lemma download_failed_fs:
  "backend_download E g fs url = (Inl err, fs1) \<Longrightarrow>
   fs1 = fs \<or> (\<exists>tmp. create_temp E = Inr tmp \<and> fs1 = fs(tmp := Absent))"
  by (auto simp: downloadArtifactWithProgress_def Let_def
      split: option.splits sum.splits prod.splits if_splits)

lemma download_done_fs:
  "backend_download E g fs url = (Inr (tmpPath, actual), fs1) \<Longrightarrow>
   create_temp E = Inr tmpPath \<and> fs1(tmpPath := Absent) = fs(tmpPath := Absent)"
  by (auto simp: downloadArtifactWithProgress_def Let_def
      split: option.splits sum.splits prod.splits if_splits)

lemma apply_failed_fs:
  "applyBackendBinaryWithSelfupdate E tmpPath exe fs1 = (Some err, fs2) \<Longrightarrow>
   \<forall>e r. apply_outcome E \<noteq> ApplyRollbackFailed e r \<Longrightarrow> fs2 = fs1"
  by (auto simp: applyBackendBinaryWithSelfupdate_def split: option.splits apply_result.splits)

lemma updateBackend_failure_fs:
  assumes "up_err (updateBackend E g u fs) = Some err"
    and "\<forall>e r. apply_outcome E \<noteq> ApplyRollbackFailed e r"
  shows "up_fs (updateBackend E g u fs) = fs
         \<or> (\<exists>tmp. create_temp E = Inr tmp \<and> up_fs (updateBackend E g u fs) = fs(tmp := Absent))"
proof (cases rule: updateBackend_paths [where E = E and g = g and u = u and fs = fs])
  case (meta_failed e)
  from ub_meta_failed [OF this] show ?thesis by simp
next
  case (download_failed url declared signature e fs1)
  from ub_download_failed [OF this] download_failed_fs [OF download_failed(2)]
  show ?thesis by auto
next
  case (hash_mismatch url declared signature tmpPath actual fs1)
  from ub_hash_mismatch [OF this] download_done_fs [OF hash_mismatch(2)]
  show ?thesis by auto
next
  case (signature_failed url declared signature tmpPath fs1 e)
  from ub_signature_failed [OF this] download_done_fs [OF signature_failed(2)]
  show ?thesis by auto
next
  case (executable_failed url declared signature tmpPath fs1 e)
  from ub_executable_failed [OF this] download_done_fs [OF executable_failed(2)]
  show ?thesis by auto
next
  case (apply_failed url declared signature tmpPath fs1 exe e fs2)
  from ub_apply_failed [OF this] download_done_fs [OF apply_failed(2)]
    apply_failed_fs [OF apply_failed(5) assms(2)]
  show ?thesis by auto
next
  case (applied url declared signature tmpPath fs1 exe fs2)
  from ub_applied [OF this] assms show ?thesis by simp
qed

lemma os_Rename_failed:
  "os_Rename E src dst fs = (Some err, fs') \<Longrightarrow> fs' = fs"
  by (auto simp: os_Rename_def split: if_splits option.splits)

lemma move_new_dir_failed:
  assumes "move_new_dir E tmpDir dir fs = (Some err, fs')"
  shows "fs' = snd (os_Rename E (dir @ ''.bak'') dir fs)"
  using assms
  by (cases "os_Rename E tmpDir dir fs")
     (auto simp: move_new_dir_def dest: os_Rename_failed split: option.splits)

lemma swap_failed_live:
  assumes "swap_directories E tmpDir dir fs = (Some err, fs')"
    and "rename_err E (dir @ ''.bak'') dir = None"
  shows "fs' dir = fs dir"
proof -
  let ?fs1 = "fs(dir @ ''.bak'' := Absent)"
  have ne: "dir @ ''.bak'' \<noteq> dir" by simp
  show ?thesis
  proof (cases "?fs1 dir = Absent")
    case True
    with assms(1) have "move_new_dir E tmpDir dir ?fs1 = (Some err, fs')"
      by (simp add: swap_directories_def Let_def)
    from move_new_dir_failed [OF this] True show ?thesis
      by (simp add: os_Rename_def)
  next
    case False
    show ?thesis
    proof (cases "rename_err E dir (dir @ ''.bak'')")
      case (Some e)
      with assms(1) False have "fs' = ?fs1"
        by (auto simp: swap_directories_def Let_def os_Rename_def)
      then show ?thesis by simp
    next
      case None
      let ?fs2 = "?fs1(dir @ ''.bak'' := ?fs1 dir, dir := Absent)"
      from assms(1) False None have "move_new_dir E tmpDir dir ?fs2 = (Some err, fs')"
        by (simp add: swap_directories_def Let_def os_Rename_def)
      from move_new_dir_failed [OF this] False assms(2) show ?thesis
        by (simp add: os_Rename_def)
    qed
  qed
qed

lemma updateFrontend_failure_live:
  assumes "up_err (updateFrontend E g mc u fs) = Some werr"
    and "rename_err E (Dir mc @ ''.bak'') (Dir mc) = None"
    and "\<forall>tmpDir. mkdir_temp E = Inr tmpDir \<longrightarrow> fs tmpDir = Absent"
  shows "up_fs (updateFrontend E g mc u fs) (Dir mc) = fs (Dir mc)"
proof (cases rule: updateFrontend_paths [where E = E and g = g and mc = mc and u = u and fs = fs])
  case (meta_failed err)
  from uf_meta_failed [OF this] show ?thesis by simp
next
  case (server_error resp)
  from uf_server_error [OF this] show ?thesis by simp
next
  case (get_failed resp err)
  from uf_get_failed [OF this] show ?thesis by simp
next
  case (bad_status resp status body)
  from uf_bad_status [OF this] show ?thesis by simp
next
  case (mkdir_failed resp body err)
  from uf_mkdir_failed [OF this] show ?thesis by simp
next
  case (gunzip_failed resp body tmpDir err)
  from uf_gunzip_failed [OF this] assms(3) gunzip_failed(4) show ?thesis by auto
next
  case (extract_failed resp body tmpDir werr' ops)
  from uf_extract_failed [OF this] assms(3) extract_failed(4) show ?thesis by auto
next
  case (hash_mismatch resp body tmpDir ops)
  from uf_hash_mismatch [OF this] assms(3) hash_mismatch(4) show ?thesis by auto
next
  case (swap_failed resp body tmpDir ops err fs3)
  from swap_failed_live [OF swap_failed(8) assms(2)]
  have "fs3 (Dir mc) = (fs(tmpDir := Tree ops)) (Dir mc)" .
  with uf_swap_failed [OF swap_failed] assms(3) swap_failed(4) show ?thesis by auto
next
  case (swapped resp body tmpDir ops fs3)
  from uf_swapped [OF this] assms show ?thesis by simp
qed

lemma example_escapes:
  "escapes_root ''/tmp/dg'' ''../etc/passwd''"
  "\<not> escapes_root ''/tmp/dg'' ''index.html''"
  "\<not> escapes_root ''/tmp/dg'' ''assets''"
  "escapes_root ''/tmp/dg'' ''a/../../dg2/x''"
  by (simp_all add: escapes_root_def filepath_Join_def filepath_Clean_def Let_def)

lemma example_targets:
  "filepath_Join [''/tmp/dg'', ''index.html''] = ''/tmp/dg/index.html''"
  "filepath_Join [''/tmp/dg'', ''assets''] = ''/tmp/dg/assets''"
  "filepath_Dir ''/tmp/dg/index.html'' = ''/tmp/dg''"
  by (simp_all add: filepath_Join_def filepath_Clean_def filepath_Dir_def Let_def)

lemma example_extract:
  "extract_entries (example_update_env d ap) ''/tmp/dg'' example_archive [] =
     (None, [MkdirAll ''/tmp/dg'' 493, OpenFile ''/tmp/dg/index.html'' 420,
             CopyTo ''/tmp/dg/index.html'' ''<html>'', MkdirAll ''/tmp/dg/assets'' 448])"
  by (simp add: example_archive_def example_escapes example_targets Let_def TypeReg_def
      TypeDir_def example_update_env_def)

lemma example_backend_meta:
  "backend_meta (example_update_env d ap) example_guard example_update =
     Inr (''/dl/backend'', d, ''#'' @ d @ ''key'')"
  by (simp add: requestDownloadMeta_def example_update_env_def example_meta_def
      download_request_def example_guard_def)

lemma example_backend_download:
  "backend_download (example_update_env d ap) example_guard example_disk ''/dl/backend'' =
     (Inr (''/tmp/update-1'', ''#BINARY2''), example_disk(''/tmp/update-1'' := File ''BINARY2''))"
  by (simp add: downloadArtifactWithProgress_def example_update_env_def example_guard_def Let_def)

lemma example_frontend_premises:
  "frontend_meta (example_update_env d ap) example_guard example_web example_update =
     Inr (example_meta ''web'' d)"
  "dm_Error (example_meta ''web'' d) = []"
  "dm_SHA256 (example_meta ''web'' d) = d"
  "frontend_get (example_update_env d ap) example_guard (example_meta ''web'' d) = Inr (200, ''TARGZ'')"
  "mkdir_temp (example_update_env d ap) = Inr ''/tmp/dg''"
  "gunzip_err (example_update_env d ap) (limited example_guard ''TARGZ'') = None"
  "untar (example_update_env d ap) (limited example_guard ''TARGZ'') = example_archive"
  "frontend_digest (example_update_env d ap) example_guard ''TARGZ'' = ''#TARGZ''"
  by (simp_all add: example_update_env_def example_meta_def download_request_def
      example_guard_def example_web_def)

lemma example_verifySignature:
  "verifySignature (example_update_env d ap) example_guard d (''#'' @ d @ ''key'') = None"
  by (simp add: verifySignature_def example_update_env_def example_guard_def)

lemma example_executable:
  "executable (example_update_env d ap) = Inr ''/opt/app/server''"
  "create_temp (example_update_env d ap) = Inr ''/tmp/update-1''"
  "apply_outcome (example_update_env d ap) = ap"
  "rename_err (example_update_env d ap) src dst = None"
  by (simp_all add: example_update_env_def)

lemma example_apply:
  "applyBackendBinaryWithSelfupdate (example_update_env d ApplyOK) tmp exe fs =
     (None, fs(exe @ ''.bak'' := fs exe, exe := fs tmp))"
  "applyBackendBinaryWithSelfupdate (example_update_env d (ApplyRollbackFailed e r)) tmp exe fs =
     (Some (Wrapf ErrUpdateRollback r), fs(exe @ ''.bak'' := fs exe, exe := Absent))"
  "applyBackendBinaryWithSelfupdate (example_update_env d (ApplyFailed e)) tmp exe fs = (Some e, fs)"
  by (simp_all add: applyBackendBinaryWithSelfupdate_def example_update_env_def)

lemma example_swap:
  "fst (swap_directories (example_update_env d ap) ''/tmp/dg'' ''/srv/web''
          (example_disk(''/tmp/dg'' := Tree ops))) = None"
  by (simp add: swap_directories_def move_new_dir_def os_Rename_def Let_def example_disk_def
      example_update_env_def)

lemma example_guard_callbacks:
  "OnUpdateFailure (OTA (cfg example_guard))"
  "OnUpdateResult (OTA (cfg example_guard))"
  "OnUpdateProgress (OTA (cfg example_guard))"
  "version example_guard = ''1.0.0''"
  "Slug example_web = ''web''"
  "Dir example_web = ''/srv/web''"
  "Latest example_update = ''2.0.0''"
  by (simp_all add: example_guard_def example_web_def example_update_def)

lemma example_disk_simps:
  "example_disk ''/opt/app/server'' = File ''BINARY1''"
  "example_disk ''/srv/web'' = Tree [CopyTo ''/srv/web/index.html'' ''<old>'']"
  "example_disk ''/tmp/dg'' = Absent"
  "example_disk ''/tmp/update-1'' = Absent"
  by (simp_all add: example_disk_def)

text \<open>
  Claim C3. An archive entry whose resolved path (the cleaned join of the temporary
  directory and the entry name) does not lie under the temporary directory is never
  written: the extraction of a stream equals the extraction of the stream without such
  entries; every operation made belongs to an entry that resolves inside the temporary
  directory; the path of every operation resolves inside it, the creation of the parent
  directory of such a file apart; and a stream of escaping entries only leaves no
  operation at all. The check means what it should: when the last element of the cleaned
  temporary directory is not \<open>..\<close> (\<open>os.MkdirTemp\<close> ends its result in a generated
  name), the resolved path of an entry that passes consists of the elements of the
  temporary directory followed by one or more plain names, none of them \<open>..\<close>.
\<close>

theorem extraction_stays_inside_root:
  "extract_entries E tmpDir items ops =
     extract_entries E tmpDir (filter (stays_inside tmpDir) items) ops
   \<and> (\<forall>op \<in> set (snd (extract_entries E tmpDir items [])).
         \<exists>hdr body. TarEntry hdr body \<in> set items \<and> \<not> escapes_root tmpDir (Name hdr)
           \<and> op \<in> set (entry_ops tmpDir hdr body))
   \<and> (\<forall>op \<in> set (snd (extract_entries E tmpDir items [])).
         prefix (filepath_Clean tmpDir @ ''/'') (filepath_Clean (op_path op))
         \<or> (\<exists>target. op = MkdirAll (filepath_Dir target) 493
               \<and> prefix (filepath_Clean tmpDir @ ''/'') (filepath_Clean target)))
   \<and> ((\<forall>it \<in> set items. \<not> stays_inside tmpDir it) \<longrightarrow>
         extract_entries E tmpDir items [] = (None, []))
   \<and> (last (splitSlash (filepath_Clean tmpDir)) \<noteq> ''..'' \<longrightarrow>
        (\<forall>hdr body. TarEntry hdr body \<in> set items \<and> \<not> escapes_root tmpDir (Name hdr) \<longrightarrow>
           (\<exists>rest. rest \<noteq> [] \<and> list_all plain_name rest
              \<and> splitSlash (filepath_Clean (filepath_Join [tmpDir, Name hdr])) =
                  splitSlash (filepath_Clean tmpDir) @ rest)))"
proof (intro conjI ballI impI allI)
  show "extract_entries E tmpDir items ops =
     extract_entries E tmpDir (filter (stays_inside tmpDir) items) ops"
    by (rule extract_entries_skips)
next
  fix op
  assume "op \<in> set (snd (extract_entries E tmpDir items []))"
  from extract_entries_ops [OF this]
  show "\<exists>hdr body. TarEntry hdr body \<in> set items \<and> \<not> escapes_root tmpDir (Name hdr)
           \<and> op \<in> set (entry_ops tmpDir hdr body)"
    by simp
next
  fix op
  assume "op \<in> set (snd (extract_entries E tmpDir items []))"
  from extract_entries_ops [OF this]
  obtain hdr body where inside: "\<not> escapes_root tmpDir (Name hdr)"
    and op: "op \<in> set (entry_ops tmpDir hdr body)"
    by auto
  from inside have "prefix (filepath_Clean tmpDir @ ''/'')
      (filepath_Clean (filepath_Join [tmpDir, Name hdr]))"
    by (simp add: escapes_root_def Let_def)
  with op show "prefix (filepath_Clean tmpDir @ ''/'') (filepath_Clean (op_path op))
         \<or> (\<exists>target. op = MkdirAll (filepath_Dir target) 493
               \<and> prefix (filepath_Clean tmpDir @ ''/'') (filepath_Clean target))"
    by (auto simp: entry_ops_def Let_def)
next
  assume "\<forall>it \<in> set items. \<not> stays_inside tmpDir it"
  then have "filter (stays_inside tmpDir) items = []"
    by (simp add: filter_empty_conv)
  with extract_entries_skips [of E tmpDir items "[]"]
  show "extract_entries E tmpDir items [] = (None, [])"
    by simp
next
  fix hdr body
  assume root: "last (splitSlash (filepath_Clean tmpDir)) \<noteq> ''..''"
    and "TarEntry hdr body \<in> set items \<and> \<not> escapes_root tmpDir (Name hdr)"
  then have "prefix (filepath_Clean tmpDir @ ''/'')
      (filepath_Clean (filepath_Join [tmpDir, Name hdr]))"
    by (simp add: escapes_root_def Let_def)
  from prefix_inside_root [OF this root]
  show "\<exists>rest. rest \<noteq> [] \<and> list_all plain_name rest
              \<and> splitSlash (filepath_Clean (filepath_Join [tmpDir, Name hdr])) =
                  splitSlash (filepath_Clean tmpDir) @ rest" .
qed

lemma example_filtered:
  "filter (stays_inside ''/tmp/dg'') example_archive = tl example_archive"
  by (simp add: example_archive_def example_escapes)

theorem extraction_stays_inside_root_witness:
  "extract_entries (example_update_env ''#TARGZ'' ApplyOK) ''/tmp/dg'' example_archive [] =
     extract_entries (example_update_env ''#TARGZ'' ApplyOK) ''/tmp/dg'' (tl example_archive) []
   \<and> snd (extract_entries (example_update_env ''#TARGZ'' ApplyOK) ''/tmp/dg'' example_archive []) =
       [MkdirAll ''/tmp/dg'' 493, OpenFile ''/tmp/dg/index.html'' 420,
        CopyTo ''/tmp/dg/index.html'' ''<html>'', MkdirAll ''/tmp/dg/assets'' 448]
   \<and> prefix (filepath_Clean ''/tmp/dg'' @ ''/'') (filepath_Clean ''/tmp/dg/index.html'')
   \<and> extract_entries (example_update_env ''#TARGZ'' ApplyOK) ''/tmp/dg''
         [TarEntry \<lparr>Name = ''../etc/passwd'', Typeflag = TypeReg, Mode = 420\<rparr> ''root:'',
          TarEntry \<lparr>Name = ''a/../../dg2/x'', Typeflag = TypeDir, Mode = 493\<rparr> []] [] = (None, [])
   \<and> (\<exists>rest. rest \<noteq> [] \<and> list_all plain_name rest
         \<and> splitSlash (filepath_Clean (filepath_Join [''/tmp/dg'', ''index.html''])) =
             splitSlash (filepath_Clean ''/tmp/dg'') @ rest)"
proof -
  let ?E = "example_update_env ''#TARGZ'' ApplyOK"
  let ?out = "[TarEntry \<lparr>Name = ''../etc/passwd'', Typeflag = TypeReg, Mode = 420\<rparr> ''root:'',
          TarEntry \<lparr>Name = ''a/../../dg2/x'', Typeflag = TypeDir, Mode = 493\<rparr> []]"
  note a = extraction_stays_inside_root [of ?E "''/tmp/dg''" example_archive "[]"]
  note b = extraction_stays_inside_root [of ?E "''/tmp/dg''" ?out "[]"]
  from a have 1: "extract_entries ?E ''/tmp/dg'' example_archive [] =
     extract_entries ?E ''/tmp/dg'' (tl example_archive) []"
    by (simp only: example_filtered)
  have 2: "snd (extract_entries ?E ''/tmp/dg'' example_archive []) =
       [MkdirAll ''/tmp/dg'' 493, OpenFile ''/tmp/dg/index.html'' 420,
        CopyTo ''/tmp/dg/index.html'' ''<html>'', MkdirAll ''/tmp/dg/assets'' 448]"
    by (simp add: example_extract)
  have mem: "OpenFile ''/tmp/dg/index.html'' 420
      \<in> set (snd (extract_entries ?E ''/tmp/dg'' example_archive []))"
    by (simp add: 2)
  from a have "\<forall>op \<in> set (snd (extract_entries ?E ''/tmp/dg'' example_archive [])).
         prefix (filepath_Clean ''/tmp/dg'' @ ''/'') (filepath_Clean (op_path op))
         \<or> (\<exists>target. op = MkdirAll (filepath_Dir target) 493
               \<and> prefix (filepath_Clean ''/tmp/dg'' @ ''/'') (filepath_Clean target))"
    by blast
  from this [rule_format, OF mem]
  have 3: "prefix (filepath_Clean ''/tmp/dg'' @ ''/'') (filepath_Clean ''/tmp/dg/index.html'')"
    by simp
  have esc: "\<forall>it \<in> set ?out. \<not> stays_inside ''/tmp/dg'' it"
    by (simp add: example_escapes)
  from b esc have 4: "extract_entries ?E ''/tmp/dg'' ?out [] = (None, [])"
    by blast
  have root: "last (splitSlash (filepath_Clean ''/tmp/dg'')) \<noteq> ''..''"
    by (simp add: filepath_Clean_def Let_def)
  have entry: "TarEntry \<lparr>Name = ''index.html'', Typeflag = TypeReg, Mode = 420\<rparr> ''<html>''
        \<in> set example_archive
      \<and> \<not> escapes_root ''/tmp/dg''
          (Name \<lparr>Name = ''index.html'', Typeflag = TypeReg, Mode = 420\<rparr>)"
    by (simp add: example_archive_def example_escapes)
  from a root have "\<forall>hdr body. TarEntry hdr body \<in> set example_archive
          \<and> \<not> escapes_root ''/tmp/dg'' (Name hdr) \<longrightarrow>
           (\<exists>rest. rest \<noteq> [] \<and> list_all plain_name rest
              \<and> splitSlash (filepath_Clean (filepath_Join [''/tmp/dg'', Name hdr])) =
                  splitSlash (filepath_Clean ''/tmp/dg'') @ rest)"
    by blast
  from this [rule_format, OF entry]
  have 5: "\<exists>rest. rest \<noteq> [] \<and> list_all plain_name rest
         \<and> splitSlash (filepath_Clean (filepath_Join [''/tmp/dg'', ''index.html''])) =
             splitSlash (filepath_Clean ''/tmp/dg'') @ rest"
    by simp
  from 1 2 3 4 5 show ?thesis by blast
qed

text \<open>
  Claim C2. In a backend attempt whose download gives a digest different from the one
  the server declared, and in a frontend attempt whose archive has been read to its end
  with a digest different from the declared one: the Guard with its versions is as
  before, the file system is as before except that the temporary file or directory is
  gone, no later stage has run, and \<open>OnUpdateFailure\<close>, when set, is called with an error
  that wraps \<open>ErrUpdateVerify\<close>. An attempt of either kind that ends in success had a
  digest equal to the declared one.
\<close>

theorem hash_mismatch_never_applied:
  "(backend_meta E g u = Inr (url, declared, signature)
      \<and> backend_download E g fs url = (Inr (tmpPath, actual), fs1)
      \<and> actual \<noteq> declared \<longrightarrow>
      up_guard (updateBackend E g u fs) = g
      \<and> up_fs (updateBackend E g u fs) = fs(tmpPath := Absent)
      \<and> (\<exists>cause. up_err (updateBackend E g u fs) = Some cause
            \<and> up_events (updateBackend E g u fs) =
                backend_verifying g
                @ emit (OnUpdateFailure (OTA (cfg g)))
                    (Failure (ComponentSlug (cfg g)) (Wrapf ErrUpdateVerify cause))
                @ emit (OnUpdateResult (OTA (cfg g)))
                    (UpdateResult (ComponentSlug (cfg g)) (version g) (Latest u) False
                       (Some cause))))
   \<and> (frontend_meta E g mc u = Inr resp \<and> dm_Error resp = []
      \<and> frontend_get E g resp = Inr (200, body)
      \<and> mkdir_temp E = Inr tmpDir
      \<and> gunzip_err E (limited g body) = None
      \<and> extract_entries E tmpDir (untar E (limited g body)) [] = (None, ops)
      \<and> frontend_digest E g body \<noteq> dm_SHA256 resp \<longrightarrow>
      up_guard (updateFrontend E g mc u fs) = g
      \<and> up_fs (updateFrontend E g mc u fs) = fs(tmpDir := Absent)
      \<and> up_err (updateFrontend E g mc u fs) = Some (Wrapf ErrUpdateVerify (Errorf ''hash mismatch''))
      \<and> up_events (updateFrontend E g mc u fs) =
          frontend_verifying g mc
          @ emit (OnUpdateFailure (OTA (cfg g)))
              (Failure (Slug mc) (Wrapf ErrUpdateVerify (Errorf ''hash mismatch''))))
   \<and> (up_err (updateBackend E g u fs) = None \<longrightarrow>
        (\<exists>url declared signature tmpPath fs1.
            backend_meta E g u = Inr (url, declared, signature)
            \<and> backend_download E g fs url = (Inr (tmpPath, declared), fs1)))
   \<and> (up_err (updateFrontend E g mc u fs) = None \<longrightarrow>
        (\<exists>resp body. frontend_meta E g mc u = Inr resp
            \<and> frontend_get E g resp = Inr (200, body)
            \<and> frontend_digest E g body = dm_SHA256 resp))"
proof -
  have b: "(backend_meta E g u = Inr (url, declared, signature)
      \<and> backend_download E g fs url = (Inr (tmpPath, actual), fs1)
      \<and> actual \<noteq> declared \<longrightarrow>
      up_guard (updateBackend E g u fs) = g
      \<and> up_fs (updateBackend E g u fs) = fs(tmpPath := Absent)
      \<and> (\<exists>cause. up_err (updateBackend E g u fs) = Some cause
            \<and> up_events (updateBackend E g u fs) =
                backend_verifying g
                @ emit (OnUpdateFailure (OTA (cfg g)))
                    (Failure (ComponentSlug (cfg g)) (Wrapf ErrUpdateVerify cause))
                @ emit (OnUpdateResult (OTA (cfg g)))
                    (UpdateResult (ComponentSlug (cfg g)) (version g) (Latest u) False
                       (Some cause))))"
  proof (rule impI)
    assume a: "backend_meta E g u = Inr (url, declared, signature)
        \<and> backend_download E g fs url = (Inr (tmpPath, actual), fs1)
        \<and> actual \<noteq> declared"
    then have meta: "backend_meta E g u = Inr (url, declared, signature)"
      and dl: "backend_download E g fs url = (Inr (tmpPath, actual), fs1)"
      and ne: "actual \<noteq> declared"
      by simp_all
    from ub_hash_mismatch [OF meta dl ne] download_done_fs [OF dl]
    show "up_guard (updateBackend E g u fs) = g
        \<and> up_fs (updateBackend E g u fs) = fs(tmpPath := Absent)
        \<and> (\<exists>cause. up_err (updateBackend E g u fs) = Some cause
              \<and> up_events (updateBackend E g u fs) =
                  backend_verifying g
                  @ emit (OnUpdateFailure (OTA (cfg g)))
                      (Failure (ComponentSlug (cfg g)) (Wrapf ErrUpdateVerify cause))
                  @ emit (OnUpdateResult (OTA (cfg g)))
                      (UpdateResult (ComponentSlug (cfg g)) (version g) (Latest u) False
                         (Some cause)))"
      by (simp add: backend_failed_def)
  qed
  have f: "(frontend_meta E g mc u = Inr resp \<and> dm_Error resp = []
      \<and> frontend_get E g resp = Inr (200, body)
      \<and> mkdir_temp E = Inr tmpDir
      \<and> gunzip_err E (limited g body) = None
      \<and> extract_entries E tmpDir (untar E (limited g body)) [] = (None, ops)
      \<and> frontend_digest E g body \<noteq> dm_SHA256 resp \<longrightarrow>
      up_guard (updateFrontend E g mc u fs) = g
      \<and> up_fs (updateFrontend E g mc u fs) = fs(tmpDir := Absent)
      \<and> up_err (updateFrontend E g mc u fs) = Some (Wrapf ErrUpdateVerify (Errorf ''hash mismatch''))
      \<and> up_events (updateFrontend E g mc u fs) =
          frontend_verifying g mc
          @ emit (OnUpdateFailure (OTA (cfg g)))
              (Failure (Slug mc) (Wrapf ErrUpdateVerify (Errorf ''hash mismatch''))))"
  proof (rule impI)
    assume "frontend_meta E g mc u = Inr resp \<and> dm_Error resp = []
        \<and> frontend_get E g resp = Inr (200, body)
        \<and> mkdir_temp E = Inr tmpDir
        \<and> gunzip_err E (limited g body) = None
        \<and> extract_entries E tmpDir (untar E (limited g body)) [] = (None, ops)
        \<and> frontend_digest E g body \<noteq> dm_SHA256 resp"
    then have p: "frontend_meta E g mc u = Inr resp" "dm_Error resp = []"
        "frontend_get E g resp = Inr (200, body)"
        "mkdir_temp E = Inr tmpDir"
        "gunzip_err E (limited g body) = None"
        "extract_entries E tmpDir (untar E (limited g body)) [] = (None, ops)"
        "frontend_digest E g body \<noteq> dm_SHA256 resp"
      by simp_all
    from uf_hash_mismatch [OF p] show "up_guard (updateFrontend E g mc u fs) = g
        \<and> up_fs (updateFrontend E g mc u fs) = fs(tmpDir := Absent)
        \<and> up_err (updateFrontend E g mc u fs) = Some (Wrapf ErrUpdateVerify (Errorf ''hash mismatch''))
        \<and> up_events (updateFrontend E g mc u fs) =
            frontend_verifying g mc
            @ emit (OnUpdateFailure (OTA (cfg g)))
                (Failure (Slug mc) (Wrapf ErrUpdateVerify (Errorf ''hash mismatch'')))"
      by simp
  qed
  have sb: "(up_err (updateBackend E g u fs) = None \<longrightarrow>
        (\<exists>url declared signature tmpPath fs1.
            backend_meta E g u = Inr (url, declared, signature)
            \<and> backend_download E g fs url = (Inr (tmpPath, declared), fs1)))"
  proof (rule impI)
    assume ok: "up_err (updateBackend E g u fs) = None"
    show "\<exists>url declared signature tmpPath fs1.
              backend_meta E g u = Inr (url, declared, signature)
              \<and> backend_download E g fs url = (Inr (tmpPath, declared), fs1)"
    proof (cases rule: updateBackend_paths [where E = E and g = g and u = u and fs = fs])
      case (meta_failed e)
      from ub_meta_failed [OF this] ok show ?thesis by simp
    next
      case (download_failed url declared signature e fs1)
      from ub_download_failed [OF this] ok show ?thesis by simp
    next
      case (hash_mismatch url declared signature tmpPath actual fs1)
      from ub_hash_mismatch [OF this] ok show ?thesis by simp
    next
      case (signature_failed url declared signature tmpPath fs1 e)
      from ub_signature_failed [OF this] ok show ?thesis by simp
    next
      case (executable_failed url declared signature tmpPath fs1 e)
      from ub_executable_failed [OF this] ok show ?thesis by simp
    next
      case (apply_failed url declared signature tmpPath fs1 exe e fs2)
      from ub_apply_failed [OF this] ok show ?thesis by simp
    next
      case (applied url declared signature tmpPath fs1 exe fs2)
      then show ?thesis by blast
    qed
  qed
  have sf: "(up_err (updateFrontend E g mc u fs) = None \<longrightarrow>
        (\<exists>resp body. frontend_meta E g mc u = Inr resp
            \<and> frontend_get E g resp = Inr (200, body)
            \<and> frontend_digest E g body = dm_SHA256 resp))"
  proof (rule impI)
    assume ok: "up_err (updateFrontend E g mc u fs) = None"
    show "\<exists>resp body. frontend_meta E g mc u = Inr resp
              \<and> frontend_get E g resp = Inr (200, body)
              \<and> frontend_digest E g body = dm_SHA256 resp"
    proof (cases rule: updateFrontend_paths [where E = E and g = g and mc = mc and u = u and fs = fs])
      case (meta_failed err)
      from uf_meta_failed [OF this] ok show ?thesis by simp
    next
      case (server_error resp)
      from uf_server_error [OF this] ok show ?thesis by simp
    next
      case (get_failed resp err)
      from uf_get_failed [OF this] ok show ?thesis by simp
    next
      case (bad_status resp status body)
      from uf_bad_status [OF this] ok show ?thesis by simp
    next
      case (mkdir_failed resp body err)
      from uf_mkdir_failed [OF this] ok show ?thesis by simp
    next
      case (gunzip_failed resp body tmpDir err)
      from uf_gunzip_failed [OF this] ok show ?thesis by simp
    next
      case (extract_failed resp body tmpDir werr' ops)
      from uf_extract_failed [OF this] ok show ?thesis by simp
    next
      case (hash_mismatch resp body tmpDir ops)
      from uf_hash_mismatch [OF this] ok show ?thesis by simp
    next
      case (swap_failed resp body tmpDir ops err fs3)
      from uf_swap_failed [OF this] ok show ?thesis by simp
    next
      case (swapped resp body tmpDir ops fs3)
      then show ?thesis by blast
    qed
  qed
  show ?thesis
    by (rule conjI, rule b, rule conjI, rule f, rule conjI, rule sb, rule sf)
qed

theorem hash_mismatch_never_applied_witness:
  "up_guard (updateBackend (example_update_env ''badhash'' ApplyOK) example_guard example_update
       example_disk) = example_guard
   \<and> up_fs (updateBackend (example_update_env ''badhash'' ApplyOK) example_guard example_update
       example_disk) ''/opt/app/server'' = File ''BINARY1''
   \<and> (\<exists>cause. Failure ''backend'' (Wrapf ErrUpdateVerify cause)
         \<in> set (up_events (updateBackend (example_update_env ''badhash'' ApplyOK) example_guard
                   example_update example_disk)))
   \<and> up_guard (updateFrontend (example_update_env ''badhash'' ApplyOK) example_guard example_web
       example_update example_disk) = example_guard
   \<and> up_fs (updateFrontend (example_update_env ''badhash'' ApplyOK) example_guard example_web
       example_update example_disk) ''/srv/web'' = Tree [CopyTo ''/srv/web/index.html'' ''<old>'']
   \<and> Failure ''web'' (Wrapf ErrUpdateVerify (Errorf ''hash mismatch''))
         \<in> set (up_events (updateFrontend (example_update_env ''badhash'' ApplyOK) example_guard
                   example_web example_update example_disk))
   \<and> up_err (updateBackend (example_update_env ''#BINARY2'' ApplyOK) example_guard example_update
       example_disk) = None
   \<and> (\<exists>url signature tmpPath fs1.
         backend_download (example_update_env ''#BINARY2'' ApplyOK) example_guard example_disk url
           = (Inr (tmpPath, ''#BINARY2''), fs1))
   \<and> up_err (updateFrontend (example_update_env ''#TARGZ'' ApplyOK) example_guard example_web
       example_update example_disk) = None
   \<and> (\<exists>body. frontend_digest (example_update_env ''#TARGZ'' ApplyOK) example_guard body = ''#TARGZ'')"
proof -
  let ?bad = "example_update_env ''badhash'' ApplyOK"
  let ?okb = "example_update_env ''#BINARY2'' ApplyOK"
  let ?okf = "example_update_env ''#TARGZ'' ApplyOK"
  let ?ops = "[MkdirAll ''/tmp/dg'' 493, OpenFile ''/tmp/dg/index.html'' 420,
             CopyTo ''/tmp/dg/index.html'' ''<html>'', MkdirAll ''/tmp/dg/assets'' 448]"
  have ex: "extract_entries E ''/tmp/dg'' (untar E (limited example_guard ''TARGZ'')) [] = (None, ?ops)"
    if "E = example_update_env d ap" for E d ap
    using that by (simp add: example_frontend_premises example_extract)
  have bprem: "backend_meta ?bad example_guard example_update
        = Inr (''/dl/backend'', ''badhash'', ''#'' @ ''badhash'' @ ''key'')
      \<and> backend_download ?bad example_guard example_disk ''/dl/backend''
        = (Inr (''/tmp/update-1'', ''#BINARY2''), example_disk(''/tmp/update-1'' := File ''BINARY2''))
      \<and> ''#BINARY2'' \<noteq> ''badhash''"
    by (simp add: example_backend_meta example_backend_download)
  have fprem: "frontend_meta ?bad example_guard example_web example_update
        = Inr (example_meta ''web'' ''badhash'')
      \<and> dm_Error (example_meta ''web'' ''badhash'') = []
      \<and> frontend_get ?bad example_guard (example_meta ''web'' ''badhash'') = Inr (200, ''TARGZ'')
      \<and> mkdir_temp ?bad = Inr ''/tmp/dg''
      \<and> gunzip_err ?bad (limited example_guard ''TARGZ'') = None
      \<and> extract_entries ?bad ''/tmp/dg'' (untar ?bad (limited example_guard ''TARGZ'')) [] = (None, ?ops)
      \<and> frontend_digest ?bad example_guard ''TARGZ'' \<noteq> dm_SHA256 (example_meta ''web'' ''badhash'')"
    using ex [of ?bad "''badhash''" ApplyOK] by (simp add: example_frontend_premises)
  note bad = hash_mismatch_never_applied [where E = ?bad and g = example_guard
      and u = example_update and fs = example_disk and mc = example_web
      and url = "''/dl/backend''" and declared = "''badhash''"
      and signature = "''#'' @ ''badhash'' @ ''key''" and tmpPath = "''/tmp/update-1''"
      and actual = "''#BINARY2''" and ?fs1.0 = "example_disk(''/tmp/update-1'' := File ''BINARY2'')"
      and resp = "example_meta ''web'' ''badhash''" and body = "''TARGZ''"
      and tmpDir = "''/tmp/dg''" and ops = ?ops]
  from bad bprem
  have b: "up_guard (updateBackend ?bad example_guard example_update example_disk) = example_guard
      \<and> up_fs (updateBackend ?bad example_guard example_update example_disk)
          = example_disk(''/tmp/update-1'' := Absent)
      \<and> (\<exists>cause. up_err (updateBackend ?bad example_guard example_update example_disk) = Some cause
            \<and> up_events (updateBackend ?bad example_guard example_update example_disk) =
                backend_verifying example_guard
                @ emit (OnUpdateFailure (OTA (cfg example_guard)))
                    (Failure (ComponentSlug (cfg example_guard)) (Wrapf ErrUpdateVerify cause))
                @ emit (OnUpdateResult (OTA (cfg example_guard)))
                    (UpdateResult (ComponentSlug (cfg example_guard)) (version example_guard)
                       (Latest example_update) False (Some cause)))"
    by blast
  then have 1: "up_guard (updateBackend ?bad example_guard example_update example_disk) = example_guard"
    and 2: "up_fs (updateBackend ?bad example_guard example_update example_disk) ''/opt/app/server''
        = File ''BINARY1''"
    and 3: "\<exists>cause. Failure ''backend'' (Wrapf ErrUpdateVerify cause)
         \<in> set (up_events (updateBackend ?bad example_guard example_update example_disk))"
    by (auto simp: example_disk_simps example_guard_callbacks example_guard_simps emit_def)
  from bad fprem
  have f: "up_guard (updateFrontend ?bad example_guard example_web example_update example_disk)
        = example_guard
      \<and> up_fs (updateFrontend ?bad example_guard example_web example_update example_disk)
        = example_disk(''/tmp/dg'' := Absent)
      \<and> up_err (updateFrontend ?bad example_guard example_web example_update example_disk)
        = Some (Wrapf ErrUpdateVerify (Errorf ''hash mismatch''))
      \<and> up_events (updateFrontend ?bad example_guard example_web example_update example_disk) =
          frontend_verifying example_guard example_web
          @ emit (OnUpdateFailure (OTA (cfg example_guard)))
              (Failure (Slug example_web) (Wrapf ErrUpdateVerify (Errorf ''hash mismatch'')))"
    by blast
  then have 4: "up_guard (updateFrontend ?bad example_guard example_web example_update example_disk)
        = example_guard"
    and 5: "up_fs (updateFrontend ?bad example_guard example_web example_update example_disk)
        ''/srv/web'' = Tree [CopyTo ''/srv/web/index.html'' ''<old>'']"
    and 6: "Failure ''web'' (Wrapf ErrUpdateVerify (Errorf ''hash mismatch''))
         \<in> set (up_events (updateFrontend ?bad example_guard example_web example_update example_disk))"
    by (simp_all add: example_disk_simps example_guard_callbacks emit_def)
  have 7: "up_err (updateBackend ?okb example_guard example_update example_disk) = None"
    using ub_applied [OF example_backend_meta [of "''#BINARY2''" ApplyOK]
        example_backend_download [of "''#BINARY2''" ApplyOK]
        example_verifySignature [of "''#BINARY2''" ApplyOK]
        example_executable(1) [of "''#BINARY2''" ApplyOK]
        example_apply(1) [of "''#BINARY2''"]]
    by simp
  from hash_mismatch_never_applied [where E = ?okb and g = example_guard
      and u = example_update and fs = example_disk] 7
  have "\<exists>url declared signature tmpPath fs1.
            backend_meta ?okb example_guard example_update = Inr (url, declared, signature)
            \<and> backend_download ?okb example_guard example_disk url = (Inr (tmpPath, declared), fs1)"
    by blast
  then have 8: "\<exists>url signature tmpPath fs1.
         backend_download ?okb example_guard example_disk url = (Inr (tmpPath, ''#BINARY2''), fs1)"
    by (auto simp: example_backend_meta)
  obtain fs3 where sw: "swap_directories ?okf ''/tmp/dg'' (Dir example_web)
        (example_disk(''/tmp/dg'' := Tree ?ops)) = (None, fs3)"
    using example_swap [of "''#TARGZ''" ApplyOK ?ops]
    by (cases "swap_directories ?okf ''/tmp/dg'' (Dir example_web)
        (example_disk(''/tmp/dg'' := Tree ?ops))") (simp add: example_guard_callbacks)
  have 9: "up_err (updateFrontend ?okf example_guard example_web example_update example_disk) = None"
    using uf_swapped [OF example_frontend_premises(1) [of "''#TARGZ''" ApplyOK]
        example_frontend_premises(2) [of "''#TARGZ''"]
        example_frontend_premises(4) [of "''#TARGZ''" ApplyOK]
        example_frontend_premises(5) [of "''#TARGZ''" ApplyOK]
        example_frontend_premises(6) [of "''#TARGZ''" ApplyOK]
        ex [OF refl, of "''#TARGZ''" ApplyOK] _ sw]
    by (simp add: example_frontend_premises)
  from hash_mismatch_never_applied [where E = ?okf and g = example_guard
      and u = example_update and fs = example_disk and mc = example_web] 9
  have "\<exists>resp body. frontend_meta ?okf example_guard example_web example_update = Inr resp
            \<and> frontend_get ?okf example_guard resp = Inr (200, body)
            \<and> frontend_digest ?okf example_guard body = dm_SHA256 resp"
    by blast
  then obtain resp body
    where r: "frontend_meta ?okf example_guard example_web example_update = Inr resp"
      and d: "frontend_digest ?okf example_guard body = dm_SHA256 resp"
    by blast
  from r have "resp = example_meta ''web'' ''#TARGZ''"
    by (simp add: example_frontend_premises(1))
  with d have "frontend_digest ?okf example_guard body = ''#TARGZ''"
    by (simp only: example_frontend_premises(3))
  then have 10: "\<exists>body. frontend_digest ?okf example_guard body = ''#TARGZ''"
    by blast
  from 1 2 3 4 5 6 7 8 9 10 show ?thesis by blast
qed

lemma failure_report_last:
  assumes "evs = filter is_progress evs @ emit b (Failure c w)"
  shows "prefix (filter is_progress evs @ emit b (Failure c w)) evs"
    and "UpdateResult c' old new ok eo \<notin> set evs"
    and "PostUpdateHook c' \<notin> set evs"
proof -
  from assms show "prefix (filter is_progress evs @ emit b (Failure c w)) evs"
    by (metis prefix_order.order_refl)
  from assms have s: "set evs = set (filter is_progress evs) \<union> set (emit b (Failure c w))"
    by (metis set_append)
  show "UpdateResult c' old new ok eo \<notin> set evs"
    by (subst s) (simp add: emit_def)
  show "PostUpdateHook c' \<notin> set evs"
    by (subst s) (simp add: emit_def)
qed

lemma example_readonly_premises:
  "frontend_meta example_readonly_env example_guard example_web example_update =
     Inr (example_meta ''web'' ''#TARGZ'')"
  "frontend_get example_readonly_env example_guard (example_meta ''web'' ''#TARGZ'') =
     Inr (200, ''TARGZ'')"
  "mkdir_temp example_readonly_env = Inr ''/tmp/dg''"
  "gunzip_err example_readonly_env (limited example_guard ''TARGZ'') = None"
  "untar example_readonly_env (limited example_guard ''TARGZ'') = example_archive"
  "frontend_digest example_readonly_env example_guard ''TARGZ'' = ''#TARGZ''"
  by (simp_all add: example_readonly_env_def example_update_env_def example_meta_def
      download_request_def example_guard_def example_web_def)

lemma example_readonly_extract:
  "extract_entries example_readonly_env ''/tmp/dg'' example_archive [] =
     (None, [MkdirAll ''/tmp/dg'' 493, OpenFile ''/tmp/dg/index.html'' 420,
             CopyTo ''/tmp/dg/index.html'' ''<html>'', MkdirAll ''/tmp/dg/assets'' 448])"
  by (simp add: example_archive_def example_escapes example_targets Let_def TypeReg_def
      TypeDir_def example_readonly_env_def example_update_env_def)

lemma example_readonly_swap:
  "fst (swap_directories example_readonly_env ''/tmp/dg'' ''/srv/web''
          (example_disk(''/tmp/dg'' := Tree ops))) = Some (Errorf ''permission denied'')"
  "snd (swap_directories example_readonly_env ''/tmp/dg'' ''/srv/web''
          (example_disk(''/tmp/dg'' := Tree ops))) ''/srv/web'' = Absent"
  by (simp_all add: swap_directories_def move_new_dir_def os_Rename_def Let_def example_disk_def
      example_readonly_env_def example_update_env_def)

lemma example_frontend_mismatch:
  "updateFrontend (example_update_env ''badhash'' ap) example_guard example_web example_update
     example_disk =
   frontend_failed example_guard example_web (example_disk(''/tmp/dg'' := Absent))
     (frontend_verifying example_guard example_web)
     (Wrapf ErrUpdateVerify (Errorf ''hash mismatch''))"
proof (rule uf_hash_mismatch)
  show "extract_entries (example_update_env ''badhash'' ap) ''/tmp/dg''
      (untar (example_update_env ''badhash'' ap) (limited example_guard ''TARGZ'')) [] =
     (None, [MkdirAll ''/tmp/dg'' 493, OpenFile ''/tmp/dg/index.html'' 420,
             CopyTo ''/tmp/dg/index.html'' ''<html>'', MkdirAll ''/tmp/dg/assets'' 448])"
    by (simp add: example_frontend_premises example_extract)
  show "frontend_digest (example_update_env ''badhash'' ap) example_guard ''TARGZ''
      \<noteq> dm_SHA256 (example_meta ''web'' ''badhash'')"
    by (simp add: example_frontend_premises)
qed (rule example_frontend_premises)+

text \<open>
  Claim C7, as amended. An update attempt that fails at any stage leaves the Guard with
  its versions as it was, and stops there: the progress events made so far come first,
  then the call of \<open>OnUpdateFailure\<close> (when set) with the error wrapped in the sentinel of
  the failing stage, and no later stage reports progress, success or runs the post-update
  hook. A backend attempt then calls \<open>OnUpdateResult\<close> with \<open>success = false\<close> and the
  error, and that is its last call. The file system of a failed backend attempt is as
  before (the temporary file apart) unless \<open>update.Apply\<close> reports that its rollback
  failed; the live directory of a failed frontend attempt is as before unless the
  rename of the backup back to the live path fails.
\<close>

theorem update_failure_reporting:
  "(up_err (updateBackend E g u fs) = Some err \<longrightarrow>
      up_guard (updateBackend E g u fs) = g
      \<and> (\<exists>stage. (stage = ErrUpdateDownload \<or> stage = ErrUpdateVerify \<or> stage = ErrUpdateApply)
            \<and> up_events (updateBackend E g u fs) =
                filter is_progress (up_events (updateBackend E g u fs))
                @ emit (OnUpdateFailure (OTA (cfg g)))
                    (Failure (ComponentSlug (cfg g)) (Wrapf stage err))
                @ emit (OnUpdateResult (OTA (cfg g)))
                    (UpdateResult (ComponentSlug (cfg g)) (version g) (Latest u) False (Some err)))
      \<and> ((\<forall>e r. apply_outcome E \<noteq> ApplyRollbackFailed e r) \<longrightarrow>
            up_fs (updateBackend E g u fs) = fs
            \<or> (\<exists>tmp. create_temp E = Inr tmp
                  \<and> up_fs (updateBackend E g u fs) = fs(tmp := Absent))))
   \<and> (up_err (updateFrontend E g mc u fs) = Some werr \<longrightarrow>
      up_guard (updateFrontend E g mc u fs) = g
      \<and> prefix (filter is_progress (up_events (updateFrontend E g mc u fs))
                 @ emit (OnUpdateFailure (OTA (cfg g))) (Failure (Slug mc) werr))
          (up_events (updateFrontend E g mc u fs))
      \<and> (\<forall>c old new eo.
            UpdateResult c old new True eo \<notin> set (up_events (updateFrontend E g mc u fs)))
      \<and> (\<forall>c. PostUpdateHook c \<notin> set (up_events (updateFrontend E g mc u fs)))
      \<and> (\<exists>stage cause.
            (stage = ErrUpdateDownload \<or> stage = ErrUpdateVerify \<or> stage = ErrUpdateApply)
            \<and> werr = Wrapf stage cause)
      \<and> (rename_err E (Dir mc @ ''.bak'') (Dir mc) = None
          \<and> (\<forall>tmpDir. mkdir_temp E = Inr tmpDir \<longrightarrow> fs tmpDir = Absent) \<longrightarrow>
            up_fs (updateFrontend E g mc u fs) (Dir mc) = fs (Dir mc)))"
proof (intro conjI impI allI)
  assume a: "up_err (updateBackend E g u fs) = Some err"
  from updateBackend_failure [OF a]
  show "up_guard (updateBackend E g u fs) = g" by simp
  from updateBackend_failure [OF a]
  show "\<exists>stage. (stage = ErrUpdateDownload \<or> stage = ErrUpdateVerify \<or> stage = ErrUpdateApply)
            \<and> up_events (updateBackend E g u fs) =
                filter is_progress (up_events (updateBackend E g u fs))
                @ emit (OnUpdateFailure (OTA (cfg g)))
                    (Failure (ComponentSlug (cfg g)) (Wrapf stage err))
                @ emit (OnUpdateResult (OTA (cfg g)))
                    (UpdateResult (ComponentSlug (cfg g)) (version g) (Latest u) False (Some err))"
    by (simp add: backend_failed_def)
  assume "\<forall>e r. apply_outcome E \<noteq> ApplyRollbackFailed e r"
  from updateBackend_failure_fs [OF a this]
  show "up_fs (updateBackend E g u fs) = fs
            \<or> (\<exists>tmp. create_temp E = Inr tmp
                  \<and> up_fs (updateBackend E g u fs) = fs(tmp := Absent))" .
next
  assume a: "up_err (updateFrontend E g mc u fs) = Some werr"
  from updateFrontend_failure [OF a]
  show "up_guard (updateFrontend E g mc u fs) = g"
    and "\<exists>stage cause.
            (stage = ErrUpdateDownload \<or> stage = ErrUpdateVerify \<or> stage = ErrUpdateApply)
            \<and> werr = Wrapf stage cause"
    by simp_all
  from updateFrontend_failure [OF a]
  have evs: "up_events (updateFrontend E g mc u fs) =
          filter is_progress (up_events (updateFrontend E g mc u fs))
          @ emit (OnUpdateFailure (OTA (cfg g))) (Failure (Slug mc) werr)"
    by simp
  show "prefix (filter is_progress (up_events (updateFrontend E g mc u fs))
                 @ emit (OnUpdateFailure (OTA (cfg g))) (Failure (Slug mc) werr))
          (up_events (updateFrontend E g mc u fs))"
    by (rule failure_report_last(1) [OF evs])
  show "\<And>c old new eo.
          UpdateResult c old new True eo \<notin> set (up_events (updateFrontend E g mc u fs))"
    by (rule failure_report_last(2) [OF evs])
  show "\<And>c. PostUpdateHook c \<notin> set (up_events (updateFrontend E g mc u fs))"
    by (rule failure_report_last(3) [OF evs])
  assume "rename_err E (Dir mc @ ''.bak'') (Dir mc) = None
          \<and> (\<forall>tmpDir. mkdir_temp E = Inr tmpDir \<longrightarrow> fs tmpDir = Absent)"
  then have p: "rename_err E (Dir mc @ ''.bak'') (Dir mc) = None"
    and q: "\<forall>tmpDir. mkdir_temp E = Inr tmpDir \<longrightarrow> fs tmpDir = Absent"
    by simp_all
  from updateFrontend_failure_live [OF a p q]
  show "up_fs (updateFrontend E g mc u fs) (Dir mc) = fs (Dir mc)" .
qed

theorem update_failure_reporting_witness:
  "up_err (updateBackend (example_update_env ''#BINARY2'' (ApplyFailed (Errorf ''text file busy'')))
       example_guard example_update example_disk) = Some (Errorf ''text file busy'')
   \<and> up_guard (updateBackend (example_update_env ''#BINARY2'' (ApplyFailed (Errorf ''text file busy'')))
       example_guard example_update example_disk) = example_guard
   \<and> up_events (updateBackend (example_update_env ''#BINARY2'' (ApplyFailed (Errorf ''text file busy'')))
       example_guard example_update example_disk) =
       [Progress ''backend'' ''requesting'' 0, Progress ''backend'' ''downloading'' 3,
        Progress ''backend'' ''verifying'' 6, Progress ''backend'' ''applying'' 8,
        Failure ''backend'' (Wrapf ErrUpdateApply (Errorf ''text file busy'')),
        UpdateResult ''backend'' ''1.0.0'' ''2.0.0'' False (Some (Errorf ''text file busy''))]
   \<and> up_fs (updateBackend (example_update_env ''#BINARY2'' (ApplyFailed (Errorf ''text file busy'')))
       example_guard example_update example_disk) ''/opt/app/server'' = File ''BINARY1''
   \<and> up_err (updateFrontend (example_update_env ''badhash'' ApplyOK) example_guard example_web
       example_update example_disk) = Some (Wrapf ErrUpdateVerify (Errorf ''hash mismatch''))
   \<and> up_guard (updateFrontend (example_update_env ''badhash'' ApplyOK) example_guard example_web
       example_update example_disk) = example_guard
   \<and> up_fs (updateFrontend (example_update_env ''badhash'' ApplyOK) example_guard example_web
       example_update example_disk) ''/srv/web'' = Tree [CopyTo ''/srv/web/index.html'' ''<old>'']
   \<and> Failure ''web'' (Wrapf ErrUpdateVerify (Errorf ''hash mismatch''))
       \<in> set (up_events (updateFrontend (example_update_env ''badhash'' ApplyOK) example_guard
                 example_web example_update example_disk))"
proof -
  let ?busy = "example_update_env ''#BINARY2'' (ApplyFailed (Errorf ''text file busy''))"
  let ?bad = "example_update_env ''badhash'' ApplyOK"
  let ?rb = "updateBackend ?busy example_guard example_update example_disk"
  let ?rf = "updateFrontend ?bad example_guard example_web example_update example_disk"
  have run: "?rb =
           \<lparr>up_guard = example_guard,
            up_fs = (example_disk(''/tmp/update-1'' := File ''BINARY2''))(''/tmp/update-1'' := Absent),
            up_events = backend_applying example_guard
              @ backend_failed example_guard example_update ErrUpdateApply (Errorf ''text file busy''),
            up_err = Some (Errorf ''text file busy'')\<rparr>"
    by (rule ub_apply_failed [OF example_backend_meta example_backend_download
          example_verifySignature example_executable(1) example_apply(3)])
  then have 1: "up_err ?rb = Some (Errorf ''text file busy'')"
    by simp
  have norb: "\<forall>e r. apply_outcome ?busy \<noteq> ApplyRollbackFailed e r"
    by (simp add: example_executable)
  note b = update_failure_reporting [where E = ?busy and g = example_guard and u = example_update
      and fs = example_disk and err = "Errorf ''text file busy''"]
  from b 1 have 2: "up_guard ?rb = example_guard"
    by blast
  from b 1 norb have "up_fs ?rb = example_disk
            \<or> (\<exists>tmp. create_temp ?busy = Inr tmp \<and> up_fs ?rb = example_disk(tmp := Absent))"
    by blast
  then have 4: "up_fs ?rb ''/opt/app/server'' = File ''BINARY1''"
    by (auto simp: example_executable example_disk_simps)
  have 3: "up_events ?rb =
       [Progress ''backend'' ''requesting'' 0, Progress ''backend'' ''downloading'' 3,
        Progress ''backend'' ''verifying'' 6, Progress ''backend'' ''applying'' 8,
        Failure ''backend'' (Wrapf ErrUpdateApply (Errorf ''text file busy'')),
        UpdateResult ''backend'' ''1.0.0'' ''2.0.0'' False (Some (Errorf ''text file busy''))]"
    by (simp add: run backend_applying_def backend_verifying_def backend_failed_def progress_def
        emit_def example_guard_callbacks example_guard_simps)
  have 5: "up_err ?rf = Some (Wrapf ErrUpdateVerify (Errorf ''hash mismatch''))"
    by (simp add: example_frontend_mismatch)
  have ok: "rename_err ?bad (Dir example_web @ ''.bak'') (Dir example_web) = None
          \<and> (\<forall>tmpDir. mkdir_temp ?bad = Inr tmpDir \<longrightarrow> example_disk tmpDir = Absent)"
    by (simp add: example_executable example_frontend_premises example_disk_simps)
  note f = update_failure_reporting [where E = ?bad and g = example_guard and u = example_update
      and fs = example_disk and mc = example_web
      and werr = "Wrapf ErrUpdateVerify (Errorf ''hash mismatch'')"]
  from f 5 have 6: "up_guard ?rf = example_guard"
    by blast
  from f 5 ok have "up_fs ?rf (Dir example_web) = example_disk (Dir example_web)"
    by blast
  then have 7: "up_fs ?rf ''/srv/web'' = Tree [CopyTo ''/srv/web/index.html'' ''<old>'']"
    by (simp add: example_guard_callbacks example_disk_simps)
  from f 5 have "prefix (filter is_progress (up_events ?rf)
                 @ emit (OnUpdateFailure (OTA (cfg example_guard)))
                     (Failure (Slug example_web) (Wrapf ErrUpdateVerify (Errorf ''hash mismatch''))))
          (up_events ?rf)"
    by blast
  then have "set (filter is_progress (up_events ?rf)
                 @ emit (OnUpdateFailure (OTA (cfg example_guard)))
                     (Failure (Slug example_web) (Wrapf ErrUpdateVerify (Errorf ''hash mismatch''))))
          \<subseteq> set (up_events ?rf)"
    by (rule set_mono_prefix)
  then have 8: "Failure ''web'' (Wrapf ErrUpdateVerify (Errorf ''hash mismatch''))
       \<in> set (up_events ?rf)"
    by (simp add: emit_def example_guard_callbacks)
  from 1 2 3 4 5 6 7 8 show ?thesis by blast
qed

text \<open>
  The live state is not always left as it was: a backend attempt in which \<open>update.Apply\<close>
  reports a failed rollback ends with the executable gone from its path, and a frontend
  attempt in which the rename of the new directory and the rename of the backup back
  both fail ends with the live directory gone.
\<close>

theorem update_failure_reporting_counterexample:
  "example_disk ''/opt/app/server'' = File ''BINARY1''
   \<and> up_err (updateBackend
        (example_update_env ''#BINARY2''
           (ApplyRollbackFailed (Errorf ''text file busy'') (Errorf ''permission denied'')))
        example_guard example_update example_disk)
       = Some (Wrapf ErrUpdateRollback (Errorf ''permission denied''))
   \<and> up_fs (updateBackend
        (example_update_env ''#BINARY2''
           (ApplyRollbackFailed (Errorf ''text file busy'') (Errorf ''permission denied'')))
        example_guard example_update example_disk) ''/opt/app/server'' = Absent
   \<and> example_disk ''/srv/web'' = Tree [CopyTo ''/srv/web/index.html'' ''<old>'']
   \<and> up_err (updateFrontend example_readonly_env example_guard example_web example_update
        example_disk) = Some (Wrapf ErrUpdateApply (Errorf ''permission denied''))
   \<and> up_fs (updateFrontend example_readonly_env example_guard example_web example_update
        example_disk) ''/srv/web'' = Absent"
proof -
  let ?rbf = "example_update_env ''#BINARY2''
           (ApplyRollbackFailed (Errorf ''text file busy'') (Errorf ''permission denied''))"
  let ?ops = "[MkdirAll ''/tmp/dg'' 493, OpenFile ''/tmp/dg/index.html'' 420,
             CopyTo ''/tmp/dg/index.html'' ''<html>'', MkdirAll ''/tmp/dg/assets'' 448]"
  have run: "updateBackend ?rbf example_guard example_update example_disk =
           \<lparr>up_guard = example_guard,
            up_fs = ((example_disk(''/tmp/update-1'' := File ''BINARY2''))
                      (''/opt/app/server'' @ ''.bak'' :=
                         (example_disk(''/tmp/update-1'' := File ''BINARY2'')) ''/opt/app/server'',
                       ''/opt/app/server'' := Absent))(''/tmp/update-1'' := Absent),
            up_events = backend_applying example_guard
              @ backend_failed example_guard example_update ErrUpdateApply
                  (Wrapf ErrUpdateRollback (Errorf ''permission denied'')),
            up_err = Some (Wrapf ErrUpdateRollback (Errorf ''permission denied''))\<rparr>"
    by (rule ub_apply_failed [OF example_backend_meta example_backend_download
          example_verifySignature example_executable(1) example_apply(2)])
  obtain fs3 where
    sw: "swap_directories example_readonly_env ''/tmp/dg'' (Dir example_web)
           (example_disk(''/tmp/dg'' := Tree ?ops)) = (Some (Errorf ''permission denied''), fs3)"
    and gone: "fs3 ''/srv/web'' = Absent"
    using example_readonly_swap [of ?ops]
    by (cases "swap_directories example_readonly_env ''/tmp/dg'' (Dir example_web)
           (example_disk(''/tmp/dg'' := Tree ?ops))")
       (simp add: example_guard_callbacks)
  have ex: "extract_entries example_readonly_env ''/tmp/dg''
      (untar example_readonly_env (limited example_guard ''TARGZ'')) [] = (None, ?ops)"
    by (simp add: example_readonly_premises example_readonly_extract)
  have dg: "frontend_digest example_readonly_env example_guard ''TARGZ''
      = dm_SHA256 (example_meta ''web'' ''#TARGZ'')"
    by (simp add: example_readonly_premises example_frontend_premises)
  have runf: "updateFrontend example_readonly_env example_guard example_web example_update
        example_disk =
      frontend_failed example_guard example_web (fs3(''/tmp/dg'' := Absent))
        (frontend_applying example_guard example_web)
        (Wrapf ErrUpdateApply (Errorf ''permission denied''))"
    by (rule uf_swap_failed [OF example_readonly_premises(1) example_frontend_premises(2)
          example_readonly_premises(2) example_readonly_premises(3)
          example_readonly_premises(4) ex dg sw])
  show ?thesis
    by (simp add: run runf gone example_disk_simps)
qed

end
